theory Spec2Isabelle
  imports Complex_Main "HOL-Library.AList"
begin

section \<open>Numbers, vectors and sprites\<close>

text \<open>
  The program is TypeScript. Its \<^verbatim>\<open>number\<close>s are modelled as \<^typ>\<open>real\<close>: the
  theorems below are about the control structure of the simulation (comparisons,
  state changes, which branch runs), not about IEEE rounding, NaN or infinities.
  An operation of the code on doubles returns the real result whenever that result
  is itself a finite double (\<open>binary64\<close> below); a statement whose truth depends on
  rounding carries that as a hypothesis.
  Counters that the code only sets to 0 and increments are \<^typ>\<open>nat\<close>.
  \<^verbatim>\<open>Date.now()\<close> and \<^verbatim>\<open>Math.random()\<close> are inputs of the functions that call them.
  What is only drawn (graphics, tweens, particle effects, the boss's health bar) is
  left out, and so is the console output of the entity classes; every field that
  the simulation reads is kept.
\<close>

record Vector2 =
  x :: real
  y :: real

text \<open>
  Modelled from the spec: the class \<^verbatim>\<open>Vector2\<close> (\<^verbatim>\<open>utils/Vector2\<close>) is not among the
  sources, only its tests are. The spec gives \<^verbatim>\<open>distance(a,b)\<close> as the pure
  Euclidean distance, with \<^verbatim>\<open>distance((0,0),(3,4)) == 5\<close>.
\<close>

definition distance :: "Vector2 \<Rightarrow> Vector2 \<Rightarrow> real" where
  "distance a b = sqrt ((Vector2.x a - Vector2.x b)\<^sup>2 + (Vector2.y a - Vector2.y b)\<^sup>2)"

text \<open>
  The finite values of the binary64 format: an integer of magnitude below \<open>2 ^ 53\<close>
  times a power of two with an exponent from -1074 to 971.
\<close>

definition binary64 :: "real \<Rightarrow> bool" where
  "binary64 v =
     (\<exists>m \<in> {- (2 ^ 53 - 1) .. 2 ^ 53 - 1 :: int}. \<exists>p \<in> {0 .. 971 :: nat}. \<exists>q \<in> {0 .. 1074 :: nat}.
        v = of_int m * 2 ^ p / 2 ^ q)"

text \<open>What the code throws by itself: a \<^verbatim>\<open>TypeError\<close>.\<close>

datatype error = TypeError

text \<open>The part of a Phaser sprite that the sources read or write.\<close>

record Sprite =
  x :: real
  y :: real
  rotation :: real
  scaleX :: real
  visible :: bool
  active :: bool
  tint :: "nat option"
  destroyed :: bool

section \<open>KickableObject\<close>

datatype ObjectType = BARREL | BOX | STONE | LOG

datatype BreakEffect = EXPLODE | SHATTER | SPLINTER

record ObjectConfig =
  type :: ObjectType
  weight :: real
  health :: real
  breakEffect :: BreakEffect
  damage :: real
  knockbackMultiplier :: real
  sprite :: string
  scale :: real
  bounceDecay :: real

record TrailPoint =
  x :: real
  y :: real
  alpha :: real

record KickableObject =
  sprite :: Sprite
  velocity :: Vector2
  health :: real
  maxHealth :: real
  config :: ObjectConfig
  isFlying :: bool
  isBroken :: bool
  hitboxRadius :: real
  weight :: real
  bounceDecay :: real
  rotationSpeed :: real
  trailPoints :: "TrailPoint list"
  lastTrailTime :: real
  breakEffectPlayed :: bool

text \<open>The static table \<^verbatim>\<open>KickableObject.OBJECT_CONFIGS\<close>.\<close>

fun OBJECT_CONFIGS :: "ObjectType \<Rightarrow> ObjectConfig" where
  "OBJECT_CONFIGS BARREL =
     \<lparr>type = BARREL, weight = 50, health = 30, breakEffect = EXPLODE, damage = 40,
      knockbackMultiplier = 1.5, sprite = ''barrel-sprite'', scale = 0.6, bounceDecay = 0.85\<rparr>"
| "OBJECT_CONFIGS BOX =
     \<lparr>type = BOX, weight = 20, health = 15, breakEffect = SHATTER, damage = 25,
      knockbackMultiplier = 1.2, sprite = ''box-sprite'', scale = 0.5, bounceDecay = 0.75\<rparr>"
| "OBJECT_CONFIGS STONE =
     \<lparr>type = STONE, weight = 80, health = 50, breakEffect = SHATTER, damage = 60,
      knockbackMultiplier = 2.0, sprite = ''stone-sprite'', scale = 0.4, bounceDecay = 0.95\<rparr>"
| "OBJECT_CONFIGS LOG =
     \<lparr>type = LOG, weight = 70, health = 40, breakEffect = SPLINTER, damage = 45,
      knockbackMultiplier = 1.8, sprite = ''log-sprite'', scale = 0.8, bounceDecay = 0.88\<rparr>"

text \<open>
  The constructor. \<open>spriteWidth\<close> is the width Phaser reports for the sprite made
  from the generated texture; a new sprite is visible, active and unrotated.
\<close>

definition KickableObject_new :: "real \<Rightarrow> real \<Rightarrow> real \<Rightarrow> ObjectType \<Rightarrow> KickableObject" where
  "KickableObject_new spriteWidth px py objectType =
     (let c = OBJECT_CONFIGS objectType in
      \<lparr>sprite = \<lparr>Sprite.x = px, Sprite.y = py, rotation = 0, scaleX = ObjectConfig.scale c,
                 visible = True, active = True, tint = None, destroyed = False\<rparr>,
       velocity = \<lparr>Vector2.x = 0, Vector2.y = 0\<rparr>,
       health = ObjectConfig.health c,
       maxHealth = ObjectConfig.health c,
       config = c,
       isFlying = False,
       isBroken = False,
       hitboxRadius = (spriteWidth * ObjectConfig.scale c) / 2,
       weight = ObjectConfig.weight c,
       bounceDecay = ObjectConfig.bounceDecay c,
       rotationSpeed = 0,
       trailPoints = [],
       lastTrailTime = 0,
       breakEffectPlayed = False\<rparr>)"

text \<open>
  \<^verbatim>\<open>applyKick(forceX, forceY, characterKickForce)\<close>; \<open>rnd\<close> is the value that
  \<^verbatim>\<open>Math.random()\<close> returns. The delayed call only restores the sprite's scale;
  the kick leaves the scale at 1.2 times the original until then.
\<close>

definition applyKick :: "real \<Rightarrow> real \<Rightarrow> real \<Rightarrow> real \<Rightarrow> KickableObject \<Rightarrow> KickableObject" where
  "applyKick rnd forceX forceY characterKickForce k =
     (if isBroken k then k
      else
        let weightFactor = 100 / KickableObject.weight k;
            adjustedForceX = forceX * weightFactor * (characterKickForce / 100);
            adjustedForceY = forceY * weightFactor * (characterKickForce / 100);
            originalScale = scaleX (KickableObject.sprite k)
        in k\<lparr>velocity := \<lparr>Vector2.x = adjustedForceX, Vector2.y = adjustedForceY\<rparr>,
              isFlying := True,
              rotationSpeed := (rnd - 0.5) * 0.2,
              KickableObject.sprite := (KickableObject.sprite k)\<lparr>scaleX := originalScale * 1.2\<rparr>\<rparr>)"

definition breakObject :: "KickableObject \<Rightarrow> KickableObject" where
  "breakObject k =
     (if isBroken k \<or> breakEffectPlayed k then k
      else k\<lparr>isBroken := True,
              breakEffectPlayed := True,
              isFlying := False,
              velocity := \<lparr>Vector2.x = 0, Vector2.y = 0\<rparr>,
              KickableObject.sprite := (KickableObject.sprite k)\<lparr>visible := False, active := False\<rparr>\<rparr>)"

definition takeDamage :: "real \<Rightarrow> KickableObject \<Rightarrow> KickableObject" where
  "takeDamage amount k =
     (if isBroken k then k
      else
        let k1 = k\<lparr>KickableObject.health := KickableObject.health k - amount\<rparr>
        in if KickableObject.health k1 \<le> 0 then breakObject k1 else k1)"

text \<open>
  \<^verbatim>\<open>hitEnemy(enemy)\<close>. The parameter is typed \<^verbatim>\<open>any\<close>, and the body reads
  \<^verbatim>\<open>enemy.applyKnockback\<close> and calls it when it is truthy. So an argument is one of:
  \<^verbatim>\<open>null\<close> or \<^verbatim>\<open>undefined\<close>, where the read throws; a value whose \<^verbatim>\<open>applyKnockback\<close> is
  missing or falsy; a value whose \<^verbatim>\<open>applyKnockback\<close> is truthy and not a function,
  where the call throws; a value with an \<^verbatim>\<open>applyKnockback\<close> method. The call of the
  method is an output of the model; the method (and an accessor behind the
  property) is the caller's code, taken to return normally and to leave the prop
  alone. The result has what \<^verbatim>\<open>hitEnemy\<close> returned or threw, and the prop as the
  call leaves it in either case.
  \<open>impactForce\<close> is the local of that name: the speed measured after the
  self-damage has been applied.
\<close>

datatype HitTarget = Nullish | NoKnockback | KnockbackNotCallable | WithKnockback

record HitResult =
  returned :: "error + real"
  knockbackCall :: "(real \<times> real) option"
  object :: KickableObject

definition impactForce :: "KickableObject \<Rightarrow> real" where
  "impactForce k =
     (let k1 = takeDamage 5 k
      in sqrt (Vector2.x (velocity k1) * Vector2.x (velocity k1) +
               Vector2.y (velocity k1) * Vector2.y (velocity k1)))"

definition hitEnemy :: "HitTarget \<Rightarrow> KickableObject \<Rightarrow> HitResult" where
  "hitEnemy enemy k =
     (if isBroken k \<or> \<not> isFlying k then \<lparr>returned = Inr 0, knockbackCall = None, object = k\<rparr>
      else
        let k1 = takeDamage 5 k;
            force = impactForce k
        in if enemy = Nullish \<or> enemy = KnockbackNotCallable
           then \<lparr>returned = Inl TypeError, knockbackCall = None, object = k1\<rparr>
           else
             let call = (if enemy = WithKnockback
                         then Some (Vector2.x (velocity k1) * 0.5, Vector2.y (velocity k1) * 0.5)
                         else None);
                 k2 = k1\<lparr>velocity := \<lparr>Vector2.x = Vector2.x (velocity k1) * 0.7,
                                       Vector2.y = Vector2.y (velocity k1) * 0.7\<rparr>\<rparr>;
                 k3 = (if force < 50
                       then k2\<lparr>isFlying := False, velocity := \<lparr>Vector2.x = 0, Vector2.y = 0\<rparr>\<rparr>
                       else k2)
             in \<lparr>returned = Inr (ObjectConfig.damage (config k3)), knockbackCall = call, object = k3\<rparr>)"

definition updateTrail :: "KickableObject \<Rightarrow> KickableObject" where
  "updateTrail k =
     (if length (trailPoints k) > 1 \<and> isFlying k
      then k\<lparr>trailPoints :=
               filter (\<lambda>p. alpha p > 0.1) (map (\<lambda>p. p\<lparr>alpha := alpha p * 0.9\<rparr>) (trailPoints k))\<rparr>
      else k)"

text \<open>\<^verbatim>\<open>update(deltaTime)\<close>; \<open>now\<close> is the value of \<^verbatim>\<open>Date.now()\<close>.\<close>

definition KickableObject_update :: "real \<Rightarrow> real \<Rightarrow> KickableObject \<Rightarrow> KickableObject" where
  "KickableObject_update now deltaTime k =
     (if isBroken k then k
      else updateTrail
        (if isFlying k then
           let s = KickableObject.sprite k;
               s1 = s\<lparr>Sprite.x := Sprite.x s + Vector2.x (velocity k) * deltaTime / 1000,
                      Sprite.y := Sprite.y s + Vector2.y (velocity k) * deltaTime / 1000,
                      rotation := rotation s + rotationSpeed k\<rparr>;
               k1 = k\<lparr>KickableObject.sprite := s1\<rparr>;
               k2 = (if now - lastTrailTime k1 > 80 then
                       let pts = trailPoints k1 @ [\<lparr>TrailPoint.x = Sprite.x s1, TrailPoint.y = Sprite.y s1, alpha = 0.6\<rparr>]
                       in k1\<lparr>trailPoints := (if length pts > 6 then tl pts else pts),
                              lastTrailTime := now\<rparr>
                     else k1);
               k3 = k2\<lparr>velocity := \<lparr>Vector2.x = Vector2.x (velocity k2) * KickableObject.bounceDecay k2,
                                     Vector2.y = Vector2.y (velocity k2) * KickableObject.bounceDecay k2\<rparr>\<rparr>;
               speed = sqrt (Vector2.x (velocity k3) * Vector2.x (velocity k3) +
                             Vector2.y (velocity k3) * Vector2.y (velocity k3))
           in if speed < 20
              then k3\<lparr>isFlying := False, velocity := \<lparr>Vector2.x = 0, Vector2.y = 0\<rparr>,
                      rotationSpeed := 0, trailPoints := []\<rparr>
              else k3
         else k))"

definition KickableObject_reset :: "KickableObject \<Rightarrow> KickableObject" where
  "KickableObject_reset k =
     k\<lparr>KickableObject.sprite := (KickableObject.sprite k)\<lparr>visible := False, active := False, rotation := 0\<rparr>,
       velocity := \<lparr>Vector2.x = 0, Vector2.y = 0\<rparr>,
       isFlying := False,
       isBroken := False,
       breakEffectPlayed := False,
       rotationSpeed := 0,
       KickableObject.health := maxHealth k,
       trailPoints := []\<rparr>"

definition KickableObject_destroy :: "KickableObject \<Rightarrow> KickableObject" where
  "KickableObject_destroy k = k\<lparr>KickableObject.sprite := (KickableObject.sprite k)\<lparr>destroyed := True\<rparr>\<rparr>"

text \<open>The data invariant of the spec: a broken prop neither flies nor moves.\<close>

definition broken_at_rest :: "KickableObject \<Rightarrow> bool" where
  "broken_at_rest k = (\<not> isBroken k \<or> (\<not> isFlying k \<and> velocity k = \<lparr>Vector2.x = 0, Vector2.y = 0\<rparr>))"



section \<open>Enemy: the base class and the other collaborators\<close>

definition andThen :: "error + 'a \<Rightarrow> ('a \<Rightarrow> error + 'b) \<Rightarrow> error + 'b" where
  "andThen r f = (case r of Inl e \<Rightarrow> Inl e | Inr v \<Rightarrow> f v)"

datatype EnemyState = STATIONARY | PATROLLING | AGGROED | COMBAT | FLEEING

text \<open>The members of \<^verbatim>\<open>EnemyTypeId\<close> that the zone catalog uses.\<close>

datatype EnemyTypeId = BASIC | FAST | TANK | SWARM | ELITE

text \<open>
  The class \<^verbatim>\<open>Enemy\<close> is not among the sources. The record has the fields that
  \<^verbatim>\<open>Boss\<close> and \<^verbatim>\<open>EncounterSystem\<close> read or write; the properties that
  \<^verbatim>\<open>EncounterSystem\<close> attaches through \<^verbatim>\<open>(enemy as any)\<close> are options, \<open>None\<close> for
  a property that is not there; \<open>internal\<close> stands for whatever else the class keeps.
\<close>

record 'e Enemy =
  sprite :: Sprite
  health :: real
  maxHealth :: real
  isDying :: bool
  speed :: real
  hitboxRadius :: real
  knockbackVelocity :: Vector2
  aggroRadius :: "real option"
  currentState :: "EnemyState option"
  originalPosition :: "Vector2 option"
  patrolPath :: "Vector2 list option"
  patrolIndex :: "nat option"
  hasAggro :: "bool option"
  movementType :: "string option"
  internal :: 'e

text \<open>
  What the three classes call from outside themselves, taken as parameters: the
  constructor and the methods of \<^verbatim>\<open>Enemy\<close> and the enemy pool (\<^verbatim>\<open>PoolManager\<close>,
  which hands out and takes back enemy objects by reference and may reset them),
  which are not among the sources; \<^verbatim>\<open>unlockCharacterByBoss\<close> of the
  \<^verbatim>\<open>CharacterManager\<close> singleton, whose state lies outside the encounter system; and
  the width of a prop's sprite. \<open>'w\<close> is the state of the pool and of the character manager;
  enemy objects live in a store \<open>nat \<Rightarrow> 'e Enemy\<close> indexed by reference. An entry
  of the table \<^verbatim>\<open>ENEMY_TYPES\<close> is named by its key. The methods of \<^verbatim>\<open>Enemy\<close> see
  the base-class part of a boss: they are taken not to call back into the methods
  that \<^verbatim>\<open>Boss\<close> overrides.
\<close>

record ('e, 'w) Collaborators =
  Enemy_new :: "'e Enemy"
  Enemy_spawn :: "real \<Rightarrow> real \<Rightarrow> EnemyTypeId \<Rightarrow> 'e Enemy \<Rightarrow> 'e Enemy"
  Enemy_update :: "real \<Rightarrow> Vector2 \<Rightarrow> 'e Enemy \<Rightarrow> 'e Enemy"
  Enemy_takeDamage :: "real \<Rightarrow> 'e Enemy \<Rightarrow> bool \<times> 'e Enemy"
  Enemy_reset :: "'e Enemy \<Rightarrow> 'e Enemy"
  pool_acquire :: "'w \<Rightarrow> (nat \<Rightarrow> 'e Enemy) \<Rightarrow> nat \<times> 'w \<times> (nat \<Rightarrow> 'e Enemy)"
  pool_release :: "nat \<Rightarrow> 'w \<Rightarrow> (nat \<Rightarrow> 'e Enemy) \<Rightarrow> 'w \<times> (nat \<Rightarrow> 'e Enemy)"
  unlockCharacterByBoss :: "string \<Rightarrow> 'w \<Rightarrow> bool \<times> 'w"
  spriteWidth :: real

section \<open>Boss\<close>

datatype BossAttack =
  BASIC_ATTACK | SUMMON_SWARM | CHARGE_ATTACK | BOMB_BARRAGE | CHARGE_SLAM
  | MEGA_BOMB | ICE_DASH | FREEZE_WAVE | MEGA_FREEZE | TRIPLE_DASH

text \<open>The string values of the two string enums of \<^verbatim>\<open>Boss.ts\<close>.\<close>

fun BossAttack_value :: "BossAttack \<Rightarrow> string" where
  "BossAttack_value BASIC_ATTACK = ''basic_attack''"
| "BossAttack_value SUMMON_SWARM = ''summon_swarm''"
| "BossAttack_value CHARGE_ATTACK = ''charge_attack''"
| "BossAttack_value BOMB_BARRAGE = ''bomb_barrage''"
| "BossAttack_value CHARGE_SLAM = ''charge_slam''"
| "BossAttack_value MEGA_BOMB = ''mega_bomb''"
| "BossAttack_value ICE_DASH = ''ice_dash''"
| "BossAttack_value FREEZE_WAVE = ''freeze_wave''"
| "BossAttack_value MEGA_FREEZE = ''mega_freeze''"
| "BossAttack_value TRIPLE_DASH = ''triple_dash''"

datatype MovementPattern =
  MP_STATIONARY | CIRCLE | CHASE | AGGRESSIVE | BERSERKER | SWIMMING | AGGRESSIVE_SWIM | FRENZY

fun MovementPattern_value :: "MovementPattern \<Rightarrow> string" where
  "MovementPattern_value MP_STATIONARY = ''stationary''"
| "MovementPattern_value CIRCLE = ''circle''"
| "MovementPattern_value CHASE = ''chase''"
| "MovementPattern_value AGGRESSIVE = ''aggressive''"
| "MovementPattern_value BERSERKER = ''berserker''"
| "MovementPattern_value SWIMMING = ''swimming''"
| "MovementPattern_value AGGRESSIVE_SWIM = ''aggressive_swim''"
| "MovementPattern_value FRENZY = ''frenzy''"

record BossPhase =
  healthThreshold :: real
  abilities :: "string list"
  movementPattern :: string

record BossConfig =
  type :: string
  name :: string
  position :: Vector2
  health :: real
  phases :: "BossPhase list"
  arenaRadius :: real
  unlockCharacter :: string

text \<open>
  The callbacks that \<^verbatim>\<open>Boss\<close> registers with \<^verbatim>\<open>scene.time.delayedCall\<close>, named by
  the method that registers them. The scene fires them later; \<open>delayedCalls\<close> keeps
  the registrations (delay in ms and callback) in the order they were made.
\<close>

datatype DelayedCall =
  ChargeLaunch
  | ChargeEnd
  | BombWarning nat Vector2
  | BombExplode
  | SlamShockwave
  | MegaBombExplosion
  | MegaFreezeArea
  | DashStart Vector2

text \<open>
  \<open>bossUI\<close> says that the five UI objects of the boss (health bar, name text,
  transition effect, attack warning) exist: the constructor makes them together and
  \<^verbatim>\<open>cleanupBossUI\<close> destroys them together. What is drawn on them is left out.
\<close>

record 'e Boss =
  base :: "'e Enemy"
  bossConfig :: BossConfig
  currentPhase :: nat
  lastAttackTime :: real
  attackCooldown :: real
  arenaCenter :: Vector2
  arenaRadius :: real
  circleAngle :: real
  circleSpeed :: real
  chargeTarget :: "Vector2 option"
  isCharging :: bool
  swimDirection :: Vector2
  swimTimer :: real
  bossUI :: bool
  delayedCalls :: "(real \<times> DelayedCall) list"

text \<open>
  What one tick reads from outside: \<open>now\<close> is \<^verbatim>\<open>Date.now()\<close>, the others are
  the values \<^verbatim>\<open>Math.random()\<close> returns at the four call sites of \<^verbatim>\<open>Boss.update\<close>
  (berserker jitter in x and y, the swimming angle, the choice of attack).
\<close>

record TickEnv =
  now :: real
  randomX :: real
  randomY :: real
  randomAngle :: real
  randomAttack :: real

definition Boss_new :: "('e, 'w) Collaborators \<Rightarrow> BossConfig \<Rightarrow> 'e Boss" where
  "Boss_new E cfg =
     \<lparr>base = Enemy_new E,
      bossConfig = cfg,
      currentPhase = 0,
      lastAttackTime = 0,
      attackCooldown = 2000,
      arenaCenter = BossConfig.position cfg,
      arenaRadius = BossConfig.arenaRadius cfg,
      circleAngle = 0,
      circleSpeed = 1,
      chargeTarget = None,
      isCharging = False,
      swimDirection = \<lparr>Vector2.x = 1, Vector2.y = 0\<rparr>,
      swimTimer = 0,
      bossUI = True,
      delayedCalls = []\<rparr>"

definition Boss_spawn ::
  "('e, 'w) Collaborators \<Rightarrow> real \<Rightarrow> real \<Rightarrow> EnemyTypeId \<Rightarrow> 'e Boss \<Rightarrow> 'e Boss" where
  "Boss_spawn E px py enemyType b =
     (let e1 = Enemy_spawn E px py enemyType (base b);
          e2 = e1\<lparr>Enemy.health := BossConfig.health (bossConfig b),
                  Enemy.maxHealth := BossConfig.health (bossConfig b),
                  Enemy.hitboxRadius := 40,
                  Enemy.sprite := (Enemy.sprite e1)\<lparr>scaleX := 1.5, tint := Some 0xffffff\<rparr>\<rparr>
      in b\<lparr>base := e2, currentPhase := 0\<rparr>)"

text \<open>
  \<^verbatim>\<open>this.bossConfig.phases[i]\<close>: \<open>None\<close> is JavaScript's \<^verbatim>\<open>undefined\<close>; reading a
  property of it throws a \<^verbatim>\<open>TypeError\<close>.
\<close>

definition phaseAt :: "'e Boss \<Rightarrow> nat \<Rightarrow> BossPhase option" where
  "phaseAt b i = (if i < length (phases (bossConfig b)) then Some (phases (bossConfig b) ! i) else None)"

text \<open>
  \<^verbatim>\<open>health / maxHealth <= threshold\<close> as JavaScript evaluates it: with
  \<^verbatim>\<open>maxHealth\<close> 0 the quotient is \<^verbatim>\<open>-Infinity\<close> for a negative health (the
  comparison holds) and \<^verbatim>\<open>NaN\<close> or \<^verbatim>\<open>Infinity\<close> otherwise (it does not).
\<close>

definition healthPercent_le :: "'e Boss \<Rightarrow> real \<Rightarrow> bool" where
  "healthPercent_le b threshold =
     (if Enemy.maxHealth (base b) = 0 then Enemy.health (base b) < 0
      else Enemy.health (base b) / Enemy.maxHealth (base b) \<le> threshold)"

definition enterNextPhase :: "real \<Rightarrow> 'e Boss \<Rightarrow> error + 'e Boss" where
  "enterNextPhase now_ms b =
     (let b1 = b\<lparr>currentPhase := currentPhase b + 1\<rparr>;
          b2 = b1\<lparr>lastAttackTime := now_ms - attackCooldown b1\<rparr>
      in case phaseAt b2 (currentPhase b2) of
           None \<Rightarrow> Inl TypeError
         | Some newPhase \<Rightarrow>
             if movementPattern newPhase = ''berserker''
             then Inr (b2\<lparr>base := (base b2)\<lparr>speed := speed (base b2) * 1.5\<rparr>\<rparr>)
             else if movementPattern newPhase = ''frenzy''
             then Inr (b2\<lparr>attackCooldown := attackCooldown b2 * 0.5\<rparr>)
             else Inr b2)"

definition checkPhaseTransition :: "real \<Rightarrow> 'e Boss \<Rightarrow> error + 'e Boss" where
  "checkPhaseTransition now_ms b =
     (if int (currentPhase b) < int (length (phases (bossConfig b))) - 1 then
        (let nextPhaseConfig = phases (bossConfig b) ! (currentPhase b + 1)
         in if healthPercent_le b (healthThreshold nextPhaseConfig)
            then enterNextPhase now_ms b
            else Inr b)
      else Inr b)"

definition moveSprite :: "real \<Rightarrow> real \<Rightarrow> 'e Boss \<Rightarrow> 'e Boss" where
  "moveSprite dx dy b =
     b\<lparr>base := (base b)\<lparr>Enemy.sprite := (Enemy.sprite (base b))
          \<lparr>Sprite.x := Sprite.x (Enemy.sprite (base b)) + dx,
           Sprite.y := Sprite.y (Enemy.sprite (base b)) + dy\<rparr>\<rparr>\<rparr>"

definition updateCircleMovement :: "real \<Rightarrow> 'e Boss \<Rightarrow> 'e Boss" where
  "updateCircleMovement deltaTime b =
     (let b1 = b\<lparr>circleAngle := circleAngle b + circleSpeed b * deltaTime / 1000\<rparr>;
          radius = 100;
          targetX = Vector2.x (arenaCenter b1) + cos (circleAngle b1) * radius;
          targetY = Vector2.y (arenaCenter b1) + sin (circleAngle b1) * radius;
          dx = targetX - Sprite.x (Enemy.sprite (base b1));
          dy = targetY - Sprite.y (Enemy.sprite (base b1));
          dist = sqrt (dx * dx + dy * dy)
      in if dist > 5 then
           (let moveSpeed = speed (base b1) * 0.7
            in moveSprite ((dx / dist) * moveSpeed * deltaTime / 1000)
                          ((dy / dist) * moveSpeed * deltaTime / 1000) b1)
         else b1)"

definition updateChaseMovement :: "real \<Rightarrow> Vector2 \<Rightarrow> bool \<Rightarrow> 'e Boss \<Rightarrow> 'e Boss" where
  "updateChaseMovement deltaTime playerPos aggressive b =
     (let spd = (if aggressive then speed (base b) * 1.2 else speed (base b));
          dx = Vector2.x playerPos - Sprite.x (Enemy.sprite (base b));
          dy = Vector2.y playerPos - Sprite.y (Enemy.sprite (base b));
          dist = sqrt (dx * dx + dy * dy)
      in if dist > 60
         then moveSprite ((dx / dist) * spd * deltaTime / 1000) ((dy / dist) * spd * deltaTime / 1000) b
         else b)"

definition updateBerserkerMovement :: "TickEnv \<Rightarrow> real \<Rightarrow> Vector2 \<Rightarrow> 'e Boss \<Rightarrow> 'e Boss" where
  "updateBerserkerMovement env deltaTime playerPos b =
     (let spd = speed (base b) * 1.5;
          dx = Vector2.x playerPos - Sprite.x (Enemy.sprite (base b));
          dy = Vector2.y playerPos - Sprite.y (Enemy.sprite (base b));
          dist = sqrt (dx * dx + dy * dy);
          rx = (randomX env - 0.5) * 50;
          ry = (randomY env - 0.5) * 50
      in if dist > 40
         then moveSprite (((dx + rx) / dist) * spd * deltaTime / 1000)
                         (((dy + ry) / dist) * spd * deltaTime / 1000) b
         else b)"

definition updateSwimmingMovement ::
  "TickEnv \<Rightarrow> real \<Rightarrow> Vector2 \<Rightarrow> bool \<Rightarrow> 'e Boss \<Rightarrow> 'e Boss" where
  "updateSwimmingMovement env deltaTime playerPos aggressive b =
     (let b1 = b\<lparr>swimTimer := swimTimer b + deltaTime\<rparr>;
          b2 = (if swimTimer b1 > 2000 then
                  (if aggressive then
                     (let dx = Vector2.x playerPos - Sprite.x (Enemy.sprite (base b1));
                          dy = Vector2.y playerPos - Sprite.y (Enemy.sprite (base b1));
                          dist = sqrt (dx * dx + dy * dy)
                      in b1\<lparr>swimDirection := \<lparr>Vector2.x = dx / dist, Vector2.y = dy / dist\<rparr>\<rparr>)
                   else
                     (let angle = randomAngle env * pi * 2
                      in b1\<lparr>swimDirection := \<lparr>Vector2.x = cos angle, Vector2.y = sin angle\<rparr>\<rparr>))
                  \<lparr>swimTimer := 0\<rparr>
                else b1);
          spd = (if aggressive then speed (base b2) * 1.1 else speed (base b2) * 0.8)
      in moveSprite (Vector2.x (swimDirection b2) * spd * deltaTime / 1000)
                    (Vector2.y (swimDirection b2) * spd * deltaTime / 1000) b2)"

definition updateFrenzyMovement :: "TickEnv \<Rightarrow> real \<Rightarrow> Vector2 \<Rightarrow> 'e Boss \<Rightarrow> 'e Boss" where
  "updateFrenzyMovement env deltaTime playerPos b =
     (let spd = speed (base b) * 2;
          time = now env / 200;
          dx = Vector2.x playerPos - Sprite.x (Enemy.sprite (base b));
          dy = Vector2.y playerPos - Sprite.y (Enemy.sprite (base b));
          dist = sqrt (dx * dx + dy * dy);
          perpX = - dy / dist;
          perpY = dx / dist;
          zigzag = sin time * 30
      in moveSprite ((dx / dist + perpX * zigzag) * spd * deltaTime / 1000)
                    ((dy / dist + perpY * zigzag) * spd * deltaTime / 1000) b)"

text \<open>
  The \<^verbatim>\<open>switch\<close> of \<^verbatim>\<open>updateBossMovement\<close> compares the phase's pattern string with
  the enum's values; a string that equals none of them runs no case.
\<close>

definition updateBossMovement :: "TickEnv \<Rightarrow> real \<Rightarrow> Vector2 \<Rightarrow> 'e Boss \<Rightarrow> error + 'e Boss" where
  "updateBossMovement env deltaTime playerPos b =
     (if isDying (base b) \<or> isCharging b then Inr b
      else case phaseAt b (currentPhase b) of
        None \<Rightarrow> Inl TypeError
      | Some phase \<Rightarrow>
          (let pattern = movementPattern phase
           in if pattern = MovementPattern_value MP_STATIONARY then Inr b
              else if pattern = MovementPattern_value CIRCLE
                then Inr (updateCircleMovement deltaTime b)
              else if pattern = MovementPattern_value CHASE \<or> pattern = MovementPattern_value AGGRESSIVE
                then Inr (updateChaseMovement deltaTime playerPos
                            (pattern = MovementPattern_value AGGRESSIVE) b)
              else if pattern = MovementPattern_value BERSERKER
                then Inr (updateBerserkerMovement env deltaTime playerPos b)
              else if pattern = MovementPattern_value SWIMMING
                      \<or> pattern = MovementPattern_value AGGRESSIVE_SWIM
                then Inr (updateSwimmingMovement env deltaTime playerPos
                            (pattern = MovementPattern_value AGGRESSIVE_SWIM) b)
              else if pattern = MovementPattern_value FRENZY
                then Inr (updateFrenzyMovement env deltaTime playerPos b)
              else Inr b))"

definition delayedCall :: "real \<Rightarrow> DelayedCall \<Rightarrow> 'e Boss \<Rightarrow> 'e Boss" where
  "delayedCall delay callback b = b\<lparr>delayedCalls := delayedCalls b @ [(delay, callback)]\<rparr>"

definition executeSummonSwarm :: "'e Boss \<Rightarrow> 'e Boss" where
  "executeSummonSwarm b = b"

definition executeChargeAttack :: "Vector2 \<Rightarrow> 'e Boss \<Rightarrow> 'e Boss" where
  "executeChargeAttack playerPos b =
     delayedCall 1000 ChargeLaunch (b\<lparr>chargeTarget := Some playerPos, isCharging := True\<rparr>)"

definition executeBombBarrage :: "Vector2 \<Rightarrow> 'e Boss \<Rightarrow> 'e Boss" where
  "executeBombBarrage playerPos b =
     foldl (\<lambda>acc i. delayedCall (real i * 300) (BombWarning i playerPos) acc) b [0 ..< 5]"

definition executeChargeSlam :: "Vector2 \<Rightarrow> 'e Boss \<Rightarrow> 'e Boss" where
  "executeChargeSlam playerPos b = delayedCall 1500 SlamShockwave (executeChargeAttack playerPos b)"

definition executeMegaBomb :: "Vector2 \<Rightarrow> 'e Boss \<Rightarrow> 'e Boss" where
  "executeMegaBomb playerPos b = delayedCall 1500 MegaBombExplosion b"

definition executeIceDash :: "Vector2 \<Rightarrow> 'e Boss \<Rightarrow> 'e Boss" where
  "executeIceDash playerPos b = executeChargeAttack playerPos b"

definition executeFreezeWave :: "'e Boss \<Rightarrow> 'e Boss" where
  "executeFreezeWave b = b"

definition executeMegaFreeze :: "Vector2 \<Rightarrow> 'e Boss \<Rightarrow> 'e Boss" where
  "executeMegaFreeze playerPos b = delayedCall 1200 MegaFreezeArea b"

definition executeTripleDash :: "Vector2 \<Rightarrow> 'e Boss \<Rightarrow> 'e Boss" where
  "executeTripleDash playerPos b =
     foldl (\<lambda>acc i. delayedCall (real i * 800) (DashStart playerPos) acc) b [0 ..< 3]"

text \<open>
  \<^verbatim>\<open>executeAttack\<close>: \<open>matchedCase\<close> is the first \<^verbatim>\<open>case\<close> label of the \<^verbatim>\<open>switch\<close>
  whose enum value equals the attack string (there is no label for
  \<^verbatim>\<open>BASIC_ATTACK\<close> and no \<^verbatim>\<open>default\<close>), \<open>attackRoutine\<close> is the body of that case.
\<close>

definition matchedCase :: "string \<Rightarrow> BossAttack option" where
  "matchedCase attack =
     find (\<lambda>a. attack = BossAttack_value a)
       [SUMMON_SWARM, CHARGE_ATTACK, BOMB_BARRAGE, CHARGE_SLAM, MEGA_BOMB,
        ICE_DASH, FREEZE_WAVE, MEGA_FREEZE, TRIPLE_DASH]"

fun attackRoutine :: "BossAttack \<Rightarrow> Vector2 \<Rightarrow> 'e Boss \<Rightarrow> 'e Boss" where
  "attackRoutine SUMMON_SWARM playerPos b = executeSummonSwarm b"
| "attackRoutine CHARGE_ATTACK playerPos b = executeChargeAttack playerPos b"
| "attackRoutine BOMB_BARRAGE playerPos b = executeBombBarrage playerPos b"
| "attackRoutine CHARGE_SLAM playerPos b = executeChargeSlam playerPos b"
| "attackRoutine MEGA_BOMB playerPos b = executeMegaBomb playerPos b"
| "attackRoutine ICE_DASH playerPos b = executeIceDash playerPos b"
| "attackRoutine FREEZE_WAVE playerPos b = executeFreezeWave b"
| "attackRoutine MEGA_FREEZE playerPos b = executeMegaFreeze playerPos b"
| "attackRoutine TRIPLE_DASH playerPos b = executeTripleDash playerPos b"
| "attackRoutine BASIC_ATTACK playerPos b = b"

definition executeAttack :: "string \<Rightarrow> Vector2 \<Rightarrow> 'e Boss \<Rightarrow> 'e Boss" where
  "executeAttack attack playerPos b =
     (case matchedCase attack of None \<Rightarrow> b | Some a \<Rightarrow> attackRoutine a playerPos b)"

text \<open>
  \<^verbatim>\<open>updateBossAttacks\<close>. \<open>pickIndex\<close> is
  \<^verbatim>\<open>Math.floor(Math.random() * availableAttacks.length)\<close>; \<^verbatim>\<open>Math.random()\<close> is below 1,
  so the index is in range (an index out of range would read \<^verbatim>\<open>undefined\<close>, which
  matches no case).
\<close>

definition pickIndex :: "real \<Rightarrow> nat \<Rightarrow> nat" where
  "pickIndex rnd n = nat \<lfloor>rnd * real n\<rfloor>"

definition updateBossAttacks :: "TickEnv \<Rightarrow> real \<Rightarrow> Vector2 \<Rightarrow> 'e Boss \<Rightarrow> error + 'e Boss" where
  "updateBossAttacks env deltaTime playerPos b =
     (let currentTime = now env
      in if currentTime - lastAttackTime b < attackCooldown b then Inr b
         else case phaseAt b (currentPhase b) of
           None \<Rightarrow> Inl TypeError
         | Some phase \<Rightarrow>
             (let availableAttacks = abilities phase
              in if length availableAttacks = 0 then Inr b
                 else
                   (let i = pickIndex (randomAttack env) (length availableAttacks);
                        b1 = (if i < length availableAttacks
                              then executeAttack (availableAttacks ! i) playerPos b
                              else b)
                    in Inr (b1\<lparr>lastAttackTime := currentTime\<rparr>))))"

definition Boss_update ::
  "('e, 'w) Collaborators \<Rightarrow> TickEnv \<Rightarrow> real \<Rightarrow> Vector2 \<Rightarrow> 'e Boss \<Rightarrow> error + 'e Boss" where
  "Boss_update E env deltaTime playerPos b =
     andThen (checkPhaseTransition (now env) b) (\<lambda>b1.
     andThen (updateBossMovement env deltaTime playerPos b1) (\<lambda>b2.
     andThen (updateBossAttacks env deltaTime playerPos b2) (\<lambda>b3.
     Inr (b3\<lparr>base := Enemy_update E deltaTime playerPos (base b3)\<rparr>))))"

definition cleanupBossUI :: "'e Boss \<Rightarrow> 'e Boss" where
  "cleanupBossUI b = b\<lparr>bossUI := False\<rparr>"

definition Boss_onBossDefeated :: "'e Boss \<Rightarrow> 'e Boss" where
  "Boss_onBossDefeated b = cleanupBossUI b"

definition Boss_takeDamage :: "('e, 'w) Collaborators \<Rightarrow> real \<Rightarrow> 'e Boss \<Rightarrow> bool \<times> 'e Boss" where
  "Boss_takeDamage E amount b =
     (let (wasDead, e1) = Enemy_takeDamage E amount (base b);
          b1 = b\<lparr>base := e1\<rparr>
      in (wasDead, if wasDead then Boss_onBossDefeated b1 else b1))"

definition Boss_reset :: "('e, 'w) Collaborators \<Rightarrow> 'e Boss \<Rightarrow> 'e Boss" where
  "Boss_reset E b =
     cleanupBossUI
       (b\<lparr>base := Enemy_reset E (base b),
          currentPhase := 0,
          lastAttackTime := 0,
          circleAngle := 0,
          chargeTarget := None,
          isCharging := False,
          swimDirection := \<lparr>Vector2.x = 1, Vector2.y = 0\<rparr>,
          swimTimer := 0,
          attackCooldown := 2000\<rparr>)"

text \<open>The bodies of the delayed callbacks, run when the scene fires them.\<close>

definition fire :: "DelayedCall \<Rightarrow> 'e Boss \<Rightarrow> 'e Boss" where
  "fire callback b =
     (case callback of
        ChargeLaunch \<Rightarrow>
          (case chargeTarget b of
             None \<Rightarrow> b
           | Some target \<Rightarrow>
               (let chargeSpeed = speed (base b) * 3;
                    dx = Vector2.x target - Sprite.x (Enemy.sprite (base b));
                    dy = Vector2.y target - Sprite.y (Enemy.sprite (base b));
                    dist = sqrt (dx * dx + dy * dy)
                in delayedCall 500 ChargeEnd
                     (b\<lparr>base := (base b)\<lparr>knockbackVelocity :=
                           \<lparr>Vector2.x = (dx / dist) * chargeSpeed,
                            Vector2.y = (dy / dist) * chargeSpeed\<rparr>\<rparr>\<rparr>)))
      | ChargeEnd \<Rightarrow> b\<lparr>isCharging := False, chargeTarget := None\<rparr>
      | BombWarning i playerPos \<Rightarrow> delayedCall 800 BombExplode b
      | BombExplode \<Rightarrow> b
      | SlamShockwave \<Rightarrow> b
      | MegaBombExplosion \<Rightarrow> b
      | MegaFreezeArea \<Rightarrow> b
      | DashStart playerPos \<Rightarrow> executeChargeAttack playerPos b)"

text \<open>
  The things that can happen to a boss between its spawn and its reset: a tick, a
  hit, a bare phase check, and the scene firing one of the pending callbacks.
\<close>

datatype BossStep =
  StepUpdate TickEnv real Vector2
  | StepTakeDamage real
  | StepCheckPhase real
  | StepTimer nat

fun bossStep :: "('e, 'w) Collaborators \<Rightarrow> BossStep \<Rightarrow> 'e Boss \<Rightarrow> error + 'e Boss" where
  "bossStep E (StepUpdate env deltaTime playerPos) b = Boss_update E env deltaTime playerPos b"
| "bossStep E (StepTakeDamage amount) b = Inr (snd (Boss_takeDamage E amount b))"
| "bossStep E (StepCheckPhase now_ms) b = checkPhaseTransition now_ms b"
| "bossStep E (StepTimer i) b =
     (if i < length (delayedCalls b)
      then Inr (fire (snd (delayedCalls b ! i))
                  (b\<lparr>delayedCalls := take i (delayedCalls b) @ drop (Suc i) (delayedCalls b)\<rparr>))
      else Inr b)"

fun bossRun :: "('e, 'w) Collaborators \<Rightarrow> BossStep list \<Rightarrow> 'e Boss \<Rightarrow> error + 'e Boss" where
  "bossRun E [] b = Inr b"
| "bossRun E (s # ss) b = andThen (bossStep E s b) (bossRun E ss)"

section \<open>EncounterSystem: data\<close>

record Bounds =
  x :: real
  y :: real
  width :: real
  height :: real

text \<open>
  A placement's \<^verbatim>\<open>enemy\<close> and a prop placement's \<^verbatim>\<open>object\<close> are references
  to runtime objects: indices into the stores of the system state below.
\<close>

record StationaryEnemy =
  position :: Vector2
  enemyType :: EnemyTypeId
  aggroRadius :: real
  patrolPath :: "Vector2 list option"
  state :: EnemyState
  enemy :: "nat option"

record KickableObjectConfig =
  position :: Vector2
  type :: ObjectType
  object :: "nat option"

record ZoneTheme =
  backgroundColor :: nat
  groundTexture :: string
  ambientColor :: nat
  musicTrack :: string

text \<open>The field \<^verbatim>\<open>id\<close> of \<^verbatim>\<open>GameZone\<close> is \<open>zoneId\<close> here.\<close>

record GameZone =
  zoneId :: string
  name :: string
  bounds :: Bounds
  enemies :: "StationaryEnemy list"
  kickableObjects :: "KickableObjectConfig list"
  boss :: "BossConfig option"
  theme :: ZoneTheme
  requiredCharacters :: "string list"
  isUnlocked :: bool

text \<open>
  What \<^verbatim>\<open>EncounterSystem\<close> writes to the console: a template literal is the list
  of its pieces. The console output of the entity classes is not modelled.
\<close>

datatype Piece = Str string | Num real

datatype ConsoleEntry = Log "Piece list" | Warn "Piece list"

text \<open>
  The state of an \<^verbatim>\<open>EncounterSystem\<close>, with what it shares by reference made
  explicit: \<open>enemyStore\<close> and \<open>objectStore\<close> hold the enemy and prop objects,
  the two \<^verbatim>\<open>Map\<close>s are association lists from key to reference in insertion order,
  and \<open>currentZone\<close> is the index in \<open>zones\<close> of the zone object it points to.
  \<open>world\<close> is the state of the pool and of the character manager,
  \<open>cameraBackground\<close> the colour last given to the main camera.
\<close>

record ('e, 'w) EncounterSystem =
  world :: 'w
  enemyStore :: "nat \<Rightarrow> 'e Enemy"
  objectStore :: "nat \<Rightarrow> KickableObject"
  nextObject :: nat
  zones :: "GameZone list"
  currentZone :: "nat option"
  activeEnemies :: "(string \<times> nat) list"
  activeObjects :: "(string \<times> nat) list"
  currentBoss :: "'e Boss option"
  isBossFight :: bool
  aggroRadius :: real
  console :: "ConsoleEntry list"
  cameraBackground :: "nat option"

definition Vector2_new :: "real \<Rightarrow> real \<Rightarrow> Vector2" where
  "Vector2_new px py = \<lparr>Vector2.x = px, Vector2.y = py\<rparr>"

definition stationaryEnemy ::
  "Vector2 \<Rightarrow> EnemyTypeId \<Rightarrow> real \<Rightarrow> EnemyState \<Rightarrow> Vector2 list option \<Rightarrow> StationaryEnemy" where
  "stationaryEnemy pos ty radius st path =
     \<lparr>StationaryEnemy.position = pos, enemyType = ty, StationaryEnemy.aggroRadius = radius,
      StationaryEnemy.patrolPath = path, state = st, enemy = None\<rparr>"

definition kickableObjectConfig :: "Vector2 \<Rightarrow> ObjectType \<Rightarrow> KickableObjectConfig" where
  "kickableObjectConfig pos ty =
     \<lparr>KickableObjectConfig.position = pos, KickableObjectConfig.type = ty, object = None\<rparr>"

definition bossPhase :: "real \<Rightarrow> string list \<Rightarrow> string \<Rightarrow> BossPhase" where
  "bossPhase threshold ids pattern =
     \<lparr>healthThreshold = threshold, abilities = ids, movementPattern = pattern\<rparr>"

text \<open>The zone catalog that \<^verbatim>\<open>createGameZones\<close> builds.\<close>

definition swarmKing :: BossConfig where
  "swarmKing =
     \<lparr>BossConfig.type = ''swarm-king'',
      BossConfig.name = ''Swarm King Chimpanzini'',
      BossConfig.position = Vector2_new 900 600,
      BossConfig.health = 300,
      phases =
        [bossPhase 1.0 [''summon-swarm''] ''circle'',
         bossPhase 0.5 [''summon-swarm'', ''charge-attack''] ''aggressive''],
      BossConfig.arenaRadius = 200,
      unlockCharacter = ''chimpanzini-bananini''\<rparr>"

definition tutorialGrove :: GameZone where
  "tutorialGrove =
     \<lparr>zoneId = ''tutorial-grove'',
      GameZone.name = ''Tutorial Grove'',
      bounds = \<lparr>Bounds.x = 0, Bounds.y = 0, width = 1200, height = 800\<rparr>,
      enemies =
        [stationaryEnemy (Vector2_new 300 200) BASIC 100 STATIONARY None,
         stationaryEnemy (Vector2_new 500 300) BASIC 120 STATIONARY None,
         stationaryEnemy (Vector2_new 700 150) FAST 140 STATIONARY None,
         stationaryEnemy (Vector2_new 400 500) BASIC 110 STATIONARY None,
         stationaryEnemy (Vector2_new 800 400) FAST 130 STATIONARY None],
      kickableObjects =
        [kickableObjectConfig (Vector2_new 350 250) BARREL,
         kickableObjectConfig (Vector2_new 600 200) BOX,
         kickableObjectConfig (Vector2_new 450 400) STONE],
      boss = Some swarmKing,
      theme = \<lparr>backgroundColor = 0x2d5a27, groundTexture = ''grass'',
               ambientColor = 0x90ff90, musicTrack = ''forest-theme''\<rparr>,
      requiredCharacters = [],
      isUnlocked = True\<rparr>"

definition desertBomber :: BossConfig where
  "desertBomber =
     \<lparr>BossConfig.type = ''desert-bomber'',
      BossConfig.name = ''Bombardiro Crocodilo'',
      BossConfig.position = Vector2_new 2500 700,
      BossConfig.health = 500,
      phases =
        [bossPhase 1.0 [''bomb-barrage''] ''stationary'',
         bossPhase 0.7 [''bomb-barrage'', ''charge-slam''] ''chase'',
         bossPhase 0.3 [''mega-bomb'', ''charge-slam''] ''berserker''],
      BossConfig.arenaRadius = 250,
      unlockCharacter = ''bombardiro-crocodilo''\<rparr>"

definition desertOutpost :: GameZone where
  "desertOutpost =
     \<lparr>zoneId = ''desert-outpost'',
      GameZone.name = ''Desert Outpost'',
      bounds = \<lparr>Bounds.x = 1500, Bounds.y = 0, width = 1400, height = 900\<rparr>,
      enemies =
        [stationaryEnemy (Vector2_new 1700 200) TANK 120 PATROLLING
           (Some [Vector2_new 1700 200, Vector2_new 1900 200,
                  Vector2_new 1900 400, Vector2_new 1700 400]),
         stationaryEnemy (Vector2_new 2000 300) FAST 160 STATIONARY None,
         stationaryEnemy (Vector2_new 2200 150) FAST 140 STATIONARY None,
         stationaryEnemy (Vector2_new 1800 500) BASIC 100 STATIONARY None,
         stationaryEnemy (Vector2_new 2100 600) TANK 130 STATIONARY None,
         stationaryEnemy (Vector2_new 2300 450) SWARM 180 STATIONARY None],
      kickableObjects =
        [kickableObjectConfig (Vector2_new 1750 300) BARREL,
         kickableObjectConfig (Vector2_new 2050 250) STONE,
         kickableObjectConfig (Vector2_new 2150 500) LOG],
      boss = Some desertBomber,
      theme = \<lparr>backgroundColor = 0x8b7355, groundTexture = ''sand'',
               ambientColor = 0xffdd88, musicTrack = ''desert-theme''\<rparr>,
      requiredCharacters = [''chimpanzini-bananini''],
      isUnlocked = False\<rparr>"

definition iceShark :: BossConfig where
  "iceShark =
     \<lparr>BossConfig.type = ''ice-shark'',
      BossConfig.name = ''Tralalero Tralala'',
      BossConfig.position = Vector2_new 1400 1800,
      BossConfig.health = 700,
      phases =
        [bossPhase 1.0 [''ice-dash''] ''swimming'',
         bossPhase 0.6 [''ice-dash'', ''freeze-wave''] ''aggressive-swim'',
         bossPhase 0.2 [''mega-freeze'', ''triple-dash''] ''frenzy''],
      BossConfig.arenaRadius = 300,
      unlockCharacter = ''tralalero-tralala''\<rparr>"

definition arcticLab :: GameZone where
  "arcticLab =
     \<lparr>zoneId = ''arctic-lab'',
      GameZone.name = ''Arctic Laboratory'',
      bounds = \<lparr>Bounds.x = 0, Bounds.y = 1200, width = 1600, height = 1000\<rparr>,
      enemies =
        [stationaryEnemy (Vector2_new 200 1400) ELITE 200 PATROLLING
           (Some [Vector2_new 200 1400, Vector2_new 400 1400,
                  Vector2_new 400 1600, Vector2_new 200 1600]),
         stationaryEnemy (Vector2_new 600 1300) TANK 140 STATIONARY None,
         stationaryEnemy (Vector2_new 800 1500) TANK 130 STATIONARY None,
         stationaryEnemy (Vector2_new 1000 1350) SWARM 160 STATIONARY None,
         stationaryEnemy (Vector2_new 1200 1450) ELITE 180 STATIONARY None,
         stationaryEnemy (Vector2_new 900 1700) FAST 170 STATIONARY None,
         stationaryEnemy (Vector2_new 1100 1650) FAST 160 STATIONARY None],
      kickableObjects =
        [kickableObjectConfig (Vector2_new 300 1500) BARREL,
         kickableObjectConfig (Vector2_new 700 1400) BOX,
         kickableObjectConfig (Vector2_new 950 1600) STONE,
         kickableObjectConfig (Vector2_new 1300 1500) BARREL],
      boss = Some iceShark,
      theme = \<lparr>backgroundColor = 0x4a7c7e, groundTexture = ''ice'',
               ambientColor = 0xaaffff, musicTrack = ''arctic-theme''\<rparr>,
      requiredCharacters = [''bombardiro-crocodilo''],
      isUnlocked = False\<rparr>"

definition createGameZones :: "GameZone list" where
  "createGameZones = [tutorialGrove, desertOutpost, arcticLab]"

text \<open>
  The constructor: \<open>w\<close> and \<open>store\<close> are the pool it creates (with the character
  manager) and the enemy objects of that pool.
\<close>

definition EncounterSystem_new ::
  "'w \<Rightarrow> (nat \<Rightarrow> 'e Enemy) \<Rightarrow> (nat \<Rightarrow> KickableObject) \<Rightarrow> ('e, 'w) EncounterSystem" where
  "EncounterSystem_new w store props =
     \<lparr>world = w,
      enemyStore = store,
      objectStore = props,
      nextObject = 0,
      zones = createGameZones,
      currentZone = None,
      activeEnemies = [],
      activeObjects = [],
      currentBoss = None,
      isBossFight = False,
      EncounterSystem.aggroRadius = 150,
      console = [],
      cameraBackground = None\<rparr>"

section \<open>EncounterSystem: operations\<close>

text \<open>\<^verbatim>\<open>Array.prototype.findIndex\<close>, with \<open>None\<close> for -1; \<^verbatim>\<open>find\<close> returns the element there.\<close>

fun findIndex :: "('a \<Rightarrow> bool) \<Rightarrow> 'a list \<Rightarrow> nat option" where
  "findIndex P [] = None"
| "findIndex P (z # zs) = (if P z then Some 0 else map_option Suc (findIndex P zs))"

text \<open>An array index as a template literal prints it: in decimal.\<close>

fun showNat :: "nat \<Rightarrow> string" where
  "showNat n =
     (if n < 10 then [char_of (48 + n)]
      else showNat (n div 10) @ [char_of (48 + n mod 10)])"

declare showNat.simps [simp del]

fun EnemyState_value :: "EnemyState \<Rightarrow> string" where
  "EnemyState_value STATIONARY = ''stationary''"
| "EnemyState_value PATROLLING = ''patrolling''"
| "EnemyState_value AGGROED = ''aggroed''"
| "EnemyState_value COMBAT = ''combat''"
| "EnemyState_value FLEEING = ''fleeing''"

text \<open>Running a callback that may throw over a list, as \<^verbatim>\<open>forEach\<close> does.\<close>

fun forEachE :: "('i \<Rightarrow> 's \<Rightarrow> error + 's) \<Rightarrow> 'i list \<Rightarrow> 's \<Rightarrow> error + 's" where
  "forEachE f [] s = Inr s"
| "forEachE f (i # is) s = andThen (f i s) (forEachE f is)"

definition releaseAll ::
  "('e, 'w) Collaborators \<Rightarrow> nat list \<Rightarrow> 'w \<times> (nat \<Rightarrow> 'e Enemy) \<Rightarrow> 'w \<times> (nat \<Rightarrow> 'e Enemy)" where
  "releaseAll E refs ws = foldl (\<lambda>(w, st) a. pool_release E a w st) ws refs"

definition clearCurrentZone ::
  "('e, 'w) Collaborators \<Rightarrow> ('e, 'w) EncounterSystem \<Rightarrow> ('e, 'w) EncounterSystem" where
  "clearCurrentZone E s =
     (let (w1, st1) = releaseAll E (map snd (activeEnemies s)) (world s, enemyStore s);
          props1 = foldl (\<lambda>st a. st(a := KickableObject_destroy (st a)))
                     (objectStore s) (map snd (activeObjects s))
      in s\<lparr>world := w1, enemyStore := st1, activeEnemies := [],
            objectStore := props1, activeObjects := [], currentZone := None\<rparr>)"

definition applyZoneTheme :: "GameZone \<Rightarrow> ('e, 'w) EncounterSystem \<Rightarrow> ('e, 'w) EncounterSystem" where
  "applyZoneTheme zone s = s\<lparr>cameraBackground := Some (backgroundColor (theme zone))\<rparr>"

definition modifyZone ::
  "nat \<Rightarrow> (GameZone \<Rightarrow> GameZone) \<Rightarrow> ('e, 'w) EncounterSystem \<Rightarrow> ('e, 'w) EncounterSystem" where
  "modifyZone zi f s = s\<lparr>zones := (zones s)[zi := f (zones s ! zi)]\<rparr>"

definition modifyPlacement ::
  "nat \<Rightarrow> nat \<Rightarrow> (StationaryEnemy \<Rightarrow> StationaryEnemy)
     \<Rightarrow> ('e, 'w) EncounterSystem \<Rightarrow> ('e, 'w) EncounterSystem" where
  "modifyPlacement zi index f s =
     modifyZone zi (\<lambda>z. z\<lparr>enemies := (enemies z)[index := f (enemies z ! index)]\<rparr>) s"

text \<open>
  The body of the first \<^verbatim>\<open>forEach\<close> of \<^verbatim>\<open>loadZone\<close>, for the placement at \<open>index\<close> of
  the zone at \<open>zi\<close>.
\<close>

definition spawnZoneEnemy ::
  "('e, 'w) Collaborators \<Rightarrow> string \<Rightarrow> nat \<Rightarrow> nat
     \<Rightarrow> ('e, 'w) EncounterSystem \<Rightarrow> ('e, 'w) EncounterSystem" where
  "spawnZoneEnemy E zoneIdArg zi index s =
     (let enemyConfig = enemies (zones s ! zi) ! index;
          (a, w1, st1) = pool_acquire E (world s) (enemyStore s);
          e1 = (st1 a)\<lparr>Enemy.aggroRadius := Some (StationaryEnemy.aggroRadius enemyConfig),
                       currentState := Some (state enemyConfig),
                       originalPosition := Some (StationaryEnemy.position enemyConfig),
                       Enemy.patrolPath := StationaryEnemy.patrolPath enemyConfig,
                       patrolIndex := Some 0,
                       hasAggro := Some False\<rparr>;
          e2 = Enemy_spawn E (Vector2.x (StationaryEnemy.position enemyConfig))
                 (Vector2.y (StationaryEnemy.position enemyConfig)) (enemyType enemyConfig) e1;
          e3 = (if state enemyConfig = STATIONARY then e2\<lparr>movementType := Some ''stationary''\<rparr>
                else if state enemyConfig = PATROLLING then e2\<lparr>movementType := Some ''patrol''\<rparr>
                else e2);
          s1 = modifyPlacement zi index (\<lambda>c. c\<lparr>enemy := Some a\<rparr>) s
      in s1\<lparr>world := w1,
             enemyStore := st1(a := e3),
             activeEnemies :=
               AList.update (zoneIdArg @ ''-enemy-'' @ showNat index) a (activeEnemies s1)\<rparr>)"

definition spawnZoneObject ::
  "('e, 'w) Collaborators \<Rightarrow> string \<Rightarrow> nat \<Rightarrow> nat
     \<Rightarrow> ('e, 'w) EncounterSystem \<Rightarrow> ('e, 'w) EncounterSystem" where
  "spawnZoneObject E zoneIdArg zi index s =
     (let objectConfig = kickableObjects (zones s ! zi) ! index;
          a = nextObject s;
          kickableObject = KickableObject_new (spriteWidth E)
                             (Vector2.x (KickableObjectConfig.position objectConfig))
                             (Vector2.y (KickableObjectConfig.position objectConfig))
                             (KickableObjectConfig.type objectConfig);
          s1 = modifyZone zi (\<lambda>z. z\<lparr>kickableObjects :=
                 (kickableObjects z)[index := (kickableObjects z ! index)\<lparr>object := Some a\<rparr>]\<rparr>) s
      in s1\<lparr>objectStore := (objectStore s1)(a := kickableObject),
             nextObject := Suc a,
             activeObjects :=
               AList.update (zoneIdArg @ ''-object-'' @ showNat index) a (activeObjects s1)\<rparr>)"

definition zoneWarning :: "string \<Rightarrow> ConsoleEntry" where
  "zoneWarning zoneIdArg = Warn [Str ''Zone '', Str zoneIdArg, Str '' not found or not unlocked'']"

definition loadZone ::
  "('e, 'w) Collaborators \<Rightarrow> string \<Rightarrow> ('e, 'w) EncounterSystem \<Rightarrow> ('e, 'w) EncounterSystem" where
  "loadZone E zoneIdArg s =
     (case findIndex (\<lambda>z. zoneId z = zoneIdArg) (zones s) of
        None \<Rightarrow> s\<lparr>console := console s @ [zoneWarning zoneIdArg]\<rparr>
      | Some zi \<Rightarrow>
          if \<not> isUnlocked (zones s ! zi)
          then s\<lparr>console := console s @ [zoneWarning zoneIdArg]\<rparr>
          else
            (let s1 = (clearCurrentZone E s)\<lparr>currentZone := Some zi\<rparr>;
                 s2 = foldl (\<lambda>acc index. spawnZoneEnemy E zoneIdArg zi index acc) s1
                        [0 ..< length (enemies (zones s1 ! zi))];
                 s3 = foldl (\<lambda>acc index. spawnZoneObject E zoneIdArg zi index acc) s2
                        [0 ..< length (kickableObjects (zones s2 ! zi))]
             in applyZoneTheme (zones s3 ! zi) s3))"

text \<open>
  The aggro state machine works on one placement and the enemy object it refers to;
  it returns both, with what it logged.
\<close>

definition triggerAggro ::
  "'e Enemy \<Rightarrow> StationaryEnemy \<Rightarrow> StationaryEnemy \<times> 'e Enemy \<times> ConsoleEntry list" where
  "triggerAggro e cfg =
     (cfg\<lparr>state := AGGROED\<rparr>,
      e\<lparr>hasAggro := Some True,
        movementType := Some ''homing'',
        Enemy.sprite := (Enemy.sprite e)\<lparr>tint := Some 0xff9999\<rparr>\<rparr>,
      [Log [Str ''Enemy aggroed at position '', Num (Sprite.x (Enemy.sprite e)),
            Str '', '', Num (Sprite.y (Enemy.sprite e))]])"

definition loseAggro ::
  "'e Enemy \<Rightarrow> StationaryEnemy \<Rightarrow> StationaryEnemy \<times> 'e Enemy \<times> ConsoleEntry list" where
  "loseAggro e cfg =
     (let e1 = e\<lparr>hasAggro := Some False\<rparr>;
          (cfg1, e2) =
            (if StationaryEnemy.patrolPath cfg \<noteq> None
             then (cfg\<lparr>state := PATROLLING\<rparr>, e1\<lparr>movementType := Some ''patrol''\<rparr>)
             else (cfg\<lparr>state := STATIONARY\<rparr>, e1\<lparr>movementType := Some ''stationary''\<rparr>));
          e3 = e2\<lparr>Enemy.sprite := (Enemy.sprite e2)\<lparr>tint := None\<rparr>\<rparr>
      in (cfg1, e3,
          [Log [Str ''Enemy lost aggro, returning to '', Str (EnemyState_value (state cfg1))]]))"

definition updatePatrol :: "'e Enemy \<Rightarrow> StationaryEnemy \<Rightarrow> error + 'e Enemy" where
  "updatePatrol e cfg =
     (case StationaryEnemy.patrolPath cfg of
        None \<Rightarrow> Inr e
      | Some path \<Rightarrow>
          if length path = 0 then Inr e
          else
            (let i = (case patrolIndex e of None \<Rightarrow> 0 | Some j \<Rightarrow> j)
             in if \<not> i < length path then Inl TypeError
                else
                  (let targetPos = path ! i;
                       enemyPos = Vector2_new (Sprite.x (Enemy.sprite e)) (Sprite.y (Enemy.sprite e));
                       distanceToTarget = distance enemyPos targetPos;
                       e1 = (if distanceToTarget < 20
                             then e\<lparr>patrolIndex := Some ((i + 1) mod length path)\<rparr>
                             else e);
                       dx = Vector2.x targetPos - Sprite.x (Enemy.sprite e1);
                       dy = Vector2.y targetPos - Sprite.y (Enemy.sprite e1);
                       dist = sqrt (dx * dx + dy * dy)
                   in if dist > 5 then
                        (let moveSpeed = speed e1 * 0.5;
                             moveX = (dx / dist) * moveSpeed * (1 / 60);
                             moveY = (dy / dist) * moveSpeed * (1 / 60)
                         in Inr (e1\<lparr>Enemy.sprite := (Enemy.sprite e1)
                                   \<lparr>Sprite.x := Sprite.x (Enemy.sprite e1) + moveX,
                                    Sprite.y := Sprite.y (Enemy.sprite e1) + moveY\<rparr>\<rparr>))
                      else Inr e1)))"

definition distanceToPlayer :: "'e Enemy \<Rightarrow> Vector2 \<Rightarrow> real" where
  "distanceToPlayer e playerPos =
     distance (Vector2_new (Sprite.x (Enemy.sprite e)) (Sprite.y (Enemy.sprite e))) playerPos"

definition updateEnemyAggro ::
  "Vector2 \<Rightarrow> StationaryEnemy \<Rightarrow> 'e Enemy
     \<Rightarrow> error + (StationaryEnemy \<times> 'e Enemy \<times> ConsoleEntry list)" where
  "updateEnemyAggro playerPos enemyConfig e =
     (let d = distanceToPlayer e playerPos;
          aggroRange = StationaryEnemy.aggroRadius enemyConfig;
          aggro = (hasAggro e = Some True)
      in case state enemyConfig of
           STATIONARY \<Rightarrow>
             if d \<le> aggroRange \<and> \<not> aggro then Inr (triggerAggro e enemyConfig)
             else Inr (enemyConfig, e, [])
         | PATROLLING \<Rightarrow>
             if d \<le> aggroRange \<and> \<not> aggro then Inr (triggerAggro e enemyConfig)
             else if \<not> aggro
               then andThen (updatePatrol e enemyConfig) (\<lambda>e1. Inr (enemyConfig, e1, []))
             else Inr (enemyConfig, e, [])
         | AGGROED \<Rightarrow>
             if d > aggroRange * 1.5 then Inr (loseAggro e enemyConfig)
             else Inr (enemyConfig, e\<lparr>movementType := Some ''homing''\<rparr>, [])
         | COMBAT \<Rightarrow> Inr (enemyConfig, e, [])
         | FLEEING \<Rightarrow> Inr (enemyConfig, e, []))"

text \<open>The body of the \<^verbatim>\<open>forEach\<close> over the placements in \<^verbatim>\<open>update\<close>.\<close>

definition updatePlacement ::
  "Vector2 \<Rightarrow> nat \<Rightarrow> nat \<Rightarrow> ('e, 'w) EncounterSystem \<Rightarrow> error + ('e, 'w) EncounterSystem" where
  "updatePlacement playerPos zi index s =
     (let enemyConfig = enemies (zones s ! zi) ! index
      in case enemy enemyConfig of
           None \<Rightarrow> Inr s
         | Some a \<Rightarrow>
             if \<not> active (Enemy.sprite (enemyStore s a)) then Inr s
             else andThen (updateEnemyAggro playerPos enemyConfig (enemyStore s a))
                    (\<lambda>(cfg1, e1, logs).
                       Inr ((modifyPlacement zi index (\<lambda>c. cfg1) s)
                              \<lparr>enemyStore := (enemyStore s)(a := e1),
                               console := console s @ logs\<rparr>)))"

definition bossEnemyType :: "string \<Rightarrow> EnemyTypeId" where
  "bossEnemyType ty =
     (if ty = ''swarm-king'' then ELITE
      else if ty = ''desert-bomber'' then TANK
      else if ty = ''ice-shark'' then ELITE
      else ELITE)"

definition currentZoneBoss :: "('e, 'w) EncounterSystem \<Rightarrow> BossConfig option" where
  "currentZoneBoss s = (case currentZone s of None \<Rightarrow> None | Some zi \<Rightarrow> boss (zones s ! zi))"

definition startBossFight ::
  "('e, 'w) Collaborators \<Rightarrow> ('e, 'w) EncounterSystem \<Rightarrow> ('e, 'w) EncounterSystem" where
  "startBossFight E s =
     (case currentZoneBoss s of
        None \<Rightarrow> s
      | Some cfg \<Rightarrow>
          (let (w1, st1) = releaseAll E (map snd (activeEnemies s)) (world s, enemyStore s);
               b = Boss_spawn E (Vector2.x (BossConfig.position cfg)) (Vector2.y (BossConfig.position cfg))
                     (bossEnemyType (BossConfig.type cfg)) (Boss_new E cfg)
           in s\<lparr>console := console s @ [Log [Str ''Starting boss fight: '', Str (BossConfig.name cfg)]],
                 world := w1, enemyStore := st1, activeEnemies := [],
                 currentBoss := Some b,
                 isBossFight := True\<rparr>))"

definition unlockNextZone :: "('e, 'w) EncounterSystem \<Rightarrow> ('e, 'w) EncounterSystem" where
  "unlockNextZone s =
     (case currentZone s of
        None \<Rightarrow> s
      | Some zi \<Rightarrow>
          (case findIndex (\<lambda>z. zoneId z = zoneId (zones s ! zi)) (zones s) of
             None \<Rightarrow> s
           | Some currentZoneIndex \<Rightarrow>
               if int currentZoneIndex < int (length (zones s)) - 1 then
                 (let s1 = modifyZone (currentZoneIndex + 1) (\<lambda>z. z\<lparr>isUnlocked := True\<rparr>) s
                  in s1\<lparr>console := console s1 @
                       [Log [Str ''Zone '', Str (GameZone.name (zones s1 ! (currentZoneIndex + 1))),
                             Str '' unlocked!'']]\<rparr>)
               else s))"

text \<open>The first character of the unlock message is U+1F389, here in UTF-8.\<close>

definition partyPopper :: string where
  "partyPopper = [char_of (0xF0 :: nat), char_of (0x9F :: nat), char_of (0x8E :: nat), char_of (0x89 :: nat)]"

definition onBossDefeated ::
  "('e, 'w) Collaborators \<Rightarrow> ('e, 'w) EncounterSystem \<Rightarrow> ('e, 'w) EncounterSystem" where
  "onBossDefeated E s =
     (case currentBoss s of
        None \<Rightarrow> s
      | Some b \<Rightarrow>
          (case currentZoneBoss s of
             None \<Rightarrow> s
           | Some cfg \<Rightarrow>
               (let s1 = s\<lparr>console := console s @
                            [Log [Str ''Boss '', Str (BossConfig.name cfg), Str '' defeated!'']]\<rparr>;
                    (unlocked, w1) = unlockCharacterByBoss E (BossConfig.type cfg) (world s1);
                    s2 = s1\<lparr>world := w1\<rparr>;
                    s3 = (if unlocked
                          then s2\<lparr>console := console s2 @
                                 [Log [Str partyPopper, Str '' New Italian Brainrot character unlocked: '',
                                       Str (unlockCharacter cfg)]]\<rparr>
                          else s2);
                    s4 = unlockNextZone s3
                in s4\<lparr>currentBoss := None, isBossFight := False\<rparr>)))"

definition updateBoss ::
  "('e, 'w) Collaborators \<Rightarrow> TickEnv \<Rightarrow> Vector2
     \<Rightarrow> ('e, 'w) EncounterSystem \<Rightarrow> error + ('e, 'w) EncounterSystem" where
  "updateBoss E env playerPos s =
     (case currentBoss s of
        None \<Rightarrow> Inr s
      | Some b \<Rightarrow>
          if \<not> active (Enemy.sprite (base b)) then Inr s
          else andThen (Boss_update E env 16 playerPos b) (\<lambda>b1.
                 (let s1 = s\<lparr>currentBoss := Some b1\<rparr>
                  in Inr (if Enemy.health (base b1) \<le> 0 \<and> isDying (base b1)
                          then onBossDefeated E s1 else s1))))"

definition updateObjects :: "TickEnv \<Rightarrow> ('e, 'w) EncounterSystem \<Rightarrow> ('e, 'w) EncounterSystem" where
  "updateObjects env s =
     s\<lparr>objectStore :=
         foldl (\<lambda>st a. st(a := KickableObject_update (now env) 16 (st a)))
           (objectStore s) (map snd (activeObjects s))\<rparr>"

definition updateEnemies ::
  "('e, 'w) Collaborators \<Rightarrow> Vector2 \<Rightarrow> nat
     \<Rightarrow> ('e, 'w) EncounterSystem \<Rightarrow> error + ('e, 'w) EncounterSystem" where
  "updateEnemies E playerPos zi s =
     (if isBossFight s then Inr s
      else andThen
        (forEachE (updatePlacement playerPos zi) [0 ..< length (enemies (zones s ! zi))] s)
        (\<lambda>s1. case boss (zones s1 ! zi) of
                 None \<Rightarrow> Inr s1
               | Some cfg \<Rightarrow>
                   if currentBoss s1 = None
                      \<and> distance playerPos (BossConfig.position cfg) \<le> BossConfig.arenaRadius cfg
                   then Inr (startBossFight E s1)
                   else Inr s1))"

definition cleanupDeadEnemies ::
  "('e, 'w) Collaborators \<Rightarrow> ('e, 'w) EncounterSystem \<Rightarrow> ('e, 'w) EncounterSystem" where
  "cleanupDeadEnemies E s =
     (let (w1, st1, deadEnemies) =
            foldl (\<lambda>(w, st, dead) (key, a).
                     if active (Enemy.sprite (st a)) \<and> Enemy.health (st a) \<le> 0 \<and> \<not> isDying (st a)
                     then (let (w', st') = pool_release E a w st in (w', st', dead @ [key]))
                     else (w, st, dead))
              (world s, enemyStore s, []) (activeEnemies s)
      in s\<lparr>world := w1, enemyStore := st1,
            activeEnemies := filter (\<lambda>(key, a). key \<notin> set deadEnemies) (activeEnemies s)\<rparr>)"

definition cleanupBrokenObjects :: "('e, 'w) EncounterSystem \<Rightarrow> ('e, 'w) EncounterSystem" where
  "cleanupBrokenObjects s =
     (let (props1, brokenObjects) =
            foldl (\<lambda>(st, broken) (key, a).
                     if isBroken (st a)
                     then (st(a := KickableObject_destroy (st a)), broken @ [key])
                     else (st, broken))
              (objectStore s, []) (activeObjects s)
      in s\<lparr>objectStore := props1,
            activeObjects := filter (\<lambda>(key, a). key \<notin> set brokenObjects) (activeObjects s)\<rparr>)"

text \<open>
  \<^verbatim>\<open>update(currentTime, playerPos)\<close>. The first parameter is the one the callers
  pass the frame's delta time in; the body never reads it.
\<close>

definition EncounterSystem_update ::
  "('e, 'w) Collaborators \<Rightarrow> TickEnv \<Rightarrow> real \<Rightarrow> Vector2
     \<Rightarrow> ('e, 'w) EncounterSystem \<Rightarrow> error + ('e, 'w) EncounterSystem" where
  "EncounterSystem_update E env currentTime playerPos s =
     (case currentZone s of
        None \<Rightarrow> Inr s
      | Some zi \<Rightarrow>
          andThen (updateBoss E env playerPos s) (\<lambda>s1.
          andThen (updateEnemies E playerPos zi (updateObjects env s1)) (\<lambda>s2.
          Inr (cleanupBrokenObjects (cleanupDeadEnemies E s2)))))"

text \<open>The accessors; an enemy is named by its reference, the boss by \<open>TheBoss\<close>.\<close>

datatype EnemyRef = Regular nat | TheBoss

definition getActiveEnemies :: "('e, 'w) EncounterSystem \<Rightarrow> EnemyRef list" where
  "getActiveEnemies s =
     map Regular (filter (\<lambda>a. active (Enemy.sprite (enemyStore s a))) (map snd (activeEnemies s)))
     @ (case currentBoss s of
          None \<Rightarrow> []
        | Some b \<Rightarrow> if active (Enemy.sprite (base b)) then [TheBoss] else [])"

definition getActiveObjects :: "('e, 'w) EncounterSystem \<Rightarrow> nat list" where
  "getActiveObjects s = filter (\<lambda>a. \<not> isBroken (objectStore s a)) (map snd (activeObjects s))"

definition getFlyingObjects :: "('e, 'w) EncounterSystem \<Rightarrow> nat list" where
  "getFlyingObjects s =
     filter (\<lambda>a. isFlying (objectStore s a) \<and> \<not> isBroken (objectStore s a)) (map snd (activeObjects s))"

definition getCurrentZone :: "('e, 'w) EncounterSystem \<Rightarrow> GameZone option" where
  "getCurrentZone s = map_option (\<lambda>zi. zones s ! zi) (currentZone s)"

definition getAvailableZones :: "('e, 'w) EncounterSystem \<Rightarrow> GameZone list" where
  "getAvailableZones s = filter isUnlocked (zones s)"

definition getBoss :: "('e, 'w) EncounterSystem \<Rightarrow> 'e Boss option" where
  "getBoss s = currentBoss s"

definition isBossActive :: "('e, 'w) EncounterSystem \<Rightarrow> bool" where
  "isBossActive s = (isBossFight s \<and> currentBoss s \<noteq> None)"

definition unlockZone :: "string \<Rightarrow> ('e, 'w) EncounterSystem \<Rightarrow> ('e, 'w) EncounterSystem" where
  "unlockZone zoneIdArg s =
     (case findIndex (\<lambda>z. zoneId z = zoneIdArg) (zones s) of
        None \<Rightarrow> s
      | Some zi \<Rightarrow>
          (let s1 = modifyZone zi (\<lambda>z. z\<lparr>isUnlocked := True\<rparr>) s
           in s1\<lparr>console := console s1 @
                [Log [Str ''Zone '', Str (GameZone.name (zones s1 ! zi)), Str '' unlocked!'']]\<rparr>))"

text \<open>
  \<^verbatim>\<open>reset()\<close>. The boss object is reset and then dropped; the system keeps no
  reference to it.
\<close>

definition EncounterSystem_reset ::
  "('e, 'w) Collaborators \<Rightarrow> ('e, 'w) EncounterSystem \<Rightarrow> ('e, 'w) EncounterSystem" where
  "EncounterSystem_reset E s =
     (let s1 = clearCurrentZone E s;
          s2 = (case currentBoss s1 of
                  None \<Rightarrow> s1
                | Some b \<Rightarrow> (s1\<lparr>currentBoss := Some (Boss_reset E b)\<rparr>)\<lparr>currentBoss := None\<rparr>)
      in s2\<lparr>isBossFight := False, activeObjects := []\<rparr>)"

text \<open>
  An instance of the parameters, after the mocks of the test suite: an enemy at
  (100, 100) with health 100 and speed 100 whose methods do nothing, a pool that
  hands out a new reference at each call, and a character manager that unlocks for
  every boss type.
\<close>

definition mockEnemy :: "unit Enemy" where
  "mockEnemy =
     \<lparr>Enemy.sprite = \<lparr>Sprite.x = 100, Sprite.y = 100, rotation = 0, scaleX = 1,
                      visible = True, active = True, tint = None, destroyed = False\<rparr>,
      Enemy.health = 100,
      Enemy.maxHealth = 100,
      isDying = False,
      speed = 100,
      Enemy.hitboxRadius = 20,
      knockbackVelocity = \<lparr>Vector2.x = 0, Vector2.y = 0\<rparr>,
      Enemy.aggroRadius = None,
      currentState = None,
      originalPosition = None,
      Enemy.patrolPath = None,
      patrolIndex = None,
      hasAggro = None,
      movementType = None,
      internal = ()\<rparr>"

definition mocks :: "(unit, nat) Collaborators" where
  "mocks =
     \<lparr>Enemy_new = mockEnemy,
      Enemy_spawn = (\<lambda>px py ty e. e),
      Enemy_update = (\<lambda>deltaTime playerPos e. e),
      Enemy_takeDamage = (\<lambda>amount e. (False, e)),
      Enemy_reset = (\<lambda>e. e),
      pool_acquire = (\<lambda>w st. (w, Suc w, st)),
      pool_release = (\<lambda>a w st. (w, st)),
      unlockCharacterByBoss = (\<lambda>ty w. (True, w)),
      spriteWidth = 64\<rparr>"

section \<open>Auxiliary notions for the statements\<close>

text \<open>Two boss states with the same configuration and the same phase index.\<close>

definition same_phase :: "'e Boss \<Rightarrow> 'e Boss \<Rightarrow> bool" where
  "same_phase b b' = (bossConfig b' = bossConfig b \<and> currentPhase b' = currentPhase b)"

text \<open>
  The map of active props is well formed: no prop object is under two keys, and
  every reference in it was handed out by the allocation counter.
\<close>

definition props_wf :: "('e, 'w) EncounterSystem \<Rightarrow> bool" where
  "props_wf s =
     (distinct (map snd (activeObjects s))
      \<and> list_all (\<lambda>a. a < nextObject s) (map snd (activeObjects s)))"

text \<open>
  A kick whose arithmetic is exact: the two factors and the four products that
  \<^verbatim>\<open>applyKick\<close> forms, in the order in which it forms them, are finite doubles, so
  that no operation rounds, underflows or overflows and the prop's new velocity in
  the code is the one in the model.
\<close>

definition exactKick :: "real \<Rightarrow> real \<Rightarrow> real \<Rightarrow> KickableObject \<Rightarrow> bool" where
  "exactKick forceX forceY characterKickForce k =
     (let weightFactor = 100 / KickableObject.weight k
      in binary64 weightFactor \<and> binary64 (characterKickForce / 100)
         \<and> binary64 (forceX * weightFactor) \<and> binary64 (forceY * weightFactor)
         \<and> binary64 (forceX * weightFactor * (characterKickForce / 100))
         \<and> binary64 (forceY * weightFactor * (characterKickForce / 100)))"

text \<open>
  A prop whose public flag \<^verbatim>\<open>isBroken\<close> was cleared from outside after it broke: a
  Barrel destroyed by 30 points of damage, the flag set back to false, then kicked.
\<close>

definition revivedBarrel :: KickableObject where
  "revivedBarrel =
     applyKick (1/2) 100 0 100 ((takeDamage 30 (KickableObject_new 64 0 0 BARREL))\<lparr>isBroken := False\<rparr>)"

text \<open>
  The placements of a zone as \<^verbatim>\<open>loadZone\<close> leaves them when the pool hands out a
  different object at each call: no enemy object is referred to by two placements,
  and the patrol index on an enemy is an index into its placement's patrol path.
\<close>

definition patrolIndexOk :: "StationaryEnemy \<Rightarrow> 'e Enemy \<Rightarrow> bool" where
  "patrolIndexOk cfg e =
     (case StationaryEnemy.patrolPath cfg of
        None \<Rightarrow> True
      | Some path \<Rightarrow>
          (case patrolIndex e of None \<Rightarrow> True | Some k \<Rightarrow> path = [] \<or> k < length path))"

definition placements_wf :: "('e, 'w) EncounterSystem \<Rightarrow> nat \<Rightarrow> bool" where
  "placements_wf s zi =
     (distinct (filter (\<lambda>r. r \<noteq> None) (map enemy (enemies (zones s ! zi))))
      \<and> list_all (\<lambda>cfg. case enemy cfg of
                           None \<Rightarrow> True
                         | Some a \<Rightarrow> patrolIndexOk cfg (enemyStore s a))
          (enemies (zones s ! zi)))"

text \<open>Every ability id of every phase of every boss of the zone catalog, in order.\<close>

definition shippedAbilities :: "string list" where
  "shippedAbilities =
     concat (map abilities (concat (map (\<lambda>z. case boss z of None \<Rightarrow> [] | Some cfg \<Rightarrow> phases cfg)
       createGameZones)))"

text \<open>
  The scenario of the tests, used to show that the hypotheses of the theorems can
  be met: a new system over the mocks, the tutorial zone loaded into it, and from
  there the zone's boss fight started, the first placement aggroed, or the first
  prop (the barrel) kicked along the x axis; and a tick at time 1000.
\<close>

definition s_init :: "(unit, nat) EncounterSystem" where
  "s_init = EncounterSystem_new 0 (\<lambda>a. mockEnemy) (\<lambda>a. KickableObject_new 64 0 0 BARREL)"

definition s_loaded :: "(unit, nat) EncounterSystem" where
  "s_loaded = loadZone mocks ''tutorial-grove'' s_init"

definition s_fight :: "(unit, nat) EncounterSystem" where
  "s_fight = startBossFight mocks s_loaded"

definition s_aggroed :: "(unit, nat) EncounterSystem" where
  "s_aggroed =
     (modifyPlacement 0 0 (\<lambda>c. c\<lparr>state := AGGROED\<rparr>) s_loaded)
       \<lparr>enemyStore := (enemyStore s_loaded)(0 := (enemyStore s_loaded 0)\<lparr>hasAggro := Some True\<rparr>)\<rparr>"

text \<open>
  The loaded zone with a two-point patrol path on its second placement, in the
  given state, the enemy aggroed or not.
\<close>

definition s_patrol :: "EnemyState \<Rightarrow> bool \<Rightarrow> (unit, nat) EncounterSystem" where
  "s_patrol st aggro =
     (modifyPlacement 0 1
        (\<lambda>c. c\<lparr>state := st,
                StationaryEnemy.patrolPath := Some [Vector2_new 500 300, Vector2_new 700 300]\<rparr>) s_loaded)
       \<lparr>enemyStore := (enemyStore s_loaded)(1 := (enemyStore s_loaded 1)\<lparr>hasAggro := Some aggro\<rparr>)\<rparr>"

definition s_kicked :: "(unit, nat) EncounterSystem" where
  "s_kicked =
     s_loaded\<lparr>objectStore :=
       (objectStore s_loaded)(0 := applyKick (1/2) 500 0 100 (objectStore s_loaded 0))\<rparr>"

text \<open>A mock enemy as \<^verbatim>\<open>loadZone\<close> leaves it for a stationary placement.\<close>

definition spawned :: "real \<Rightarrow> Vector2 \<Rightarrow> unit Enemy" where
  "spawned radius pos =
     mockEnemy\<lparr>Enemy.aggroRadius := Some radius, currentState := Some STATIONARY,
               originalPosition := Some pos, Enemy.patrolPath := None,
               patrolIndex := Some 0, hasAggro := Some False,
               movementType := Some ''stationary''\<rparr>"

definition env0 :: TickEnv where
  "env0 = \<lparr>now = 1000, randomX = 0, randomY = 0, randomAngle = 0, randomAttack = 0\<rparr>"

text \<open>The desert boss after its spawn and 450 points of damage: 50 of 500 health left.\<close>

definition woundedBomber :: "unit Boss" where
  "woundedBomber =
     (let b = Boss_spawn mocks 2500 700 TANK (Boss_new mocks desertBomber)
      in b\<lparr>base := (base b)\<lparr>Enemy.health := 50\<rparr>\<rparr>)"

section \<open>Properties of KickableObject\<close>

lemma takeDamage_config: "config (takeDamage amount k) = config k"
  by (simp add: takeDamage_def breakObject_def Let_def)

lemma config_preserved:
  "config (applyKick rnd fx fy ckf k) = config k"
  "config (HitResult.object (hitEnemy target k)) = config k"
  "config (KickableObject_update now_ms dt k) = config k"
  "config (KickableObject_reset k) = config k"
  "config (KickableObject_new w px py t) = OBJECT_CONFIGS t"
  by (simp_all add: applyKick_def hitEnemy_def KickableObject_update_def updateTrail_def
      KickableObject_reset_def KickableObject_new_def takeDamage_config Let_def)

text \<open>
  C3, as the claim states it, fails: it speaks of every enemy argument, and with
  \<^verbatim>\<open>null\<close> or \<^verbatim>\<open>undefined\<close> for the enemy a flying, unbroken Stone does not return
  its damage of 60: the call throws, after the self-damage has taken the health
  from 50 to 45.
\<close>

theorem hitEnemy_null_enemy_throws:
  "isFlying ((KickableObject_new 64 0 0 STONE)
      \<lparr>isFlying := True, velocity := \<lparr>Vector2.x = 300, Vector2.y = 400\<rparr>\<rparr>)
   \<and> \<not> isBroken ((KickableObject_new 64 0 0 STONE)
      \<lparr>isFlying := True, velocity := \<lparr>Vector2.x = 300, Vector2.y = 400\<rparr>\<rparr>)
   \<and> returned (hitEnemy Nullish ((KickableObject_new 64 0 0 STONE)
      \<lparr>isFlying := True, velocity := \<lparr>Vector2.x = 300, Vector2.y = 400\<rparr>\<rparr>)) = Inl TypeError
   \<and> returned (hitEnemy Nullish ((KickableObject_new 64 0 0 STONE)
      \<lparr>isFlying := True, velocity := \<lparr>Vector2.x = 300, Vector2.y = 400\<rparr>\<rparr>))
       \<noteq> Inr (ObjectConfig.damage (OBJECT_CONFIGS STONE))
   \<and> KickableObject.health (HitResult.object (hitEnemy Nullish ((KickableObject_new 64 0 0 STONE)
      \<lparr>isFlying := True, velocity := \<lparr>Vector2.x = 300, Vector2.y = 400\<rparr>\<rparr>))) = 45"
  by (simp add: hitEnemy_def KickableObject_new_def takeDamage_def Let_def)

text \<open>
  C3, amended: for an enemy argument that is not \<^verbatim>\<open>null\<close> or \<^verbatim>\<open>undefined\<close> and whose
  \<^verbatim>\<open>applyKnockback\<close> is missing or a method, \<^verbatim>\<open>hitEnemy\<close> returns the prop type's fixed
  damage constant when the prop is flying and not broken at the time of the call;
  for the other arguments it then throws a \<^verbatim>\<open>TypeError\<close>, the self-damage done; for
  every argument it returns 0 when the prop is broken or not flying; and what it
  returns or throws is the same whatever the prop's velocity is.
\<close>

theorem hitEnemy_fixed_damage:
  assumes "config k = OBJECT_CONFIGS t"
  shows "(isFlying k \<and> \<not> isBroken k \<and> (target = NoKnockback \<or> target = WithKnockback) \<longrightarrow>
            returned (hitEnemy target k) = Inr (ObjectConfig.damage (OBJECT_CONFIGS t)))
       \<and> (isFlying k \<and> \<not> isBroken k \<and> (target = Nullish \<or> target = KnockbackNotCallable) \<longrightarrow>
            returned (hitEnemy target k) = Inl TypeError
          \<and> HitResult.object (hitEnemy target k) = takeDamage 5 k)
       \<and> (isBroken k \<or> \<not> isFlying k \<longrightarrow>
            returned (hitEnemy target k) = Inr 0 \<and> HitResult.object (hitEnemy target k) = k)
       \<and> returned (hitEnemy target (k\<lparr>velocity := v\<rparr>)) = returned (hitEnemy target k)"
  using assms by (auto simp add: hitEnemy_def Let_def takeDamage_config)

theorem hitEnemy_fixed_damage_witness:
  "returned (hitEnemy WithKnockback
      ((KickableObject_new 64 0 0 STONE)
         \<lparr>isFlying := True, velocity := \<lparr>Vector2.x = 300, Vector2.y = 400\<rparr>\<rparr>)) = Inr 60
   \<and> returned (hitEnemy NoKnockback
      ((KickableObject_new 64 0 0 STONE)
         \<lparr>isFlying := True, velocity := \<lparr>Vector2.x = 300, Vector2.y = 400\<rparr>\<rparr>)) = Inr 60
   \<and> returned (hitEnemy KnockbackNotCallable
      ((KickableObject_new 64 0 0 STONE)
         \<lparr>isFlying := True, velocity := \<lparr>Vector2.x = 300, Vector2.y = 400\<rparr>\<rparr>)) = Inl TypeError
   \<and> returned (hitEnemy Nullish (KickableObject_new 64 0 0 STONE)) = Inr 0"
  using hitEnemy_fixed_damage [of "(KickableObject_new 64 0 0 STONE)
         \<lparr>isFlying := True, velocity := \<lparr>Vector2.x = 300, Vector2.y = 400\<rparr>\<rparr>" STONE WithKnockback]
    hitEnemy_fixed_damage [of "(KickableObject_new 64 0 0 STONE)
         \<lparr>isFlying := True, velocity := \<lparr>Vector2.x = 300, Vector2.y = 400\<rparr>\<rparr>" STONE NoKnockback]
    hitEnemy_fixed_damage [of "(KickableObject_new 64 0 0 STONE)
         \<lparr>isFlying := True, velocity := \<lparr>Vector2.x = 300, Vector2.y = 400\<rparr>\<rparr>" STONE KnockbackNotCallable]
    hitEnemy_fixed_damage [of "KickableObject_new 64 0 0 STONE" STONE Nullish]
  by (simp add: KickableObject_new_def)









text \<open>
  A finite double is below \<open>2 ^ 1024\<close> in magnitude and, unless it is zero, at least
  \<open>2 ^ 1074\<close>-th of one.
\<close>

lemma binary64_range:
  assumes "binary64 v"
  shows "\<bar>v\<bar> < 2 ^ 1024" and "v = 0 \<or> 1 / 2 ^ 1074 \<le> \<bar>v\<bar>"
proof -
  from assms obtain m :: int and p q :: nat where m: "- (2 ^ 53 - 1) \<le> m" "m \<le> 2 ^ 53 - 1"
    and pq: "p \<le> 971" "q \<le> 1074"
    and v: "v = of_int m * 2 ^ p / 2 ^ q"
    unfolding binary64_def by auto
  have b: "\<bar>m\<bar> \<le> 2 ^ 53 - 1" "p \<le> 971" "q \<le> 1074" using m pq by simp_all
  have abs_v: "\<bar>v\<bar> = of_int \<bar>m\<bar> * 2 ^ p / 2 ^ q" unfolding v by (simp add: abs_mult)
  have m53: "(of_int \<bar>m\<bar> :: real) < 2 ^ 53"
  proof -
    have "\<bar>m\<bar> < 2 ^ 53" using b(1) by simp
    then have "(of_int \<bar>m\<bar> :: real) < of_int (2 ^ 53)" by (simp only: of_int_less_iff)
    then show ?thesis by simp
  qed
  have p971: "(2 :: real) ^ p \<le> 2 ^ 971" by (rule power_increasing) (use b in simp_all)
  have q1: "(1 :: real) \<le> 2 ^ q" by simp
  have "of_int \<bar>m\<bar> * 2 ^ p / 2 ^ q \<le> (of_int \<bar>m\<bar> * 2 ^ p / 1 :: real)"
    by (rule divide_left_mono) (use q1 in simp_all)
  then have "\<bar>v\<bar> \<le> of_int \<bar>m\<bar> * 2 ^ p"
    unfolding abs_v by simp
  also have "\<dots> < 2 ^ 53 * 2 ^ 971"
    using m53 p971 by (intro mult_less_le_imp_less) simp_all
  also have "\<dots> = (2 :: real) ^ 1024" by (simp only: power_add [symmetric]) simp
  finally show "\<bar>v\<bar> < 2 ^ 1024" .
  show "v = 0 \<or> 1 / 2 ^ 1074 \<le> \<bar>v\<bar>"
  proof (cases "m = 0")
    case True
    then show ?thesis using v by simp
  next
    case False
    then have "1 \<le> \<bar>m\<bar>" by simp
    then have m1: "(1 :: real) \<le> of_int \<bar>m\<bar>" by (simp only: of_int_1_le_iff)
    have "(1 :: real) \<le> of_int \<bar>m\<bar> * 2 ^ p"
      using m1 mult_mono [of 1 "of_int \<bar>m\<bar> :: real" 1 "2 ^ p"] by simp
    then have lo: "1 / 2 ^ q \<le> \<bar>v\<bar>" unfolding abs_v by (simp add: divide_right_mono)
    have "(2 :: real) ^ q \<le> 2 ^ 1074" by (rule power_increasing) (use b in simp_all)
    then have "(1 :: real) / 2 ^ 1074 \<le> 1 / 2 ^ q" by (intro frac_le) simp_all
    from this lo have "1 / 2 ^ 1074 \<le> \<bar>v\<bar>" by (rule order_trans)
    then show ?thesis by (rule disjI2)
  qed
qed

text \<open>
  Kicks that are not exact: a Box kicked with the smallest positive double
  underflows, and kicked with \<open>2 ^ 1023\<close> it overflows.
\<close>

lemma inexact_kicks:
  "\<not> exactKick (1 / 2 ^ 1074) 0 1 (KickableObject_new 64 0 0 BOX)"
  "\<not> exactKick (2 ^ 1023) 0 100 (KickableObject_new 64 0 0 BOX)"
proof -
  have "\<not> binary64 (1 / 2 ^ 1074 * (100 / 20) * (1 / 100))"
  proof
    assume "binary64 (1 / 2 ^ 1074 * (100 / 20) * (1 / 100))"
    from binary64_range(2) [OF this] show False by (simp add: field_simps)
  qed
  then show "\<not> exactKick (1 / 2 ^ 1074) 0 1 (KickableObject_new 64 0 0 BOX)"
    by (simp add: exactKick_def KickableObject_new_def Let_def)
  have "\<not> binary64 (2 ^ 1023 * (100 / 20))"
  proof
    assume "binary64 (2 ^ 1023 * (100 / 20))"
    from binary64_range(1) [OF this] have "(2 :: real) ^ 1023 * 5 < 2 ^ 1023 * 2" by simp
    then show False by simp
  qed
  then show "\<not> exactKick (2 ^ 1023) 0 100 (KickableObject_new 64 0 0 BOX)"
    by (simp add: exactKick_def KickableObject_new_def Let_def)
qed

lemma broken_at_rest_new: "broken_at_rest (KickableObject_new w px py t)"
  by (simp add: broken_at_rest_def KickableObject_new_def Let_def)

lemma broken_at_rest_applyKick: "broken_at_rest k \<Longrightarrow> broken_at_rest (applyKick rnd fx fy ckf k)"
  by (simp add: broken_at_rest_def applyKick_def Let_def)

lemma broken_at_rest_takeDamage: "broken_at_rest k \<Longrightarrow> broken_at_rest (takeDamage amount k)"
  by (simp add: broken_at_rest_def takeDamage_def breakObject_def Let_def)

lemma broken_at_rest_hitEnemy: "broken_at_rest k \<Longrightarrow> broken_at_rest (HitResult.object (hitEnemy target k))"
  by (simp add: broken_at_rest_def hitEnemy_def impactForce_def takeDamage_def breakObject_def Let_def)

lemma broken_at_rest_update: "broken_at_rest k \<Longrightarrow> broken_at_rest (KickableObject_update now_ms dt k)"
  by (simp add: broken_at_rest_def KickableObject_update_def updateTrail_def Let_def)

lemma broken_at_rest_reset: "broken_at_rest (KickableObject_reset k)"
  by (simp add: broken_at_rest_def KickableObject_reset_def)

text \<open>
  C7: the predicate "broken implies not flying and velocity (0,0)" holds of a newly
  constructed prop and is preserved by \<^verbatim>\<open>applyKick\<close>, \<^verbatim>\<open>hitEnemy\<close>, \<^verbatim>\<open>takeDamage\<close>,
  \<^verbatim>\<open>update\<close> and \<^verbatim>\<open>reset\<close>.
\<close>

theorem broken_at_rest_invariant:
  "broken_at_rest (KickableObject_new w px py t)
   \<and> (broken_at_rest k \<longrightarrow>
        broken_at_rest (applyKick rnd fx fy ckf k)
      \<and> broken_at_rest (HitResult.object (hitEnemy target k))
      \<and> broken_at_rest (takeDamage amount k)
      \<and> broken_at_rest (KickableObject_update now_ms dt k)
      \<and> broken_at_rest (KickableObject_reset k))"
  by (simp add: broken_at_rest_new broken_at_rest_applyKick broken_at_rest_hitEnemy
      broken_at_rest_takeDamage broken_at_rest_update broken_at_rest_reset)

theorem broken_at_rest_invariant_witness:
  "broken_at_rest ((KickableObject_new 64 0 0 BOX)
      \<lparr>KickableObject.health := 5, isFlying := True, velocity := \<lparr>Vector2.x = 300, Vector2.y = 400\<rparr>\<rparr>)
   \<and> isBroken (HitResult.object (hitEnemy WithKnockback ((KickableObject_new 64 0 0 BOX)
      \<lparr>KickableObject.health := 5, isFlying := True, velocity := \<lparr>Vector2.x = 300, Vector2.y = 400\<rparr>\<rparr>)))
   \<and> broken_at_rest (HitResult.object (hitEnemy WithKnockback ((KickableObject_new 64 0 0 BOX)
      \<lparr>KickableObject.health := 5, isFlying := True, velocity := \<lparr>Vector2.x = 300, Vector2.y = 400\<rparr>\<rparr>)))"
  using broken_at_rest_invariant [of 64 0 0 BOX "(KickableObject_new 64 0 0 BOX)
      \<lparr>KickableObject.health := 5, isFlying := True, velocity := \<lparr>Vector2.x = 300, Vector2.y = 400\<rparr>\<rparr>"
      0 0 0 0 WithKnockback 0 0 0]
  by (simp add: broken_at_rest_def KickableObject_new_def hitEnemy_def impactForce_def
      takeDamage_def breakObject_def Let_def)

text \<open>
  C10, as the claim states it, fails twice. The flag \<^verbatim>\<open>isBroken\<close> is public, and the
  break is guarded by the private flag \<^verbatim>\<open>breakEffectPlayed\<close> as well: a prop that
  broke, had \<^verbatim>\<open>isBroken\<close> cleared from outside and was kicked again is flying and
  unbroken with health 0, yet its next hit does not break it, measures an impact
  speed of 200 and calls the knockback method with (100, 0). And with \<^verbatim>\<open>null\<close> for
  the enemy, a flying, unbroken Barrel of health 5 breaks and the call throws: no
  damage is returned.
\<close>

theorem breaking_hit_fails:
  "isFlying revivedBarrel \<and> \<not> isBroken revivedBarrel \<and> KickableObject.health revivedBarrel \<le> 5
   \<and> \<not> isBroken (HitResult.object (hitEnemy WithKnockback revivedBarrel))
   \<and> impactForce revivedBarrel = 200
   \<and> knockbackCall (hitEnemy WithKnockback revivedBarrel) = Some (100, 0)
   \<and> isBroken (HitResult.object (hitEnemy Nullish ((KickableObject_new 64 0 0 BARREL)
      \<lparr>KickableObject.health := 5, isFlying := True, velocity := \<lparr>Vector2.x = 300, Vector2.y = 400\<rparr>\<rparr>)))
   \<and> returned (hitEnemy Nullish ((KickableObject_new 64 0 0 BARREL)
      \<lparr>KickableObject.health := 5, isFlying := True, velocity := \<lparr>Vector2.x = 300, Vector2.y = 400\<rparr>\<rparr>))
       = Inl TypeError"
  by (simp add: revivedBarrel_def hitEnemy_def impactForce_def applyKick_def takeDamage_def
      breakObject_def KickableObject_new_def Let_def)

text \<open>
  C10, amended: when a flying, unbroken prop with health at most 5 whose break
  effect has not been played yet hits an enemy, the self-damage of 5 breaks it
  before the knockback is computed and the measured impact speed is 0, whatever the
  enemy argument is; and for an enemy argument that is not \<^verbatim>\<open>null\<close> or \<^verbatim>\<open>undefined\<close>
  and whose \<^verbatim>\<open>applyKnockback\<close> is missing or a method, the method (when there is one)
  is called with (0, 0) and the full damage constant is still returned although
  the prop is broken when \<^verbatim>\<open>hitEnemy\<close> returns. The flag \<^verbatim>\<open>breakEffectPlayed\<close> equals
  \<^verbatim>\<open>isBroken\<close> in every state that the methods of the class produce.
\<close>

theorem hitEnemy_breaking_hit:
  assumes "isFlying k" "\<not> isBroken k" "\<not> breakEffectPlayed k" "KickableObject.health k \<le> 5"
  shows "velocity (takeDamage 5 k) = \<lparr>Vector2.x = 0, Vector2.y = 0\<rparr>
       \<and> impactForce k = 0
       \<and> isBroken (HitResult.object (hitEnemy target k))
       \<and> (target = NoKnockback \<or> target = WithKnockback \<longrightarrow>
            knockbackCall (hitEnemy target k) = (if target = WithKnockback then Some (0, 0) else None)
          \<and> returned (hitEnemy target k) = Inr (ObjectConfig.damage (config k)))"
  using assms by (auto simp add: hitEnemy_def impactForce_def takeDamage_def breakObject_def Let_def)

theorem hitEnemy_breaking_hit_witness:
  "impactForce ((KickableObject_new 64 0 0 BARREL)
      \<lparr>KickableObject.health := 5, isFlying := True, velocity := \<lparr>Vector2.x = 300, Vector2.y = 400\<rparr>\<rparr>) = 0
   \<and> knockbackCall (hitEnemy WithKnockback ((KickableObject_new 64 0 0 BARREL)
      \<lparr>KickableObject.health := 5, isFlying := True, velocity := \<lparr>Vector2.x = 300, Vector2.y = 400\<rparr>\<rparr>))
       = Some (0, 0)
   \<and> returned (hitEnemy WithKnockback ((KickableObject_new 64 0 0 BARREL)
      \<lparr>KickableObject.health := 5, isFlying := True, velocity := \<lparr>Vector2.x = 300, Vector2.y = 400\<rparr>\<rparr>))
       = Inr 40
   \<and> isBroken (HitResult.object (hitEnemy WithKnockback ((KickableObject_new 64 0 0 BARREL)
      \<lparr>KickableObject.health := 5, isFlying := True, velocity := \<lparr>Vector2.x = 300, Vector2.y = 400\<rparr>\<rparr>)))"
  using hitEnemy_breaking_hit [of "(KickableObject_new 64 0 0 BARREL)
      \<lparr>KickableObject.health := 5, isFlying := True, velocity := \<lparr>Vector2.x = 300, Vector2.y = 400\<rparr>\<rparr>"
      WithKnockback]
  by (simp add: KickableObject_new_def)

lemma breakEffectPlayed_tracks_isBroken:
  "breakEffectPlayed (KickableObject_new w px py t) = isBroken (KickableObject_new w px py t)"
  "breakEffectPlayed k = isBroken k \<Longrightarrow>
     breakEffectPlayed (applyKick rnd fx fy ckf k) = isBroken (applyKick rnd fx fy ckf k)"
  "breakEffectPlayed k = isBroken k \<Longrightarrow>
     breakEffectPlayed (takeDamage amount k) = isBroken (takeDamage amount k)"
  "breakEffectPlayed k = isBroken k \<Longrightarrow>
     breakEffectPlayed (HitResult.object (hitEnemy target k)) = isBroken (HitResult.object (hitEnemy target k))"
  "breakEffectPlayed k = isBroken k \<Longrightarrow>
     breakEffectPlayed (KickableObject_update now_ms dt k) = isBroken (KickableObject_update now_ms dt k)"
  "breakEffectPlayed (KickableObject_reset k) = isBroken (KickableObject_reset k)"
  by (simp_all add: KickableObject_new_def applyKick_def takeDamage_def breakObject_def
      hitEnemy_def KickableObject_update_def updateTrail_def KickableObject_reset_def Let_def)

section \<open>Properties of Boss\<close>

lemma same_phase_refl: "same_phase b b"
  by (simp add: same_phase_def)

lemma same_phase_trans: "same_phase a b \<Longrightarrow> same_phase b c \<Longrightarrow> same_phase a c"
  by (simp add: same_phase_def)

lemma same_phase_delayedCall: "same_phase b (delayedCall d c b)"
  by (simp add: same_phase_def delayedCall_def)

lemma same_phase_foldl_delayedCall:
  "same_phase b (foldl (\<lambda>acc i. delayedCall (f i) (g i) acc) b xs)"
proof (induction xs arbitrary: b)
  case Nil
  show ?case by (simp add: same_phase_refl)
next
  case (Cons i xs)
  have "same_phase b (delayedCall (f i) (g i) b)" by (rule same_phase_delayedCall)
  moreover have "same_phase (delayedCall (f i) (g i) b)
      (foldl (\<lambda>acc i. delayedCall (f i) (g i) acc) (delayedCall (f i) (g i) b) xs)"
    by (rule Cons.IH)
  ultimately show ?case by (auto intro: same_phase_trans)
qed

lemma same_phase_executeChargeAttack: "same_phase b (executeChargeAttack p b)"
  by (simp add: same_phase_def executeChargeAttack_def delayedCall_def)

lemma same_phase_attackRoutine: "same_phase b (attackRoutine a p b)"
proof (cases a)
  case BOMB_BARRAGE
  then show ?thesis unfolding attackRoutine.simps BOMB_BARRAGE executeBombBarrage_def
    by (simp only: same_phase_foldl_delayedCall)
next
  case TRIPLE_DASH
  then show ?thesis unfolding attackRoutine.simps TRIPLE_DASH executeTripleDash_def
    by (simp only: same_phase_foldl_delayedCall)
qed (simp_all add: same_phase_def executeSummonSwarm_def executeChargeAttack_def
      executeChargeSlam_def executeMegaBomb_def executeIceDash_def executeFreezeWave_def
      executeMegaFreeze_def delayedCall_def)

lemma same_phase_executeAttack: "same_phase b (executeAttack a p b)"
  by (simp add: executeAttack_def same_phase_refl same_phase_attackRoutine split: option.split)

lemma same_phase_fire: "same_phase b (fire c b)"
  by (cases c) (simp_all add: fire_def same_phase_def delayedCall_def executeChargeAttack_def
      Let_def split: option.split)

lemma same_phase_moveSprite: "same_phase b (moveSprite dx dy b)"
  by (simp add: same_phase_def moveSprite_def)

lemma sp_move:
  "bossConfig (moveSprite dx dy b) = bossConfig b"
  "currentPhase (moveSprite dx dy b) = currentPhase b"
  by (simp_all add: moveSprite_def)

lemma same_phase_circle: "same_phase b (updateCircleMovement dt b)"
  by (simp add: updateCircleMovement_def Let_def sp_move same_phase_def)

lemma same_phase_chase: "same_phase b (updateChaseMovement dt p ag b)"
  by (simp add: updateChaseMovement_def Let_def sp_move same_phase_def)

lemma same_phase_berserker: "same_phase b (updateBerserkerMovement env dt p b)"
  by (simp add: updateBerserkerMovement_def Let_def sp_move same_phase_def)

lemma same_phase_swimming: "same_phase b (updateSwimmingMovement env dt p ag b)"
  by (simp add: updateSwimmingMovement_def Let_def sp_move same_phase_def)

lemma same_phase_frenzy: "same_phase b (updateFrenzyMovement env dt p b)"
  by (simp add: updateFrenzyMovement_def Let_def sp_move same_phase_def)

lemma updateBossMovement_ok:
  assumes "currentPhase b < length (phases (bossConfig b))"
  shows "\<exists>b'. updateBossMovement env dt p b = Inr b' \<and> same_phase b b'"
  using assms
  by (simp add: updateBossMovement_def phaseAt_def Let_def same_phase_refl same_phase_circle
      same_phase_chase same_phase_berserker same_phase_swimming same_phase_frenzy)

lemma updateBossAttacks_ok:
  assumes "currentPhase b < length (phases (bossConfig b))"
  shows "\<exists>b'. updateBossAttacks env dt p b = Inr b' \<and> same_phase b b'"
proof -
  have a: "same_phase b ((executeAttack a p b)\<lparr>lastAttackTime := t\<rparr>)" for a t
    using same_phase_executeAttack [of b a p] by (simp add: same_phase_def)
  have c: "same_phase b (b\<lparr>lastAttackTime := t\<rparr>)" for t
    by (simp add: same_phase_def)
  show ?thesis using assms
    by (simp add: updateBossAttacks_def phaseAt_def Let_def same_phase_refl a c)
qed

lemma checkPhaseTransition_ok:
  "\<exists>b'. checkPhaseTransition t b = Inr b' \<and> bossConfig b' = bossConfig b
     \<and> currentPhase b' =
        (if int (currentPhase b) < int (length (phases (bossConfig b))) - 1
            \<and> healthPercent_le b (healthThreshold (phases (bossConfig b) ! (currentPhase b + 1)))
         then currentPhase b + 1 else currentPhase b)"
  by (auto simp add: checkPhaseTransition_def enterNextPhase_def phaseAt_def Let_def)


lemma andThen_Inr: "andThen (Inr v) f = f v"
  by (simp add: andThen_def)

lemma Boss_update_ok:
  assumes "currentPhase b < length (phases (bossConfig b))"
  shows "\<exists>b'. Boss_update E env dt p b = Inr b' \<and> bossConfig b' = bossConfig b
           \<and> currentPhase b \<le> currentPhase b'
           \<and> currentPhase b' < length (phases (bossConfig b))"
proof -
  obtain b1 where b1: "checkPhaseTransition (now env) b = Inr b1" "bossConfig b1 = bossConfig b"
    "currentPhase b1 =
        (if int (currentPhase b) < int (length (phases (bossConfig b))) - 1
            \<and> healthPercent_le b (healthThreshold (phases (bossConfig b) ! (currentPhase b + 1)))
         then currentPhase b + 1 else currentPhase b)"
    using checkPhaseTransition_ok [of "now env" b] by blast
  have r1: "currentPhase b1 < length (phases (bossConfig b1))" "currentPhase b \<le> currentPhase b1"
    using b1 assms by (auto split: if_splits)
  obtain b2 where b2: "updateBossMovement env dt p b1 = Inr b2" "same_phase b1 b2"
    using updateBossMovement_ok [OF r1(1)] by blast
  have r2: "currentPhase b2 < length (phases (bossConfig b2))"
    using b2 r1 by (simp add: same_phase_def)
  obtain b3 where b3: "updateBossAttacks env dt p b2 = Inr b3" "same_phase b2 b3"
    using updateBossAttacks_ok [OF r2] by blast
  have "Boss_update E env dt p b = Inr (b3\<lparr>base := Enemy_update E dt p (base b3)\<rparr>)"
    by (simp add: Boss_update_def b1 b2 b3 andThen_Inr)
  moreover have "bossConfig b3 = bossConfig b" "currentPhase b3 = currentPhase b1"
    using b1 b2 b3 by (simp_all add: same_phase_def)
  ultimately show ?thesis using r1 b1(2) by simp
qed

lemma Boss_takeDamage_frame:
  "bossConfig (snd (Boss_takeDamage E amount b)) = bossConfig b"
  "currentPhase (snd (Boss_takeDamage E amount b)) = currentPhase b"
  by (simp_all add: Boss_takeDamage_def Boss_onBossDefeated_def cleanupBossUI_def Let_def
      split: prod.split)

lemma bossStep_ok:
  assumes "currentPhase b < length (phases (bossConfig b))"
  shows "\<exists>b'. bossStep E s b = Inr b' \<and> bossConfig b' = bossConfig b
           \<and> currentPhase b \<le> currentPhase b'
           \<and> currentPhase b' < length (phases (bossConfig b))"
proof (cases s)
  case (StepUpdate env dt p)
  then show ?thesis using Boss_update_ok [OF assms] by simp
next
  case (StepTakeDamage amount)
  then show ?thesis using assms by (simp add: Boss_takeDamage_frame)
next
  case (StepCheckPhase t)
  then show ?thesis using checkPhaseTransition_ok [of t b] assms by (auto split: if_splits)
next
  case (StepTimer i)
  have "same_phase b (fire c (b\<lparr>delayedCalls := ds\<rparr>))" for c ds
    using same_phase_fire [of "b\<lparr>delayedCalls := ds\<rparr>" c] by (simp add: same_phase_def)
  then show ?thesis using StepTimer assms by (simp add: same_phase_def)
qed

lemma bossRun_ok:
  assumes "currentPhase b < length (phases (bossConfig b))"
  shows "\<exists>b'. bossRun E steps b = Inr b' \<and> bossConfig b' = bossConfig b
           \<and> currentPhase b \<le> currentPhase b'
           \<and> currentPhase b' < length (phases (bossConfig b))"
  using assms
proof (induction steps arbitrary: b)
  case Nil
  then show ?case by simp
next
  case (Cons s steps)
  obtain b1 where b1: "bossStep E s b = Inr b1" "bossConfig b1 = bossConfig b"
    "currentPhase b \<le> currentPhase b1" "currentPhase b1 < length (phases (bossConfig b))"
    using bossStep_ok [OF Cons.prems] by blast
  have "currentPhase b1 < length (phases (bossConfig b1))" using b1 by simp
  from Cons.IH [OF this] obtain b2 where b2: "bossRun E steps b1 = Inr b2"
    "bossConfig b2 = bossConfig b1" "currentPhase b1 \<le> currentPhase b2"
    "currentPhase b2 < length (phases (bossConfig b1))"
    by blast
  show ?case using b1 b2 by (simp add: andThen_Inr)
qed

lemma bossRun_append: "bossRun E (xs @ ys) b = andThen (bossRun E xs b) (bossRun E ys)"
proof (induction xs arbitrary: b)
  case Nil
  show ?case by (simp add: andThen_Inr)
next
  case (Cons s xs)
  show ?case by (cases "bossStep E s b") (simp_all add: andThen_def Cons.IH)
qed

text \<open>
  C2: for a boss with at least one phase whose index is in range (it is 0 after
  construction and after \<^verbatim>\<open>spawn\<close>), every sequence of updates, hits, phase checks
  and timer callbacks runs without a \<^verbatim>\<open>TypeError\<close>; along it the phase index never
  decreases (it is compared before, in the middle and at the end of the run) and
  never exceeds \<open>phases.length - 1\<close>; and one phase check moves the index by exactly
  one when the health ratio is at or below the next phase's threshold and a next
  phase exists, whatever the later thresholds are, and leaves it alone otherwise.
\<close>

theorem phase_index_monotone:
  assumes "1 \<le> length (phases (bossConfig b))"
    and "currentPhase b \<le> length (phases (bossConfig b)) - 1"
  shows "(\<exists>b1 b2. bossRun E pre b = Inr b1 \<and> bossRun E post b1 = Inr b2
            \<and> bossRun E (pre @ post) b = Inr b2
            \<and> bossConfig b2 = bossConfig b
            \<and> currentPhase b \<le> currentPhase b1 \<and> currentPhase b1 \<le> currentPhase b2
            \<and> currentPhase b2 \<le> length (phases (bossConfig b)) - 1)
       \<and> (\<exists>b'. checkPhaseTransition t b = Inr b'
            \<and> currentPhase b' =
                 (if currentPhase b < length (phases (bossConfig b)) - 1
                     \<and> healthPercent_le b (healthThreshold (phases (bossConfig b) ! (currentPhase b + 1)))
                  then currentPhase b + 1 else currentPhase b))"
proof
  have inv: "currentPhase b < length (phases (bossConfig b))" using assms by simp
  obtain b1 where b1: "bossRun E pre b = Inr b1" "bossConfig b1 = bossConfig b"
    "currentPhase b \<le> currentPhase b1" "currentPhase b1 < length (phases (bossConfig b))"
    using bossRun_ok [OF inv] by blast
  have "currentPhase b1 < length (phases (bossConfig b1))" using b1 by simp
  from bossRun_ok [OF this] obtain b2 where b2: "bossRun E post b1 = Inr b2"
    "bossConfig b2 = bossConfig b1" "currentPhase b1 \<le> currentPhase b2"
    "currentPhase b2 < length (phases (bossConfig b1))"
    by blast
  have "bossRun E (pre @ post) b = Inr b2" by (simp add: bossRun_append b1 b2 andThen_Inr)
  then show "\<exists>b1 b2. bossRun E pre b = Inr b1 \<and> bossRun E post b1 = Inr b2
            \<and> bossRun E (pre @ post) b = Inr b2
            \<and> bossConfig b2 = bossConfig b
            \<and> currentPhase b \<le> currentPhase b1 \<and> currentPhase b1 \<le> currentPhase b2
            \<and> currentPhase b2 \<le> length (phases (bossConfig b)) - 1"
    using b1 b2 by auto
next
  have "(int (currentPhase b) < int (length (phases (bossConfig b))) - 1)
      = (currentPhase b < length (phases (bossConfig b)) - 1)"
    using assms by auto
  then show "\<exists>b'. checkPhaseTransition t b = Inr b'
            \<and> currentPhase b' =
                 (if currentPhase b < length (phases (bossConfig b)) - 1
                     \<and> healthPercent_le b (healthThreshold (phases (bossConfig b) ! (currentPhase b + 1)))
                  then currentPhase b + 1 else currentPhase b)"
    using checkPhaseTransition_ok [of t b] by auto
qed

lemma woundedBomber_parts:
  "bossConfig woundedBomber = desertBomber"
  "currentPhase woundedBomber = 0"
  "length (phases desertBomber) = 3"
  "Enemy.health (base woundedBomber) = 50"
  "Enemy.maxHealth (base woundedBomber) = 500"
  by (simp_all add: woundedBomber_def Boss_spawn_def Boss_new_def desertBomber_def Let_def mocks_def)

theorem phase_index_monotone_witness:
  "(\<exists>b1 b2. bossRun mocks [StepCheckPhase 0] woundedBomber = Inr b1
       \<and> bossRun mocks [StepUpdate env0 16 (Vector2_new 0 0), StepTimer 0] b1 = Inr b2
       \<and> bossRun mocks ([StepCheckPhase 0] @ [StepUpdate env0 16 (Vector2_new 0 0), StepTimer 0])
            woundedBomber = Inr b2
       \<and> bossConfig b2 = bossConfig woundedBomber
       \<and> currentPhase woundedBomber \<le> currentPhase b1 \<and> currentPhase b1 \<le> currentPhase b2
       \<and> currentPhase b2 \<le> 2)
   \<and> (\<exists>b'. checkPhaseTransition 0 woundedBomber = Inr b' \<and> currentPhase b' = 1)"
proof -
  have h1: "1 \<le> length (phases (bossConfig woundedBomber))"
    by (simp add: woundedBomber_parts)
  have h2: "currentPhase woundedBomber \<le> length (phases (bossConfig woundedBomber)) - 1"
    by (simp add: woundedBomber_parts)
  have n: "length (phases (bossConfig woundedBomber)) - 1 = 2"
    by (simp add: woundedBomber_parts)
  have c: "(if currentPhase woundedBomber < 2
              \<and> healthPercent_le woundedBomber
                  (healthThreshold (phases (bossConfig woundedBomber) ! (currentPhase woundedBomber + 1)))
            then currentPhase woundedBomber + 1 else currentPhase woundedBomber) = 1"
    by (simp add: woundedBomber_parts healthPercent_le_def desertBomber_def bossPhase_def)
  show ?thesis
    using phase_index_monotone [OF h1 h2, of mocks "[StepCheckPhase 0]"
      "[StepUpdate env0 16 (Vector2_new 0 0), StepTimer 0]" 0]
    unfolding n c .
qed

text \<open>
  What \<^verbatim>\<open>updateBossAttacks\<close> does, for any phase: nothing before the cooldown has
  passed, nothing for an empty ability list, and otherwise it runs \<^verbatim>\<open>executeAttack\<close>
  on the id at \<open>pickIndex\<close> and records the time. \<open>pickIndex\<close> sends equal shares
  of the unit interval to the indices. An id that is the value of a member of
  \<^verbatim>\<open>BossAttack\<close> other than \<^verbatim>\<open>BASIC_ATTACK\<close> reaches the routine of that member.
\<close>

lemma updateBossAttacks_cooldown:
  "now env - lastAttackTime b < attackCooldown b \<Longrightarrow> updateBossAttacks env dt playerPos b = Inr b"
  by (simp add: updateBossAttacks_def)

lemma updateBossAttacks_empty:
  "phaseAt b (currentPhase b) = Some phase \<Longrightarrow> abilities phase = []
     \<Longrightarrow> updateBossAttacks env dt playerPos b = Inr b"
  by (simp add: updateBossAttacks_def Let_def)

lemma pickIndex_in_range:
  assumes "0 \<le> rnd" "rnd < 1" "0 < n"
  shows "pickIndex rnd n < n"
proof -
  have "rnd * real n < real n" using assms by simp
  then have "\<lfloor>rnd * real n\<rfloor> < int n" by (simp add: floor_less_iff)
  moreover have "0 \<le> \<lfloor>rnd * real n\<rfloor>" using assms by simp
  ultimately show ?thesis by (simp add: pickIndex_def nat_less_iff)
qed

lemma pickIndex_uniform:
  assumes "0 \<le> rnd" "0 < n"
  shows "pickIndex rnd n = i \<longleftrightarrow> real i / real n \<le> rnd \<and> rnd < (real i + 1) / real n"
proof -
  have nn: "0 \<le> \<lfloor>rnd * real n\<rfloor>" using assms by simp
  have "pickIndex rnd n = i \<longleftrightarrow> \<lfloor>rnd * real n\<rfloor> = int i"
    using nn by (auto simp add: pickIndex_def)
  also have "\<dots> \<longleftrightarrow> real i \<le> rnd * real n \<and> rnd * real n < real i + 1"
    by (simp add: floor_eq_iff)
  also have "\<dots> \<longleftrightarrow> real i / real n \<le> rnd \<and> rnd < (real i + 1) / real n"
    using assms by (simp add: pos_divide_le_eq pos_less_divide_eq)
  finally show ?thesis .
qed

lemma updateBossAttacks_fires:
  assumes "attackCooldown b \<le> now env - lastAttackTime b"
    and "phaseAt b (currentPhase b) = Some phase" "abilities phase \<noteq> []"
    and "0 \<le> randomAttack env" "randomAttack env < 1"
  shows "updateBossAttacks env dt playerPos b =
     Inr ((executeAttack (abilities phase ! pickIndex (randomAttack env) (length (abilities phase))) playerPos b)
            \<lparr>lastAttackTime := now env\<rparr>)"
proof -
  have "pickIndex (randomAttack env) (length (abilities phase)) < length (abilities phase)"
    using assms by (simp add: pickIndex_in_range)
  then show ?thesis using assms by (simp add: updateBossAttacks_def Let_def)
qed

lemma matchedCase_enum_value:
  "matchedCase (BossAttack_value a) = (if a = BASIC_ATTACK then None else Some a)"
  by (cases a) (simp_all add: matchedCase_def)

lemma shipped: "shippedAbilities = [''summon-swarm'', ''summon-swarm'', ''charge-attack'',
    ''bomb-barrage'', ''bomb-barrage'', ''charge-slam'', ''mega-bomb'', ''charge-slam'',
    ''ice-dash'', ''ice-dash'', ''freeze-wave'', ''mega-freeze'', ''triple-dash'']"
  by (simp add: shippedAbilities_def createGameZones_def tutorialGrove_def desertOutpost_def
      arcticLab_def swarmKing_def desertBomber_def iceShark_def bossPhase_def)

lemma tutorial_boss_attack:
  "updateBossAttacks \<lparr>now = 5000, randomX = 0, randomY = 0, randomAngle = 0, randomAttack = 0\<rparr>
        16 (Vector2_new 900 600) (Boss_spawn mocks 900 600 ELITE (Boss_new mocks swarmKing))
     = Inr ((Boss_spawn mocks 900 600 ELITE (Boss_new mocks swarmKing))\<lparr>lastAttackTime := 5000\<rparr>)"
  by (simp add: matchedCase_def updateBossAttacks_def Boss_spawn_def Boss_new_def
      phaseAt_def swarmKing_def bossPhase_def pickIndex_def executeAttack_def Let_def mocks_def)

text \<open>
  C5: the claim that every ability id of the shipped catalog is dispatched to an
  attack routine does not hold of the code. The catalog writes the ids with hyphens
  (\<^verbatim>\<open>'summon-swarm'\<close>), the enum \<^verbatim>\<open>BossAttack\<close> that labels the cases of the
  \<^verbatim>\<open>switch\<close> has them with underscores (\<^verbatim>\<open>'summon_swarm'\<close>): none of the thirteen
  shipped ids matches a case, and an eligible tick of the tutorial boss only moves
  \<^verbatim>\<open>lastAttackTime\<close> (no charge, no delayed call).
\<close>

theorem shipped_abilities_match_no_case:
  "shippedAbilities \<noteq> []
   \<and> map matchedCase shippedAbilities = map (\<lambda>a. None) shippedAbilities
   \<and> updateBossAttacks \<lparr>now = 5000, randomX = 0, randomY = 0, randomAngle = 0, randomAttack = 0\<rparr>
        16 (Vector2_new 900 600) (Boss_spawn mocks 900 600 ELITE (Boss_new mocks swarmKing))
     = Inr ((Boss_spawn mocks 900 600 ELITE (Boss_new mocks swarmKing))\<lparr>lastAttackTime := 5000\<rparr>)"
  by (simp add: shipped matchedCase_def tutorial_boss_attack)

section \<open>Properties of EncounterSystem\<close>

text \<open>
  One step of the aggro state machine, \<^verbatim>\<open>updateEnemyAggro\<close>: it takes a Stationary
  or Patrolling placement whose enemy is within \<^verbatim>\<open>aggroRadius\<close> of the player and
  not aggroed to Aggroed; it leaves an Aggroed placement Aggroed for every distance
  up to 1.5 times \<^verbatim>\<open>aggroRadius\<close>, the band above \<^verbatim>\<open>aggroRadius\<close> included; and
  beyond that it reverts the placement to Patrolling when it has a patrol path and
  to Stationary when it has none.
\<close>

lemma updateEnemyAggro_transitions:
  "(state cfg \<in> {STATIONARY, PATROLLING} \<and> distanceToPlayer e playerPos \<le> StationaryEnemy.aggroRadius cfg
      \<and> hasAggro e \<noteq> Some True
     \<longrightarrow> (\<exists>e1 logs. updateEnemyAggro playerPos cfg e = Inr (cfg\<lparr>state := AGGROED\<rparr>, e1, logs)
            \<and> hasAggro e1 = Some True))
   \<and> (state cfg = AGGROED \<and> distanceToPlayer e playerPos \<le> 1.5 * StationaryEnemy.aggroRadius cfg
     \<longrightarrow> (\<exists>e1. updateEnemyAggro playerPos cfg e = Inr (cfg, e1, [])))
   \<and> (state cfg = AGGROED \<and> distanceToPlayer e playerPos > 1.5 * StationaryEnemy.aggroRadius cfg
     \<longrightarrow> (\<exists>e1 logs. updateEnemyAggro playerPos cfg e =
            Inr (cfg\<lparr>state := (if StationaryEnemy.patrolPath cfg \<noteq> None then PATROLLING else STATIONARY)\<rparr>,
                 e1, logs)
            \<and> hasAggro e1 = Some False))"
proof (intro conjI impI)
  assume h: "state cfg \<in> {STATIONARY, PATROLLING} \<and> distanceToPlayer e playerPos \<le> StationaryEnemy.aggroRadius cfg
      \<and> hasAggro e \<noteq> Some True"
  then show "\<exists>e1 logs. updateEnemyAggro playerPos cfg e = Inr (cfg\<lparr>state := AGGROED\<rparr>, e1, logs)
            \<and> hasAggro e1 = Some True"
    by (auto simp add: updateEnemyAggro_def triggerAggro_def Let_def)
next
  assume h: "state cfg = AGGROED \<and> distanceToPlayer e playerPos \<le> 1.5 * StationaryEnemy.aggroRadius cfg"
  then show "\<exists>e1. updateEnemyAggro playerPos cfg e = Inr (cfg, e1, [])"
    by (simp add: updateEnemyAggro_def Let_def mult.commute)
next
  assume h: "state cfg = AGGROED \<and> distanceToPlayer e playerPos > 1.5 * StationaryEnemy.aggroRadius cfg"
  then show "\<exists>e1 logs. updateEnemyAggro playerPos cfg e =
            Inr (cfg\<lparr>state := (if StationaryEnemy.patrolPath cfg \<noteq> None then PATROLLING else STATIONARY)\<rparr>,
                 e1, logs)
            \<and> hasAggro e1 = Some False"
    by (simp add: updateEnemyAggro_def loseAggro_def Let_def mult.commute)
qed

lemma findIndex_Some: "findIndex P zs = Some i \<Longrightarrow> i < length zs \<and> P (zs ! i)"
proof (induction zs arbitrary: i)
  case Nil
  then show ?case by simp
next
  case (Cons z zs)
  show ?case
  proof (cases "P z")
    case True
    then show ?thesis using Cons.prems by simp
  next
    case False
    then obtain j where j: "findIndex P zs = Some j" "i = Suc j"
      using Cons.prems by auto
    then show ?thesis using Cons.IH [OF j(1)] by simp
  qed
qed

lemma findIndex_None: "findIndex P zs = None \<longleftrightarrow> (\<forall>z \<in> set zs. \<not> P z)"
  by (induction zs) auto

text \<open>
  C8: when no zone of the catalog that has the given id is unlocked (no zone has the
  id, or the zones that have it are locked), \<^verbatim>\<open>loadZone\<close> returns normally, writes
  one warning to the console and changes nothing else: the current zone, the active
  enemies and props, the boss state, every zone with its unlock flag, the stores.
\<close>

theorem loadZone_unknown_or_locked:
  assumes "(\<forall>z \<in> set (zones s). zoneId z \<noteq> zoneIdArg)
         \<or> (\<exists>zi. findIndex (\<lambda>z. zoneId z = zoneIdArg) (zones s) = Some zi \<and> \<not> isUnlocked (zones s ! zi))"
  shows "loadZone E zoneIdArg s = s\<lparr>console := console s @ [zoneWarning zoneIdArg]\<rparr>
       \<and> currentZone (loadZone E zoneIdArg s) = currentZone s
       \<and> activeEnemies (loadZone E zoneIdArg s) = activeEnemies s
       \<and> activeObjects (loadZone E zoneIdArg s) = activeObjects s
       \<and> currentBoss (loadZone E zoneIdArg s) = currentBoss s
       \<and> isBossFight (loadZone E zoneIdArg s) = isBossFight s
       \<and> zones (loadZone E zoneIdArg s) = zones s
       \<and> enemyStore (loadZone E zoneIdArg s) = enemyStore s
       \<and> objectStore (loadZone E zoneIdArg s) = objectStore s
       \<and> world (loadZone E zoneIdArg s) = world s"
proof -
  have eq: "loadZone E zoneIdArg s = s\<lparr>console := console s @ [zoneWarning zoneIdArg]\<rparr>"
    using assms
  proof
    assume "\<forall>z \<in> set (zones s). zoneId z \<noteq> zoneIdArg"
    then have "findIndex (\<lambda>z. zoneId z = zoneIdArg) (zones s) = None"
      by (simp add: findIndex_None)
    then show ?thesis by (simp add: loadZone_def)
  next
    assume "\<exists>zi. findIndex (\<lambda>z. zoneId z = zoneIdArg) (zones s) = Some zi \<and> \<not> isUnlocked (zones s ! zi)"
    then show ?thesis by (auto simp add: loadZone_def)
  qed
  show ?thesis unfolding eq by simp
qed

lemma clearCurrentZone_frame:
  "currentZone (clearCurrentZone E s) = None"
  "activeEnemies (clearCurrentZone E s) = []"
  "activeObjects (clearCurrentZone E s) = []"
  "zones (clearCurrentZone E s) = zones s"
  "currentBoss (clearCurrentZone E s) = currentBoss s"
  by (simp_all add: clearCurrentZone_def Let_def split: prod.split)

text \<open>
  C9: after \<^verbatim>\<open>reset()\<close>, from any state, there is no current zone, no boss and no
  boss fight, the maps of active enemies and props are empty and so are the lists the
  accessors return; the zone catalog, with every unlock flag, is what it was.
\<close>

theorem reset_clears:
  "currentZone (EncounterSystem_reset E s) = None
   \<and> isBossActive (EncounterSystem_reset E s) = False
   \<and> getBoss (EncounterSystem_reset E s) = None
   \<and> activeEnemies (EncounterSystem_reset E s) = []
   \<and> activeObjects (EncounterSystem_reset E s) = []
   \<and> getActiveEnemies (EncounterSystem_reset E s) = []
   \<and> getActiveObjects (EncounterSystem_reset E s) = []
   \<and> getCurrentZone (EncounterSystem_reset E s) = None
   \<and> zones (EncounterSystem_reset E s) = zones s
   \<and> map isUnlocked (zones (EncounterSystem_reset E s)) = map isUnlocked (zones s)"
  by (simp add: EncounterSystem_reset_def Let_def clearCurrentZone_frame isBossActive_def getBoss_def
      getActiveEnemies_def getActiveObjects_def getCurrentZone_def split: option.split)

lemma andThen_eq_Inr: "andThen r f = Inr v \<Longrightarrow> \<exists>u. r = Inr u \<and> f u = Inr v"
  by (cases r) (simp_all add: andThen_def)

lemma modifyZone_frame:
  "objectStore (modifyZone zi f s) = objectStore s"
  "activeObjects (modifyZone zi f s) = activeObjects s"
  "currentBoss (modifyZone zi f s) = currentBoss s"
  "currentZone (modifyZone zi f s) = currentZone s"
  "console (modifyZone zi f s) = console s"
  by (simp_all add: modifyZone_def)

lemma unlockNextZone_frame:
  "objectStore (unlockNextZone s) = objectStore s"
  "activeObjects (unlockNextZone s) = activeObjects s"
  "currentBoss (unlockNextZone s) = currentBoss s"
  by (simp_all add: unlockNextZone_def modifyZone_frame Let_def split: option.split)

lemma onBossDefeated_frame:
  "objectStore (onBossDefeated E s) = objectStore s"
  "activeObjects (onBossDefeated E s) = activeObjects s"
  by (simp_all add: onBossDefeated_def unlockNextZone_frame Let_def split: option.split prod.split)

lemma onBossDefeated_boss:
  "currentBoss (onBossDefeated E s) = None \<or> currentBoss (onBossDefeated E s) = currentBoss s"
  by (simp add: onBossDefeated_def Let_def split: option.split prod.split)

lemma updateBoss_frame:
  assumes "updateBoss E env playerPos s = Inr s1"
  shows "objectStore s1 = objectStore s" "activeObjects s1 = activeObjects s"
  using assms
  by (auto simp add: updateBoss_def Let_def onBossDefeated_frame split: option.splits if_splits
      dest!: andThen_eq_Inr)

lemma updateBoss_boss:
  assumes "updateBoss E env playerPos s = Inr s1" "currentBoss s = Some b" "active (Enemy.sprite (base b))"
  shows "\<exists>b1. Boss_update E env 16 playerPos b = Inr b1
           \<and> (currentBoss s1 = Some b1 \<or> (Enemy.health (base b1) \<le> 0 \<and> isDying (base b1) \<and> currentBoss s1 = None))"
proof -
  from assms obtain b1 where b1: "Boss_update E env 16 playerPos b = Inr b1"
    "s1 = (if Enemy.health (base b1) \<le> 0 \<and> isDying (base b1)
           then onBossDefeated E (s\<lparr>currentBoss := Some b1\<rparr>) else s\<lparr>currentBoss := Some b1\<rparr>)"
    by (auto simp add: updateBoss_def Let_def dest!: andThen_eq_Inr)
  show ?thesis
    using b1 onBossDefeated_boss [of E "s\<lparr>currentBoss := Some b1\<rparr>"] by auto
qed

lemma updatePlacement_frame:
  assumes "updatePlacement playerPos zi index s = Inr s1"
  shows "objectStore s1 = objectStore s" "activeObjects s1 = activeObjects s"
    "currentBoss s1 = currentBoss s" "isBossFight s1 = isBossFight s"
  using assms
  by (auto simp add: updatePlacement_def Let_def modifyPlacement_def modifyZone_def
      split: option.splits if_splits prod.splits dest!: andThen_eq_Inr)

lemma forEachE_updatePlacement_frame:
  assumes "forEachE (updatePlacement playerPos zi) is s = Inr s1"
  shows "objectStore s1 = objectStore s \<and> activeObjects s1 = activeObjects s
       \<and> currentBoss s1 = currentBoss s \<and> isBossFight s1 = isBossFight s"
  using assms
proof (induction "is" arbitrary: s)
  case Nil
  then show ?case by simp
next
  case (Cons i "is")
  from Cons.prems obtain u where u: "updatePlacement playerPos zi i s = Inr u"
    "forEachE (updatePlacement playerPos zi) is u = Inr s1"
    by (auto dest!: andThen_eq_Inr)
  show ?case using Cons.IH [OF u(2)] updatePlacement_frame [OF u(1)] by simp
qed

lemma startBossFight_frame:
  "objectStore (startBossFight E s) = objectStore s"
  "activeObjects (startBossFight E s) = activeObjects s"
  by (simp_all add: startBossFight_def Let_def split: option.split prod.split)

lemma updateEnemies_frame:
  assumes "updateEnemies E playerPos zi s = Inr s1"
  shows "objectStore s1 = objectStore s" "activeObjects s1 = activeObjects s"
    "currentBoss s \<noteq> None \<Longrightarrow> currentBoss s1 = currentBoss s"
  using assms
  by (auto simp add: updateEnemies_def startBossFight_frame split: if_splits option.splits
      dest!: andThen_eq_Inr forEachE_updatePlacement_frame)

lemma cleanupDeadEnemies_frame:
  "objectStore (cleanupDeadEnemies E s) = objectStore s"
  "activeObjects (cleanupDeadEnemies E s) = activeObjects s"
  "currentBoss (cleanupDeadEnemies E s) = currentBoss s"
  by (simp_all add: cleanupDeadEnemies_def Let_def split: prod.split)

lemma updateObjects_frame:
  "activeObjects (updateObjects env s) = activeObjects s"
  "currentBoss (updateObjects env s) = currentBoss s"
  by (simp_all add: updateObjects_def)

lemma foldl_store_notin:
  "a \<notin> set as \<Longrightarrow> foldl (\<lambda>st a. st(a := f (st a))) st as a = st a"
proof (induction as arbitrary: st)
  case Nil
  show ?case by simp
next
  case (Cons b as)
  have "a \<notin> set as" "a \<noteq> b" using Cons.prems by auto
  have "foldl (\<lambda>st a. st(a := f (st a))) (st(b := f (st b))) as a = (st(b := f (st b))) a"
    by (rule Cons.IH) fact
  also have "\<dots> = st a" using \<open>a \<noteq> b\<close> by simp
  finally show ?case unfolding foldl_Cons .
qed

lemma foldl_store_distinct:
  "distinct as \<Longrightarrow> a \<in> set as \<Longrightarrow> foldl (\<lambda>st a. st(a := f (st a))) st as a = f (st a)"
proof (induction as arbitrary: st)
  case Nil
  then show ?case by simp
next
  case (Cons b as)
  show ?case
  proof (cases "a = b")
    case True
    then have "a \<notin> set as" using Cons.prems by simp
    then have "foldl (\<lambda>st a. st(a := f (st a))) (st(b := f (st b))) as a = (st(b := f (st b))) a"
      by (rule foldl_store_notin)
    also have "\<dots> = f (st a)" using True by simp
    finally show ?thesis unfolding foldl_Cons .
  next
    case False
    then have "distinct as" "a \<in> set as" using Cons.prems by auto
    then have "foldl (\<lambda>st a. st(a := f (st a))) (st(b := f (st b))) as a = f ((st(b := f (st b))) a)"
      by (rule Cons.IH)
    also have "\<dots> = f (st a)" using False by simp
    finally show ?thesis unfolding foldl_Cons .
  qed
qed

lemma updateObjects_store:
  assumes "distinct (map snd (activeObjects s))" "a \<in> snd ` set (activeObjects s)"
  shows "objectStore (updateObjects env s) a = KickableObject_update (now env) 16 (objectStore s a)"
  using assms by (simp add: updateObjects_def foldl_store_distinct)

lemma destroy_idem:
  "KickableObject_destroy (KickableObject_destroy k) = KickableObject_destroy k"
  "isBroken (KickableObject_destroy k) = isBroken k"
  by (simp_all add: KickableObject_destroy_def)

lemma cleanup_fold:
  "fst (foldl (\<lambda>(st, broken) (key, a).
                     if isBroken (st a)
                     then (st(a := KickableObject_destroy (st a)), broken @ [key])
                     else (st, broken)) (st0, br0) xs) a
   = (if a \<in> snd ` set xs \<and> isBroken (st0 a)
      then KickableObject_destroy (st0 a)
      else st0 a)"
proof (induction xs arbitrary: st0 br0)
  case Nil
  then show ?case by simp
next
  case (Cons p xs)
  obtain key b where p: "p = (key, b)" by (cases p)
  show ?case unfolding p
    by (simp add: Cons.IH destroy_idem)
qed

lemma cleanupBrokenObjects_store:
  "objectStore (cleanupBrokenObjects s) a =
     (if a \<in> snd ` set (activeObjects s) \<and> isBroken (objectStore s a)
      then KickableObject_destroy (objectStore s a) else objectStore s a)"
proof -
  have "objectStore (cleanupBrokenObjects s) a =
      fst (foldl (\<lambda>(st, broken) (key, a).
                     if isBroken (st a)
                     then (st(a := KickableObject_destroy (st a)), broken @ [key])
                     else (st, broken)) (objectStore s, []) (activeObjects s)) a"
    by (simp add: cleanupBrokenObjects_def Let_def split: prod.split)
  then show ?thesis by (simp add: cleanup_fold)
qed

lemma cleanupBrokenObjects_boss: "currentBoss (cleanupBrokenObjects s) = currentBoss s"
  by (simp add: cleanupBrokenObjects_def Let_def split: prod.split)


lemma update_stages:
  assumes "EncounterSystem_update E env dt playerPos s = Inr s1" "currentZone s = Some zi"
  shows "\<exists>u1 u2. updateBoss E env playerPos s = Inr u1
            \<and> updateEnemies E playerPos zi (updateObjects env u1) = Inr u2
            \<and> s1 = cleanupBrokenObjects (cleanupDeadEnemies E u2)"
  using assms by (auto simp add: EncounterSystem_update_def dest!: andThen_eq_Inr)

lemma update_never_reads_first_argument:
  "EncounterSystem_update E env deltaTime1 playerPos s
     = EncounterSystem_update E env deltaTime2 playerPos s"
  by (simp add: EncounterSystem_update_def)

text \<open>
  C6: \<^verbatim>\<open>update\<close> never reads its first argument: two calls that differ only in it
  give the same result. In a loaded zone the active boss is stepped by
  \<^verbatim>\<open>Boss.update(16, playerPos)\<close> (and stays the current boss unless that step leaves
  it defeated), and every active prop is stepped by \<^verbatim>\<open>update(16)\<close>, then destroyed
  if it is broken.
\<close>

theorem update_fixed_tick:
  "EncounterSystem_update E env deltaTime1 playerPos s = EncounterSystem_update E env deltaTime2 playerPos s
   \<and> (currentZone s \<noteq> None \<and> currentBoss s = Some b \<and> active (Enemy.sprite (base b))
        \<and> EncounterSystem_update E env deltaTime1 playerPos s = Inr s1
      \<longrightarrow> (\<exists>b1. Boss_update E env 16 playerPos b = Inr b1
             \<and> (currentBoss s1 = Some b1 \<or> (Enemy.health (base b1) \<le> 0 \<and> isDying (base b1)))))
   \<and> (currentZone s \<noteq> None \<and> distinct (map snd (activeObjects s)) \<and> a \<in> snd ` set (activeObjects s)
        \<and> EncounterSystem_update E env deltaTime1 playerPos s = Inr s1
      \<longrightarrow> objectStore s1 a =
            (let k = KickableObject_update (now env) 16 (objectStore s a)
             in if isBroken k then KickableObject_destroy k else k))"
proof (intro conjI impI)
  show "EncounterSystem_update E env deltaTime1 playerPos s = EncounterSystem_update E env deltaTime2 playerPos s"
    by (rule update_never_reads_first_argument)
next
  assume h: "currentZone s \<noteq> None \<and> currentBoss s = Some b \<and> active (Enemy.sprite (base b))
        \<and> EncounterSystem_update E env deltaTime1 playerPos s = Inr s1"
  then obtain zi where zi: "currentZone s = Some zi" by auto
  from update_stages [OF _ zi] h obtain u1 u2 where u:
    "updateBoss E env playerPos s = Inr u1"
    "updateEnemies E playerPos zi (updateObjects env u1) = Inr u2"
    "s1 = cleanupBrokenObjects (cleanupDeadEnemies E u2)"
    by blast
  from updateBoss_boss [OF u(1)] h obtain b1 where b1: "Boss_update E env 16 playerPos b = Inr b1"
    "currentBoss u1 = Some b1 \<or> (Enemy.health (base b1) \<le> 0 \<and> isDying (base b1) \<and> currentBoss u1 = None)"
    by blast
  have "currentBoss u1 = Some b1 \<Longrightarrow> currentBoss s1 = Some b1"
    using updateEnemies_frame(3) [OF u(2)] u(3)
    by (simp add: updateObjects_frame cleanupDeadEnemies_frame cleanupBrokenObjects_boss)
  then show "\<exists>b1. Boss_update E env 16 playerPos b = Inr b1
             \<and> (currentBoss s1 = Some b1 \<or> (Enemy.health (base b1) \<le> 0 \<and> isDying (base b1)))"
    using b1 by blast
next
  assume h: "currentZone s \<noteq> None \<and> distinct (map snd (activeObjects s)) \<and> a \<in> snd ` set (activeObjects s)
        \<and> EncounterSystem_update E env deltaTime1 playerPos s = Inr s1"
  then obtain zi where zi: "currentZone s = Some zi" by auto
  from update_stages [OF _ zi] h obtain u1 u2 where u:
    "updateBoss E env playerPos s = Inr u1"
    "updateEnemies E playerPos zi (updateObjects env u1) = Inr u2"
    "s1 = cleanupBrokenObjects (cleanupDeadEnemies E u2)"
    by blast
  have f1: "objectStore u1 = objectStore s" "activeObjects u1 = activeObjects s"
    using updateBoss_frame [OF u(1)] by simp_all
  have f2: "objectStore (updateObjects env u1) a = KickableObject_update (now env) 16 (objectStore s a)"
    using updateObjects_store [of u1 a env] h f1 by simp
  have f3: "objectStore u2 = objectStore (updateObjects env u1)" "activeObjects u2 = activeObjects s"
    using updateEnemies_frame(1,2) [OF u(2)] f1 by (simp_all add: updateObjects_frame)
  have "objectStore s1 a =
      (if a \<in> snd ` set (activeObjects s) \<and> isBroken (objectStore u2 a)
       then KickableObject_destroy (objectStore u2 a) else objectStore u2 a)"
    unfolding u(3) by (simp add: cleanupBrokenObjects_store cleanupDeadEnemies_frame f3)
  then show "objectStore s1 a =
            (let k = KickableObject_update (now env) 16 (objectStore s a)
             in if isBroken k then KickableObject_destroy k else k)"
    using h f2 f3 by (simp add: Let_def)
qed

text \<open>
  The hypothesis of C6 on the map of active props holds in every state that the
  constructor, \<^verbatim>\<open>loadZone\<close>, \<^verbatim>\<open>unlockZone\<close>, \<^verbatim>\<open>update\<close> and \<^verbatim>\<open>reset\<close> produce.
\<close>

lemma AList_update_values: "snd ` set (AList.update k v xs) \<subseteq> insert v (snd ` set xs)"
  by (induction xs) auto

lemma AList_update_distinct:
  "distinct (map snd xs) \<Longrightarrow> v \<notin> snd ` set xs \<Longrightarrow> distinct (map snd (AList.update k v xs))"
proof (induction xs)
  case Nil
  then show ?case by simp
next
  case (Cons p xs)
  show ?case
  proof (cases "fst p = k")
    case True
    then show ?thesis using Cons.prems by auto
  next
    case False
    have "snd p \<notin> snd ` set (AList.update k v xs)"
      using AList_update_values [of k v xs] Cons.prems by auto
    then show ?thesis using False Cons by auto
  qed
qed

lemma props_wf_spawnZoneObject:
  assumes "props_wf s"
  shows "props_wf (spawnZoneObject E zoneIdArg zi index s)"
proof -
  let ?k = "zoneIdArg @ ''-object-'' @ showNat index"
  have a: "activeObjects (spawnZoneObject E zoneIdArg zi index s) = AList.update ?k (nextObject s) (activeObjects s)"
    "nextObject (spawnZoneObject E zoneIdArg zi index s) = Suc (nextObject s)"
    by (simp_all add: spawnZoneObject_def modifyZone_def Let_def)
  have old: "\<forall>a \<in> snd ` set (activeObjects s). a < nextObject s" "distinct (map snd (activeObjects s))"
    using assms by (auto simp add: props_wf_def list_all_iff)
  then have fresh: "nextObject s \<notin> snd ` set (activeObjects s)" by auto
  have "distinct (map snd (AList.update ?k (nextObject s) (activeObjects s)))"
    using AList_update_distinct [OF old(2) fresh] .
  moreover have "\<forall>a \<in> snd ` set (AList.update ?k (nextObject s) (activeObjects s)). a < Suc (nextObject s)"
    using AList_update_values [of ?k "nextObject s" "activeObjects s"] old(1) by fastforce
  ultimately show ?thesis unfolding props_wf_def a by (simp add: list_all_iff)
qed

lemma props_wf_spawnZoneEnemy:
  "props_wf s \<Longrightarrow> props_wf (spawnZoneEnemy E zoneIdArg zi index s)"
  by (simp add: props_wf_def spawnZoneEnemy_def modifyPlacement_def modifyZone_def Let_def
      split: prod.split)

lemma props_wf_foldl:
  assumes "\<And>i s. props_wf s \<Longrightarrow> props_wf (f i s)"
  shows "props_wf s \<Longrightarrow> props_wf (foldl (\<lambda>acc i. f i acc) s is)"
  by (induction "is" arbitrary: s) (simp_all add: assms)

lemma props_wf_loadZone:
  assumes "props_wf s"
  shows "props_wf (loadZone E zoneIdArg s)"
proof -
  have c: "props_wf ((clearCurrentZone E s)\<lparr>currentZone := z\<rparr>)" for z
    by (simp add: props_wf_def clearCurrentZone_def Let_def split: prod.split)
  have w: "props_wf (s\<lparr>console := l\<rparr>)" for l
    using assms by (simp add: props_wf_def)
  have t: "props_wf u \<Longrightarrow> props_wf (applyZoneTheme z u)" for u :: "('e, 'w) EncounterSystem" and z
    by (simp add: props_wf_def applyZoneTheme_def)
  show ?thesis
    unfolding loadZone_def Let_def
    by (auto split: option.split
        intro!: w t props_wf_foldl [where f = "spawnZoneObject E zoneIdArg _"]
          props_wf_foldl [where f = "spawnZoneEnemy E zoneIdArg _"]
          props_wf_spawnZoneObject props_wf_spawnZoneEnemy c)
qed

lemma nextObject_updateBoss:
  "updateBoss E env playerPos s = Inr u \<Longrightarrow> nextObject u = nextObject s"
  by (auto simp add: updateBoss_def onBossDefeated_def unlockNextZone_def modifyZone_def Let_def
      split: option.splits if_splits prod.splits dest!: andThen_eq_Inr)

lemma nextObject_updatePlacement:
  "updatePlacement playerPos zi index s = Inr u \<Longrightarrow> nextObject u = nextObject s"
  by (auto simp add: updatePlacement_def Let_def modifyPlacement_def modifyZone_def
      split: option.splits if_splits prod.splits dest!: andThen_eq_Inr)

lemma nextObject_forEachE:
  "forEachE (updatePlacement playerPos zi) is s = Inr u \<Longrightarrow> nextObject u = nextObject s"
proof (induction "is" arbitrary: s)
  case Nil
  then show ?case by simp
next
  case (Cons i "is")
  from Cons.prems obtain v where v: "updatePlacement playerPos zi i s = Inr v"
    "forEachE (updatePlacement playerPos zi) is v = Inr u"
    by (auto dest!: andThen_eq_Inr)
  show ?case using Cons.IH [OF v(2)] nextObject_updatePlacement [OF v(1)] by simp
qed

lemma nextObject_updateEnemies:
  "updateEnemies E playerPos zi s = Inr u \<Longrightarrow> nextObject u = nextObject s"
  by (auto simp add: updateEnemies_def startBossFight_def Let_def
      split: if_splits option.splits prod.splits dest!: andThen_eq_Inr nextObject_forEachE)

lemma cleanupBrokenObjects_active:
  "\<exists>P. activeObjects (cleanupBrokenObjects s) = filter P (activeObjects s)"
  "nextObject (cleanupBrokenObjects s) = nextObject s"
  by (auto simp add: cleanupBrokenObjects_def Let_def split: prod.split)

lemma props_wf_update:
  assumes "props_wf s" "EncounterSystem_update E env deltaTime playerPos s = Inr s1"
  shows "props_wf s1"
proof (cases "currentZone s")
  case None
  then show ?thesis using assms by (simp add: EncounterSystem_update_def)
next
  case (Some zi)
  from update_stages [OF assms(2) Some] obtain u1 u2 where u:
    "updateBoss E env playerPos s = Inr u1"
    "updateEnemies E playerPos zi (updateObjects env u1) = Inr u2"
    "s1 = cleanupBrokenObjects (cleanupDeadEnemies E u2)"
    by blast
  have n: "nextObject u2 = nextObject s"
    using nextObject_updateEnemies [OF u(2)] nextObject_updateBoss [OF u(1)]
    by (simp add: updateObjects_def)
  have a: "activeObjects u2 = activeObjects s"
    using updateEnemies_frame(2) [OF u(2)] updateBoss_frame(2) [OF u(1)]
    by (simp add: updateObjects_frame)
  let ?c = "cleanupDeadEnemies E u2"
  have c: "activeObjects ?c = activeObjects s" "nextObject ?c = nextObject s"
    using a n by (simp_all add: cleanupDeadEnemies_def Let_def split: prod.split)
  obtain P where P: "activeObjects s1 = filter P (activeObjects s)"
    using cleanupBrokenObjects_active(1) [of ?c] c u(3) by auto
  have "nextObject s1 = nextObject s"
    using cleanupBrokenObjects_active(2) [of ?c] c u(3) by simp
  then show ?thesis
    using assms(1) unfolding props_wf_def P
    by (auto simp add: distinct_map_filter list_all_iff)
qed

lemma props_wf_others:
  "props_wf (EncounterSystem_new w store props)"
  "props_wf (EncounterSystem_reset E s)"
  "props_wf s \<Longrightarrow> props_wf (unlockZone zoneIdArg s)"
  by (simp_all add: props_wf_def EncounterSystem_new_def EncounterSystem_reset_def
      clearCurrentZone_def unlockZone_def modifyZone_def Let_def split: prod.split option.split)

lemma updateEnemyAggro_keeps_ref:
  assumes "updateEnemyAggro playerPos cfg e = Inr (cfg1, e1, logs)"
  shows "enemy cfg1 = enemy cfg"
  using assms
  by (auto simp add: updateEnemyAggro_def triggerAggro_def loseAggro_def Let_def
      split: EnemyState.splits if_splits dest!: andThen_eq_Inr)

lemma forEachE_append:
  "forEachE f (xs @ ys) s = andThen (forEachE f xs s) (forEachE f ys)"
proof (induction xs arbitrary: s)
  case Nil
  show ?case by (simp add: andThen_Inr)
next
  case (Cons i xs)
  show ?case by (cases "f i s") (simp_all add: andThen_def Cons.IH)
qed

lemma updatePlacement_zones:
  assumes "updatePlacement playerPos zi j s = Inr u"
  shows "length (zones u) = length (zones s)"
    and "zi < length (zones s) \<Longrightarrow> length (enemies (zones u ! zi)) = length (enemies (zones s ! zi))"
    and "zi < length (zones s) \<Longrightarrow> j \<noteq> i \<Longrightarrow> enemies (zones u ! zi) ! i = enemies (zones s ! zi) ! i"
    and "enemy (enemies (zones s ! zi) ! j) \<noteq> Some a \<Longrightarrow> enemyStore u a = enemyStore s a"
  using assms
  by (auto simp add: updatePlacement_def Let_def modifyPlacement_def modifyZone_def
      split: option.splits if_splits prod.splits dest!: andThen_eq_Inr)

lemma updatePlacement_refs:
  assumes "updatePlacement playerPos zi j s = Inr u" "zi < length (zones s)"
    "j < length (enemies (zones s ! zi))"
  shows "map enemy (enemies (zones u ! zi)) = map enemy (enemies (zones s ! zi))"
proof (cases "enemy (enemies (zones s ! zi) ! j)")
  case None
  then show ?thesis using assms by (simp add: updatePlacement_def Let_def)
next
  case (Some b)
  show ?thesis
  proof (cases "active (Enemy.sprite (enemyStore s b))")
    case False
    then show ?thesis using assms Some by (simp add: updatePlacement_def Let_def)
  next
    case True
    from assms(1) Some True obtain cfg1 e1 logs where r:
      "updateEnemyAggro playerPos (enemies (zones s ! zi) ! j) (enemyStore s b) = Inr (cfg1, e1, logs)"
      "enemies (zones u ! zi) = (enemies (zones s ! zi))[j := cfg1]"
      using assms(2)
      by (auto simp add: updatePlacement_def Let_def modifyPlacement_def modifyZone_def
          split: prod.splits dest!: andThen_eq_Inr)
    have "enemy cfg1 = enemy (enemies (zones s ! zi) ! j)"
      using updateEnemyAggro_keeps_ref [OF r(1)] .
    then have "(map enemy (enemies (zones s ! zi)))[j := enemy cfg1] = map enemy (enemies (zones s ! zi))"
      using assms(3) by (simp add: list_update_same_conv)
    then show ?thesis unfolding r(2) by (simp add: map_update)
  qed
qed

lemma updatePlacement_self:
  assumes "updatePlacement playerPos zi i s = Inr u" "zi < length (zones s)"
    "i < length (enemies (zones s ! zi))"
    "enemy (enemies (zones s ! zi) ! i) = Some a" "active (Enemy.sprite (enemyStore s a))"
  shows "\<exists>e1 logs. updateEnemyAggro playerPos (enemies (zones s ! zi) ! i) (enemyStore s a)
           = Inr (enemies (zones u ! zi) ! i, e1, logs)"
  using assms
  by (auto simp add: updatePlacement_def Let_def modifyPlacement_def modifyZone_def
      split: prod.splits dest!: andThen_eq_Inr)

lemma forEachE_others:
  assumes "forEachE (updatePlacement playerPos zi) js s = Inr u" "i \<notin> set js" "zi < length (zones s)"
    "\<forall>j \<in> set js. j < length (enemies (zones s ! zi)) \<and> enemy (enemies (zones s ! zi) ! j) \<noteq> Some a"
  shows "enemies (zones u ! zi) ! i = enemies (zones s ! zi) ! i \<and> enemyStore u a = enemyStore s a
       \<and> length (zones u) = length (zones s)
       \<and> map enemy (enemies (zones u ! zi)) = map enemy (enemies (zones s ! zi))"
  using assms
proof (induction js arbitrary: s)
  case Nil
  then show ?case by simp
next
  case (Cons j js)
  from Cons.prems(1) obtain v where v: "updatePlacement playerPos zi j s = Inr v"
    "forEachE (updatePlacement playerPos zi) js v = Inr u"
    by (auto dest!: andThen_eq_Inr)
  have j: "j \<noteq> i" "j < length (enemies (zones s ! zi))" "enemy (enemies (zones s ! zi) ! j) \<noteq> Some a"
    using Cons.prems by auto
  have z: "length (zones v) = length (zones s)"
    "enemies (zones v ! zi) ! i = enemies (zones s ! zi) ! i"
    "enemyStore v a = enemyStore s a"
    using updatePlacement_zones [OF v(1)] Cons.prems(3) j by auto
  have refs: "map enemy (enemies (zones v ! zi)) = map enemy (enemies (zones s ! zi))"
    using updatePlacement_refs [OF v(1) Cons.prems(3) j(2)] .
  then have len: "length (enemies (zones v ! zi)) = length (enemies (zones s ! zi))"
    by (metis length_map)
  have "\<forall>k \<in> set js. k < length (enemies (zones v ! zi)) \<and> enemy (enemies (zones v ! zi) ! k) \<noteq> Some a"
  proof
    fix k assume k: "k \<in> set js"
    then have ks: "k < length (enemies (zones s ! zi))" "enemy (enemies (zones s ! zi) ! k) \<noteq> Some a"
      using Cons.prems(4) by auto
    have "enemy (enemies (zones v ! zi) ! k) = map enemy (enemies (zones v ! zi)) ! k"
      using ks len by simp
    also have "\<dots> = enemy (enemies (zones s ! zi) ! k)" using refs ks by simp
    finally show "k < length (enemies (zones v ! zi)) \<and> enemy (enemies (zones v ! zi) ! k) \<noteq> Some a"
      using ks len by simp
  qed
  moreover have "i \<notin> set js" "zi < length (zones v)" using Cons.prems z by auto
  ultimately have "enemies (zones u ! zi) ! i = enemies (zones v ! zi) ! i \<and> enemyStore u a = enemyStore v a
       \<and> length (zones u) = length (zones v)
       \<and> map enemy (enemies (zones u ! zi)) = map enemy (enemies (zones v ! zi))"
    using Cons.IH [OF v(2)] by blast
  then show ?case using z refs by simp
qed


lemma forEachE_placement:
  assumes run: "forEachE (updatePlacement playerPos zi) [0 ..< length (enemies (zones s ! zi))] s = Inr w"
    and zi: "zi < length (zones s)"
    and i: "i < length (enemies (zones s ! zi))"
    and ref: "enemy (enemies (zones s ! zi) ! i) = Some a"
    and live: "active (Enemy.sprite (enemyStore s a))"
    and own: "\<forall>j < length (enemies (zones s ! zi)). j \<noteq> i \<longrightarrow> enemy (enemies (zones s ! zi) ! j) \<noteq> Some a"
  shows "(\<exists>e1 logs. updateEnemyAggro playerPos (enemies (zones s ! zi) ! i) (enemyStore s a)
           = Inr (enemies (zones w ! zi) ! i, e1, logs))
       \<and> length (zones w) = length (zones s)"
proof -
  let ?n = "length (enemies (zones s ! zi))"
  let ?f = "updatePlacement playerPos zi"
  have "[0 ..< i + (?n - i)] = [0 ..< i] @ [i ..< i + (?n - i)]"
    by (rule upt_add_eq_append) simp
  moreover have "[i ..< ?n] = i # [Suc i ..< ?n]" using i by (rule upt_conv_Cons)
  ultimately have split: "[0 ..< ?n] = [0 ..< i] @ [i] @ [Suc i ..< ?n]"
    using i by simp
  from run obtain w0 w1 where w: "forEachE ?f [0 ..< i] s = Inr w0" "?f i w0 = Inr w1"
    "forEachE ?f [Suc i ..< ?n] w1 = Inr w"
    unfolding split forEachE_append
    by (auto simp add: andThen_Inr dest!: andThen_eq_Inr)
  have pre: "enemies (zones w0 ! zi) ! i = enemies (zones s ! zi) ! i" "enemyStore w0 a = enemyStore s a"
    "length (zones w0) = length (zones s)"
    "map enemy (enemies (zones w0 ! zi)) = map enemy (enemies (zones s ! zi))"
    using forEachE_others [OF w(1) _ zi, of i a] own i by auto
  have len0: "length (enemies (zones w0 ! zi)) = ?n" using pre(4) by (metis length_map)
  have zi0: "zi < length (zones w0)" using pre zi by simp
  have i0: "i < length (enemies (zones w0 ! zi))" using len0 i by simp
  obtain e1 logs where self:
    "updateEnemyAggro playerPos (enemies (zones s ! zi) ! i) (enemyStore s a)
       = Inr (enemies (zones w1 ! zi) ! i, e1, logs)"
    using updatePlacement_self [OF w(2) zi0 i0, of a] pre ref live by auto
  have refs1: "map enemy (enemies (zones w1 ! zi)) = map enemy (enemies (zones s ! zi))"
    using updatePlacement_refs [OF w(2) zi0 i0] pre(4) by simp
  have len1: "length (enemies (zones w1 ! zi)) = ?n" using refs1 by (metis length_map)
  have zi1: "zi < length (zones w1)" using updatePlacement_zones(1) [OF w(2)] zi0 by simp
  have "\<forall>j \<in> set [Suc i ..< ?n]. j < length (enemies (zones w1 ! zi))
          \<and> enemy (enemies (zones w1 ! zi) ! j) \<noteq> Some a"
  proof
    fix j assume j: "j \<in> set [Suc i ..< ?n]"
    then have js: "j < ?n" "j \<noteq> i" by auto
    have "enemy (enemies (zones w1 ! zi) ! j) = map enemy (enemies (zones w1 ! zi)) ! j"
      using js len1 by simp
    also have "\<dots> = enemy (enemies (zones s ! zi) ! j)" using refs1 js by simp
    finally show "j < length (enemies (zones w1 ! zi)) \<and> enemy (enemies (zones w1 ! zi) ! j) \<noteq> Some a"
      using js len1 own by simp
  qed
  then have post: "enemies (zones w ! zi) ! i = enemies (zones w1 ! zi) ! i"
    "length (zones w) = length (zones w1)"
    using forEachE_others [OF w(3) _ zi1, of i a] by auto
  show ?thesis using self post updatePlacement_zones(1) [OF w(2)] pre(3) by auto
qed

lemma zones_frame:
  "zones (updateObjects env s) = zones s"
  "enemyStore (updateObjects env s) = enemyStore s"
  "isBossFight (updateObjects env s) = isBossFight s"
  "zones (startBossFight E s) = zones s"
  "zones (cleanupDeadEnemies E s) = zones s"
  "zones (cleanupBrokenObjects s) = zones s"
  by (simp_all add: updateObjects_def startBossFight_def cleanupDeadEnemies_def
      cleanupBrokenObjects_def Let_def split: option.split prod.split)

text \<open>
  How \<^verbatim>\<open>update\<close> drives the machine: in a loaded zone with no boss, the placement
  at \<open>i\<close>, whose live enemy no other placement of the zone refers to, is after the
  call what \<^verbatim>\<open>updateEnemyAggro\<close> returns for the placement and the enemy as they
  were before it. During a boss fight and without a zone \<^verbatim>\<open>update\<close> does not run
  the machine.
\<close>

lemma update_runs_aggro_machine:
  assumes upd: "EncounterSystem_update E env deltaTime playerPos s = Inr s1"
    and cz: "currentZone s = Some zi" "zi < length (zones s)"
    and nb: "currentBoss s = None" "\<not> isBossFight s"
    and i: "i < length (enemies (zones s ! zi))"
    and ref: "enemy (enemies (zones s ! zi) ! i) = Some a"
    and live: "active (Enemy.sprite (enemyStore s a))"
    and own: "\<forall>j < length (enemies (zones s ! zi)). j \<noteq> i \<longrightarrow> enemy (enemies (zones s ! zi) ! j) \<noteq> Some a"
  shows "\<exists>e1 logs. updateEnemyAggro playerPos (enemies (zones s ! zi) ! i) (enemyStore s a)
           = Inr (enemies (zones s1 ! zi) ! i, e1, logs)"
proof -
  from update_stages [OF upd cz(1)] obtain u1 u2 where u:
    "updateBoss E env playerPos s = Inr u1"
    "updateEnemies E playerPos zi (updateObjects env u1) = Inr u2"
    "s1 = cleanupBrokenObjects (cleanupDeadEnemies E u2)"
    by blast
  have u1: "u1 = s" using u(1) nb by (simp add: updateBoss_def)
  let ?s = "updateObjects env s"
  from u(2) obtain w where w:
    "forEachE (updatePlacement playerPos zi) [0 ..< length (enemies (zones ?s ! zi))] ?s = Inr w"
    "zones u2 = zones w"
    using nb unfolding u1
    by (auto simp add: updateEnemies_def zones_frame split: option.splits if_splits
        dest!: andThen_eq_Inr)
  have "\<exists>e1 logs. updateEnemyAggro playerPos (enemies (zones ?s ! zi) ! i) (enemyStore ?s a)
           = Inr (enemies (zones w ! zi) ! i, e1, logs)"
    using forEachE_placement [OF w(1), of i a] cz i ref live own by (simp add: zones_frame)
  then show ?thesis unfolding u(3) by (simp add: zones_frame w(2))
qed

lemma distinct_filter_nth:
  "distinct (filter P xs) \<Longrightarrow> i < length xs \<Longrightarrow> j < length xs \<Longrightarrow> P (xs ! i) \<Longrightarrow> xs ! i = xs ! j
     \<Longrightarrow> i = j"
proof (induction xs arbitrary: i j)
  case Nil
  then show ?case by simp
next
  case (Cons x xs)
  show ?case
  proof (cases i)
    case 0
    show ?thesis
    proof (cases j)
      case 0
      then show ?thesis using \<open>i = 0\<close> by simp
    next
      case (Suc j')
      then have "x = xs ! j'" "j' < length xs" "P x" using Cons.prems 0 by auto
      then have "x \<in> set (filter P xs)" by auto
      then show ?thesis using Cons.prems(1) \<open>P x\<close> by simp
    qed
  next
    case (Suc i')
    show ?thesis
    proof (cases j)
      case 0
      then have "x = xs ! i'" "i' < length xs" "P x" using Cons.prems Suc by auto
      then have "x \<in> set (filter P xs)" by auto
      then show ?thesis using Cons.prems(1) \<open>P x\<close> by simp
    next
      case (Suc j')
      have "distinct (filter P xs)" using Cons.prems(1) by (simp split: if_splits)
      then have "i' = j'" using Cons.IH [of i' j'] Cons.prems Suc \<open>i = Suc i'\<close> by simp
      then show ?thesis using Suc \<open>i = Suc i'\<close> by simp
    qed
  qed
qed

lemma updatePatrol_total:
  assumes "patrolIndexOk cfg e"
  shows "\<exists>e1. updatePatrol e cfg = Inr e1 \<and> patrolIndexOk cfg e1"
proof (cases "StationaryEnemy.patrolPath cfg")
  case None
  then show ?thesis using assms by (simp add: updatePatrol_def)
next
  case (Some path)
  show ?thesis
  proof (cases "path = []")
    case True
    then show ?thesis using assms Some by (simp add: updatePatrol_def)
  next
    case False
    then have pos: "0 < length path" by simp
    define i where "i = (case patrolIndex e of None \<Rightarrow> 0 | Some j \<Rightarrow> j)"
    have i: "i < length path"
      using assms Some False pos by (simp add: patrolIndexOk_def i_def split: option.splits)
    have m: "(i + 1) mod length path < length path" using pos by simp
    show ?thesis
      using Some False i m assms unfolding i_def
      by (auto simp add: updatePatrol_def Let_def patrolIndexOk_def split: option.splits)
  qed
qed

lemma updateEnemyAggro_total:
  assumes "patrolIndexOk cfg e"
  shows "\<exists>cfg1 e1 logs. updateEnemyAggro playerPos cfg e = Inr (cfg1, e1, logs)
           \<and> patrolIndexOk cfg1 e1"
proof -
  obtain e1 where p: "updatePatrol e cfg = Inr e1" "patrolIndexOk cfg e1"
    using updatePatrol_total [OF assms] by blast
  show ?thesis
    using assms p
    by (cases "state cfg")
      (auto simp add: updateEnemyAggro_def triggerAggro_def loseAggro_def Let_def andThen_def
        patrolIndexOk_def split: option.splits)
qed

lemma wf_own:
  assumes "placements_wf s zi" "i < length (enemies (zones s ! zi))" "j < length (enemies (zones s ! zi))"
    "i \<noteq> j" "enemy (enemies (zones s ! zi) ! i) = Some a"
  shows "enemy (enemies (zones s ! zi) ! j) \<noteq> Some a"
proof
  assume "enemy (enemies (zones s ! zi) ! j) = Some a"
  then have "map enemy (enemies (zones s ! zi)) ! i = map enemy (enemies (zones s ! zi)) ! j"
    "map enemy (enemies (zones s ! zi)) ! i \<noteq> None"
    using assms by simp_all
  moreover have "distinct (filter (\<lambda>r. r \<noteq> None) (map enemy (enemies (zones s ! zi))))"
    using assms(1) by (simp add: placements_wf_def)
  ultimately have "i = j"
    using distinct_filter_nth [of "\<lambda>r. r \<noteq> None" "map enemy (enemies (zones s ! zi))" i j] assms(2,3)
    by simp
  then show False using assms(4) by simp
qed

lemma wf_patrol:
  assumes "placements_wf s zi" "j < length (enemies (zones s ! zi))"
    "enemy (enemies (zones s ! zi) ! j) = Some a"
  shows "patrolIndexOk (enemies (zones s ! zi) ! j) (enemyStore s a)"
  using assms by (auto simp add: placements_wf_def list_all_length split: option.splits)

lemma updatePlacement_wf:
  assumes wf: "placements_wf s zi" and zi: "zi < length (zones s)"
    and j: "j < length (enemies (zones s ! zi))"
  shows "\<exists>v. updatePlacement playerPos zi j s = Inr v \<and> placements_wf v zi
           \<and> length (zones v) = length (zones s)
           \<and> length (enemies (zones v ! zi)) = length (enemies (zones s ! zi))"
proof (cases "enemy (enemies (zones s ! zi) ! j)")
  case None
  then show ?thesis using wf by (simp add: updatePlacement_def Let_def)
next
  case (Some a)
  show ?thesis
  proof (cases "active (Enemy.sprite (enemyStore s a))")
    case False
    then show ?thesis using wf Some by (simp add: updatePlacement_def Let_def)
  next
    case True
    let ?cfg = "enemies (zones s ! zi) ! j"
    obtain cfg1 e1 logs where r: "updateEnemyAggro playerPos ?cfg (enemyStore s a) = Inr (cfg1, e1, logs)"
      "patrolIndexOk cfg1 e1"
      using updateEnemyAggro_total [OF wf_patrol [OF wf j Some]] by blast
    define v where "v = (modifyPlacement zi j (\<lambda>c. cfg1) s)
                              \<lparr>enemyStore := (enemyStore s)(a := e1), console := console s @ logs\<rparr>"
    have run: "updatePlacement playerPos zi j s = Inr v"
      using Some True r(1) by (simp add: updatePlacement_def Let_def andThen_def v_def)
    have refs: "map enemy (enemies (zones v ! zi)) = map enemy (enemies (zones s ! zi))"
      using updatePlacement_refs [OF run zi j] .
    have len: "length (enemies (zones v ! zi)) = length (enemies (zones s ! zi))"
      using updatePlacement_zones(2) [OF run zi] .
    have lz: "length (zones v) = length (zones s)"
      using updatePlacement_zones(1) [OF run] .
    have self: "enemies (zones v ! zi) ! j = cfg1" "enemyStore v a = e1"
      using zi j by (simp_all add: v_def modifyPlacement_def modifyZone_def)
    have d: "distinct (filter (\<lambda>r. r \<noteq> None) (map enemy (enemies (zones v ! zi))))"
      unfolding refs using wf by (simp add: placements_wf_def)
    have "\<forall>k < length (enemies (zones v ! zi)).
            (case enemy (enemies (zones v ! zi) ! k) of
               None \<Rightarrow> True
             | Some b \<Rightarrow> patrolIndexOk (enemies (zones v ! zi) ! k) (enemyStore v b))"
    proof (intro allI impI)
      fix k assume k: "k < length (enemies (zones v ! zi))"
      then have ks: "k < length (enemies (zones s ! zi))" using len by simp
      show "case enemy (enemies (zones v ! zi) ! k) of
               None \<Rightarrow> True
             | Some b \<Rightarrow> patrolIndexOk (enemies (zones v ! zi) ! k) (enemyStore v b)"
      proof (cases "k = j")
        case True
        have "enemy cfg1 = Some a" using updateEnemyAggro_keeps_ref [OF r(1)] Some by simp
        then show ?thesis using True self r(2) by simp
      next
        case False
        have same: "enemies (zones v ! zi) ! k = enemies (zones s ! zi) ! k"
          using updatePlacement_zones(3) [OF run zi False [symmetric]] .
        show ?thesis
        proof (cases "enemy (enemies (zones s ! zi) ! k)")
          case None
          then show ?thesis using same by simp
        next
          case (Some b)
          have "enemy (enemies (zones s ! zi) ! j) \<noteq> Some b"
            using wf_own [OF wf ks j False Some] .
          then have "enemyStore v b = enemyStore s b"
            using updatePlacement_zones(4) [OF run] by simp
          then show ?thesis using same Some wf_patrol [OF wf ks Some] by simp
        qed
      qed
    qed
    then have "placements_wf v zi" using d by (simp add: placements_wf_def list_all_length)
    then show ?thesis using run lz len by blast
  qed
qed

lemma forEachE_wf:
  assumes "placements_wf s zi" "zi < length (zones s)"
    "\<forall>j \<in> set js. j < length (enemies (zones s ! zi))"
  shows "\<exists>w. forEachE (updatePlacement playerPos zi) js s = Inr w"
  using assms
proof (induction js arbitrary: s)
  case Nil
  show ?case by simp
next
  case (Cons j js)
  obtain v where v: "updatePlacement playerPos zi j s = Inr v" "placements_wf v zi"
    "length (zones v) = length (zones s)"
    "length (enemies (zones v ! zi)) = length (enemies (zones s ! zi))"
    using updatePlacement_wf [OF Cons.prems(1,2), of j playerPos] Cons.prems(3) by auto
  have "\<exists>w. forEachE (updatePlacement playerPos zi) js v = Inr w"
    using Cons.IH [of v] v Cons.prems by simp
  then show ?case using v(1) by (simp add: andThen_Inr)
qed

lemma update_total:
  assumes cz: "currentZone s = Some zi" "zi < length (zones s)"
    and nb: "currentBoss s = None"
    and wf: "placements_wf s zi"
  shows "\<exists>s1. EncounterSystem_update E env deltaTime playerPos s = Inr s1"
proof -
  let ?s = "updateObjects env s"
  have b: "updateBoss E env playerPos s = Inr s" using nb by (simp add: updateBoss_def)
  have wf': "placements_wf ?s zi" using wf unfolding placements_wf_def zones_frame .
  have "\<exists>w. forEachE (updatePlacement playerPos zi) [0 ..< length (enemies (zones ?s ! zi))] ?s = Inr w"
    using forEachE_wf [OF wf', of "[0 ..< length (enemies (zones ?s ! zi))]" playerPos] cz
    by (simp add: zones_frame)
  then have "\<exists>u. updateEnemies E playerPos zi ?s = Inr u"
    by (auto simp add: updateEnemies_def andThen_Inr split: option.split)
  then show ?thesis using cz b by (auto simp add: EncounterSystem_update_def andThen_Inr)
qed

text \<open>
  C1, amended: in a loaded zone with no boss fight in progress, whose placements
  refer to different enemy objects with patrol indices inside their patrol paths,
  one call of \<^verbatim>\<open>update\<close> returns normally, and for a placement with a live
  enemy at distance \<open>d\<close> from the player: if the placement is Stationary or Patrolling,
  \<open>d\<close> is at most \<^verbatim>\<open>aggroRadius\<close> and the enemy is not aggroed, the placement is
  Aggroed after the call; if it is Aggroed and \<open>d\<close> is at most 1.5 times
  \<^verbatim>\<open>aggroRadius\<close>, the band above \<^verbatim>\<open>aggroRadius\<close> included, it is unchanged; and if
  it is Aggroed and \<open>d\<close> is larger, it is Patrolling after the call when it has a
  patrol path and Stationary when it has none.
\<close>

theorem update_aggro_state_machine:
  assumes cz: "currentZone s = Some zi" "zi < length (zones s)"
    and nb: "currentBoss s = None" "\<not> isBossFight s"
    and wf: "placements_wf s zi"
    and i: "i < length (enemies (zones s ! zi))"
    and ref: "enemy (enemies (zones s ! zi) ! i) = Some a"
    and live: "active (Enemy.sprite (enemyStore s a))"
    and cfg: "cfg = enemies (zones s ! zi) ! i"
    and d: "d = distanceToPlayer (enemyStore s a) playerPos"
  shows "\<exists>s1. EncounterSystem_update E env deltaTime playerPos s = Inr s1
     \<and> (state cfg \<in> {STATIONARY, PATROLLING} \<and> d \<le> StationaryEnemy.aggroRadius cfg
          \<and> hasAggro (enemyStore s a) \<noteq> Some True
        \<longrightarrow> enemies (zones s1 ! zi) ! i = cfg\<lparr>state := AGGROED\<rparr>)
     \<and> (state cfg = AGGROED \<and> d \<le> 1.5 * StationaryEnemy.aggroRadius cfg
        \<longrightarrow> enemies (zones s1 ! zi) ! i = cfg)
     \<and> (state cfg = AGGROED \<and> d > 1.5 * StationaryEnemy.aggroRadius cfg
        \<longrightarrow> enemies (zones s1 ! zi) ! i =
             cfg\<lparr>state := (if StationaryEnemy.patrolPath cfg \<noteq> None then PATROLLING else STATIONARY)\<rparr>)"
proof -
  obtain s1 where s1: "EncounterSystem_update E env deltaTime playerPos s = Inr s1"
    using update_total [OF cz nb(1) wf] by blast
  have own: "\<forall>j < length (enemies (zones s ! zi)). j \<noteq> i \<longrightarrow> enemy (enemies (zones s ! zi) ! j) \<noteq> Some a"
    using wf_own [OF wf i _ _ ref] by blast
  obtain e1 logs where r: "updateEnemyAggro playerPos cfg (enemyStore s a)
           = Inr (enemies (zones s1 ! zi) ! i, e1, logs)"
    using update_runs_aggro_machine [OF s1 cz nb i ref live own] unfolding cfg by blast
  show ?thesis
    using s1 r updateEnemyAggro_transitions [of cfg "enemyStore s a" playerPos] unfolding d
    by auto
qed

section \<open>The test scenario, evaluated\<close>

text \<open>
  The tutorial zone is loaded into a new system over the mocks; the state that
  results is computed once, in closed form. Then the barrel is kicked to 1000 units
  per second and the player stands at (100, 0): at distance 100 from the five mock
  enemies (all at (100, 100)) and 1000 from the boss arena.
\<close>

lemma upt5: "[0..<5] = [0, Suc 0, Suc (Suc 0), Suc (Suc (Suc 0)), Suc (Suc (Suc (Suc 0)))]"
  by code_simp

lemma upt3: "[0..<3] = [0, Suc 0, Suc (Suc 0)]"
  by code_simp

lemma showNat_digits:
  "showNat 0 = ''0''" "showNat (Suc 0) = ''1''" "showNat (Suc (Suc 0)) = ''2''"
  "showNat (Suc (Suc (Suc 0))) = ''3''" "showNat (Suc (Suc (Suc (Suc 0)))) = ''4''"
  by code_simp+

lemmas load_defs = loadZone_def s_init_def EncounterSystem_new_def createGameZones_def tutorialGrove_def
  clearCurrentZone_def releaseAll_def upt5 upt3 spawnZoneEnemy_def spawnZoneObject_def
  modifyPlacement_def modifyZone_def mocks_def stationaryEnemy_def kickableObjectConfig_def
  applyZoneTheme_def showNat_digits Let_def Vector2_new_def s_loaded_def

lemma s_loaded_eq:
  "s_loaded =
     \<lparr>world = 5,
      enemyStore = (\<lambda>a. mockEnemy)
        (0 := spawned 100 (Vector2_new 300 200),
         Suc 0 := spawned 120 (Vector2_new 500 300),
         Suc (Suc 0) := spawned 140 (Vector2_new 700 150),
         Suc (Suc (Suc 0)) := spawned 110 (Vector2_new 400 500),
         Suc (Suc (Suc (Suc 0))) := spawned 130 (Vector2_new 800 400)),
      objectStore = (\<lambda>a. KickableObject_new 64 0 0 BARREL)
        (0 := KickableObject_new 64 350 250 BARREL,
         Suc 0 := KickableObject_new 64 600 200 BOX,
         Suc (Suc 0) := KickableObject_new 64 450 400 STONE),
      nextObject = 3,
      zones =
        [tutorialGrove
           \<lparr>enemies :=
              [(stationaryEnemy (Vector2_new 300 200) BASIC 100 STATIONARY None)\<lparr>enemy := Some 0\<rparr>,
               (stationaryEnemy (Vector2_new 500 300) BASIC 120 STATIONARY None)\<lparr>enemy := Some 1\<rparr>,
               (stationaryEnemy (Vector2_new 700 150) FAST 140 STATIONARY None)\<lparr>enemy := Some 2\<rparr>,
               (stationaryEnemy (Vector2_new 400 500) BASIC 110 STATIONARY None)\<lparr>enemy := Some 3\<rparr>,
               (stationaryEnemy (Vector2_new 800 400) FAST 130 STATIONARY None)\<lparr>enemy := Some 4\<rparr>],
            kickableObjects :=
              [(kickableObjectConfig (Vector2_new 350 250) BARREL)\<lparr>object := Some 0\<rparr>,
               (kickableObjectConfig (Vector2_new 600 200) BOX)\<lparr>object := Some 1\<rparr>,
               (kickableObjectConfig (Vector2_new 450 400) STONE)\<lparr>object := Some 2\<rparr>]\<rparr>,
         desertOutpost, arcticLab],
      currentZone = Some 0,
      activeEnemies =
        [(''tutorial-grove-enemy-0'', 0), (''tutorial-grove-enemy-1'', 1),
         (''tutorial-grove-enemy-2'', 2), (''tutorial-grove-enemy-3'', 3),
         (''tutorial-grove-enemy-4'', 4)],
      activeObjects =
        [(''tutorial-grove-object-0'', 0), (''tutorial-grove-object-1'', 1),
         (''tutorial-grove-object-2'', 2)],
      currentBoss = None,
      isBossFight = False,
      EncounterSystem.aggroRadius = 150,
      console = [],
      cameraBackground = Some 0x2d5a27\<rparr>"
  by (simp add: load_defs spawned_def)

lemmas scenario_defs = s_kicked_def s_loaded_eq env0_def createGameZones_def tutorialGrove_def
  desertOutpost_def arcticLab_def stationaryEnemy_def kickableObjectConfig_def Vector2_new_def
  spawned_def mockEnemy_def swarmKing_def mocks_def Let_def

lemmas update_defs = EncounterSystem_update_def updateBoss_def updateObjects_def updateEnemies_def
  updatePlacement_def updateEnemyAggro_def triggerAggro_def distanceToPlayer_def distance_def
  cleanupDeadEnemies_def cleanupBrokenObjects_def andThen_def startBossFight_def currentZoneBoss_def
  modifyPlacement_def modifyZone_def upt5

lemma kicked_update_total:
  "\<exists>s1. EncounterSystem_update mocks env0 1000 (Vector2_new 100 0) s_kicked = Inr s1"
  by (simp add: scenario_defs update_defs)

lemma kicked_parts:
  "currentZone s_kicked = Some 0"
  "0 < length (zones s_kicked)"
  "currentBoss s_kicked = None"
  "\<not> isBossFight s_kicked"
  "distinct (map snd (activeObjects s_kicked))"
  "0 \<in> snd ` set (activeObjects s_kicked)"
  "objectStore s_kicked 0 = applyKick (1/2) 500 0 100 (KickableObject_new 64 350 250 BARREL)"
  "enemyStore s_kicked 0 = spawned 100 (Vector2_new 300 200)"
  "map enemy (enemies (zones s_kicked ! 0)) = [Some 0, Some 1, Some 2, Some 3, Some 4]"
  "enemies (zones s_kicked ! 0) ! 0
     = (stationaryEnemy (Vector2_new 300 200) BASIC 100 STATIONARY None)\<lparr>enemy := Some 0\<rparr>"
  by (simp_all add: s_kicked_def s_loaded_eq)

lemma fight_parts:
  "currentZone s_fight = Some 0"
  "isBossFight s_fight"
  "zones s_fight = zones s_loaded"
  "enemyStore s_fight = enemyStore s_loaded"
  "currentBoss s_fight = Some (Boss_spawn mocks 900 600 ELITE (Boss_new mocks swarmKing))"
  by (simp_all add: s_fight_def startBossFight_def currentZoneBoss_def s_loaded_eq releaseAll_def
      tutorialGrove_def swarmKing_def bossEnemyType_def mocks_def Vector2_new_def Let_def)

lemma fight_boss_tick:
  "\<exists>b1. Boss_update mocks env0 16 (Vector2_new 100 0) (Boss_spawn mocks 900 600 ELITE (Boss_new mocks swarmKing))
          = Inr b1 \<and> \<not> isDying (base b1)"
  by (simp add: Boss_update_def checkPhaseTransition_def healthPercent_le_def updateBossMovement_def
      phaseAt_def updateCircleMovement_def moveSprite_def updateBossAttacks_def env0_def
      Boss_spawn_def Boss_new_def mocks_def mockEnemy_def swarmKing_def bossPhase_def
      andThen_def Let_def)

lemma fight_update:
  "\<exists>s1. EncounterSystem_update mocks env0 dt (Vector2_new 100 0) s_fight = Inr s1
        \<and> zones s1 = zones s_fight"
proof -
  obtain b1 where b1: "Boss_update mocks env0 16 (Vector2_new 100 0)
      (Boss_spawn mocks 900 600 ELITE (Boss_new mocks swarmKing)) = Inr b1" "\<not> isDying (base b1)"
    using fight_boss_tick by blast
  have act: "active (Enemy.sprite (base (Boss_spawn mocks 900 600 ELITE (Boss_new mocks swarmKing))))"
    by (simp add: Boss_spawn_def Boss_new_def mocks_def mockEnemy_def Let_def)
  have u: "updateBoss mocks env0 (Vector2_new 100 0) s_fight = Inr (s_fight\<lparr>currentBoss := Some b1\<rparr>)"
    using b1 act by (simp add: updateBoss_def fight_parts(5) andThen_Inr Let_def)
  have e: "updateEnemies mocks (Vector2_new 100 0) 0 (updateObjects env0 (s_fight\<lparr>currentBoss := Some b1\<rparr>))
      = Inr (updateObjects env0 (s_fight\<lparr>currentBoss := Some b1\<rparr>))"
    by (simp add: updateEnemies_def updateObjects_def fight_parts(2))
  show ?thesis
    by (simp add: EncounterSystem_update_def fight_parts(1) u e andThen_Inr zones_frame)
qed

theorem update_fixed_tick_witness:
  "(\<exists>s1. EncounterSystem_update mocks env0 1000 (Vector2_new 100 0) s_kicked = Inr s1
       \<and> EncounterSystem_update mocks env0 16 (Vector2_new 100 0) s_kicked = Inr s1
       \<and> Sprite.x (KickableObject.sprite (objectStore s1 0)) = 366
       \<and> velocity (objectStore s1 0) = \<lparr>Vector2.x = 850, Vector2.y = 0\<rparr>)
   \<and> (\<exists>s1 b1. EncounterSystem_update mocks env0 1000 (Vector2_new 100 0) s_fight = Inr s1
       \<and> Boss_update mocks env0 16 (Vector2_new 100 0)
            (Boss_spawn mocks 900 600 ELITE (Boss_new mocks swarmKing)) = Inr b1
       \<and> currentBoss s1 = Some b1)"
proof -
  obtain s1 where s1: "EncounterSystem_update mocks env0 1000 (Vector2_new 100 0) s_kicked = Inr s1"
    using kicked_update_total by blast
  note t = update_fixed_tick [of mocks env0 1000 "Vector2_new 100 0" s_kicked 16 woundedBomber s1 0]
  have "EncounterSystem_update mocks env0 16 (Vector2_new 100 0) s_kicked = Inr s1"
    using t s1 by simp
  moreover have "objectStore s1 0 =
      (let k = KickableObject_update (now env0) 16 (objectStore s_kicked 0)
       in if isBroken k then KickableObject_destroy k else k)"
    using t s1 kicked_parts(1,5,6) by simp
  then have "Sprite.x (KickableObject.sprite (objectStore s1 0)) = 366
       \<and> velocity (objectStore s1 0) = \<lparr>Vector2.x = 850, Vector2.y = 0\<rparr>"
    by (simp add: kicked_parts(7) env0_def KickableObject_update_def applyKick_def
        KickableObject_new_def updateTrail_def Let_def)
  ultimately have props: "\<exists>s1. EncounterSystem_update mocks env0 1000 (Vector2_new 100 0) s_kicked = Inr s1
       \<and> EncounterSystem_update mocks env0 16 (Vector2_new 100 0) s_kicked = Inr s1
       \<and> Sprite.x (KickableObject.sprite (objectStore s1 0)) = 366
       \<and> velocity (objectStore s1 0) = \<lparr>Vector2.x = 850, Vector2.y = 0\<rparr>"
    using s1 by blast
  let ?b = "Boss_spawn mocks 900 600 ELITE (Boss_new mocks swarmKing)"
  obtain s2 where s2: "EncounterSystem_update mocks env0 1000 (Vector2_new 100 0) s_fight = Inr s2"
    using fight_update [of 1000] by blast
  have act: "active (Enemy.sprite (base ?b))"
    by (simp add: Boss_spawn_def Boss_new_def mocks_def mockEnemy_def Let_def)
  from update_fixed_tick [of mocks env0 1000 "Vector2_new 100 0" s_fight 16 ?b s2 0]
  obtain b1 where b1: "Boss_update mocks env0 16 (Vector2_new 100 0) ?b = Inr b1"
    "currentBoss s2 = Some b1 \<or> (Enemy.health (base b1) \<le> 0 \<and> isDying (base b1))"
    using s2 act fight_parts(1,5) by auto
  have "\<not> isDying (base b1)" using fight_boss_tick b1(1) by auto
  then have "currentBoss s2 = Some b1" using b1(2) by simp
  then show ?thesis using props s2 b1(1) by blast
qed

text \<open>
  C1, as the claim states it, fails: during a boss fight \<^verbatim>\<open>update\<close> skips the
  regular enemies. In the tutorial zone with its boss fight started, the first
  placement is Stationary, its enemy is live, not aggroed and at distance 100 from
  the player, its \<^verbatim>\<open>aggroRadius\<close> is 100, and after one call of \<^verbatim>\<open>update\<close> the
  placement is still Stationary.
\<close>

theorem boss_fight_skips_aggro:
  "currentZone s_fight = Some 0
   \<and> isBossFight s_fight
   \<and> enemy (enemies (zones s_fight ! 0) ! 0) = Some 0
   \<and> active (Enemy.sprite (enemyStore s_fight 0))
   \<and> state (enemies (zones s_fight ! 0) ! 0) = STATIONARY
   \<and> distanceToPlayer (enemyStore s_fight 0) (Vector2_new 100 0)
       \<le> StationaryEnemy.aggroRadius (enemies (zones s_fight ! 0) ! 0)
   \<and> hasAggro (enemyStore s_fight 0) = Some False
   \<and> (\<exists>s1. EncounterSystem_update mocks env0 16 (Vector2_new 100 0) s_fight = Inr s1
          \<and> state (enemies (zones s1 ! 0) ! 0) = STATIONARY)"
proof -
  have a: "enemy (enemies (zones s_fight ! 0) ! 0) = Some 0
   \<and> active (Enemy.sprite (enemyStore s_fight 0))
   \<and> state (enemies (zones s_fight ! 0) ! 0) = STATIONARY
   \<and> distanceToPlayer (enemyStore s_fight 0) (Vector2_new 100 0)
       \<le> StationaryEnemy.aggroRadius (enemies (zones s_fight ! 0) ! 0)
   \<and> hasAggro (enemyStore s_fight 0) = Some False"
    by (simp add: fight_parts(3,4) s_loaded_eq stationaryEnemy_def spawned_def mockEnemy_def
        distanceToPlayer_def distance_def Vector2_new_def)
  obtain s1 where s1: "EncounterSystem_update mocks env0 16 (Vector2_new 100 0) s_fight = Inr s1"
    "zones s1 = zones s_fight"
    using fight_update [of 16] by blast
  have "state (enemies (zones s1 ! 0) ! 0) = STATIONARY" using a s1(2) by simp
  then show ?thesis using a s1(1) fight_parts(1,2) by blast
qed

lemma kicked_wf: "placements_wf s_kicked 0"
  by (simp add: placements_wf_def patrolIndexOk_def s_kicked_def s_loaded_eq stationaryEnemy_def)

lemma aggroed_parts:
  "currentZone s_aggroed = Some 0"
  "0 < length (zones s_aggroed)"
  "currentBoss s_aggroed = None"
  "\<not> isBossFight s_aggroed"
  "placements_wf s_aggroed 0"
  "0 < length (enemies (zones s_aggroed ! 0))"
  "enemy (enemies (zones s_aggroed ! 0) ! 0) = Some 0"
  "active (Enemy.sprite (enemyStore s_aggroed 0))"
  "enemies (zones s_aggroed ! 0) ! 0
     = (stationaryEnemy (Vector2_new 300 200) BASIC 100 AGGROED None)\<lparr>enemy := Some 0\<rparr>"
  "distanceToPlayer (enemyStore s_aggroed 0) (Vector2_new 220 100) = 120"
  "distanceToPlayer (enemyStore s_aggroed 0) (Vector2_new 251 100) = 151"
  by (simp_all add: s_aggroed_def s_loaded_eq modifyPlacement_def modifyZone_def placements_wf_def
      patrolIndexOk_def stationaryEnemy_def spawned_def mockEnemy_def distanceToPlayer_def
      distance_def Vector2_new_def)

lemma patrol_parts:
  "currentZone (s_patrol st aggro) = Some 0"
  "0 < length (zones (s_patrol st aggro))"
  "currentBoss (s_patrol st aggro) = None"
  "\<not> isBossFight (s_patrol st aggro)"
  "placements_wf (s_patrol st aggro) 0"
  "1 < length (enemies (zones (s_patrol st aggro) ! 0))"
  "enemy (enemies (zones (s_patrol st aggro) ! 0) ! 1) = Some 1"
  "active (Enemy.sprite (enemyStore (s_patrol st aggro) 1))"
  "enemies (zones (s_patrol st aggro) ! 0) ! 1
     = (stationaryEnemy (Vector2_new 500 300) BASIC 120 st
          (Some [Vector2_new 500 300, Vector2_new 700 300]))\<lparr>enemy := Some 1\<rparr>"
  "distanceToPlayer (enemyStore (s_patrol st aggro) 1) (Vector2_new 100 0) = 100"
  "distanceToPlayer (enemyStore (s_patrol st aggro) 1) (Vector2_new 281 100) = 181"
  "hasAggro (enemyStore (s_patrol st aggro) 1) = Some aggro"
  by (simp_all add: s_patrol_def s_loaded_eq modifyPlacement_def modifyZone_def placements_wf_def
      patrolIndexOk_def stationaryEnemy_def spawned_def mockEnemy_def distanceToPlayer_def
      distance_def Vector2_new_def)

theorem update_aggro_state_machine_witness:
  "(\<exists>s1. EncounterSystem_update mocks env0 16 (Vector2_new 100 0) s_kicked = Inr s1
        \<and> state (enemies (zones s_kicked ! 0) ! 0) = STATIONARY
        \<and> state (enemies (zones s1 ! 0) ! 0) = AGGROED)
   \<and> (\<exists>s1. EncounterSystem_update mocks env0 16 (Vector2_new 220 100) s_aggroed = Inr s1
        \<and> state (enemies (zones s_aggroed ! 0) ! 0) = AGGROED
        \<and> state (enemies (zones s1 ! 0) ! 0) = AGGROED)
   \<and> (\<exists>s1. EncounterSystem_update mocks env0 16 (Vector2_new 251 100) s_aggroed = Inr s1
        \<and> state (enemies (zones s1 ! 0) ! 0) = STATIONARY)
   \<and> (\<exists>s1. EncounterSystem_update mocks env0 16 (Vector2_new 100 0) (s_patrol PATROLLING False) = Inr s1
        \<and> state (enemies (zones s1 ! 0) ! 1) = AGGROED)
   \<and> (\<exists>s1. EncounterSystem_update mocks env0 16 (Vector2_new 281 100) (s_patrol AGGROED True) = Inr s1
        \<and> state (enemies (zones s1 ! 0) ! 1) = PATROLLING)"
proof -
  let ?p = "Vector2_new 100 0"
  let ?cfg = "(stationaryEnemy (Vector2_new 300 200) BASIC 100 STATIONARY None)\<lparr>enemy := Some 0\<rparr>"
  let ?cfga = "(stationaryEnemy (Vector2_new 300 200) BASIC 100 AGGROED None)\<lparr>enemy := Some 0\<rparr>"
  let ?path = "Some [Vector2_new 500 300, Vector2_new 700 300]"
  have len: "length (enemies (zones s_kicked ! 0)) = 5"
    using arg_cong [OF kicked_parts(9), of length] by simp
  have i: "0 < length (enemies (zones s_kicked ! 0))" using len by simp
  have ref: "enemy (enemies (zones s_kicked ! 0) ! 0) = Some 0"
    by (simp add: kicked_parts(10))
  have live: "active (Enemy.sprite (enemyStore s_kicked 0))"
    by (simp add: kicked_parts(8) spawned_def mockEnemy_def)
  have pre: "state ?cfg \<in> {STATIONARY, PATROLLING}
      \<and> distanceToPlayer (enemyStore s_kicked 0) ?p \<le> StationaryEnemy.aggroRadius ?cfg
      \<and> hasAggro (enemyStore s_kicked 0) \<noteq> Some True"
    by (simp add: kicked_parts(8) stationaryEnemy_def spawned_def mockEnemy_def distanceToPlayer_def
        distance_def Vector2_new_def)
  from update_aggro_state_machine [OF kicked_parts(1,2,3,4) kicked_wf i ref live
      kicked_parts(10) [symmetric] refl, of mocks env0 16 ?p]
  obtain s1 where s1: "EncounterSystem_update mocks env0 16 ?p s_kicked = Inr s1"
    "enemies (zones s1 ! 0) ! 0 = ?cfg\<lparr>state := AGGROED\<rparr>"
    using pre by blast
  have "state (enemies (zones s_kicked ! 0) ! 0) = STATIONARY
      \<and> state (enemies (zones s1 ! 0) ! 0) = AGGROED"
    using s1(2) by (simp add: kicked_parts(10) stationaryEnemy_def)
  then have first: "\<exists>s1. EncounterSystem_update mocks env0 16 ?p s_kicked = Inr s1
        \<and> state (enemies (zones s_kicked ! 0) ! 0) = STATIONARY
        \<and> state (enemies (zones s1 ! 0) ! 0) = AGGROED"
    using s1(1) by blast
  have cfga: "state ?cfga = AGGROED" "StationaryEnemy.aggroRadius ?cfga = 100"
    "StationaryEnemy.patrolPath ?cfga = None"
    by (simp_all add: stationaryEnemy_def)
  from update_aggro_state_machine [OF aggroed_parts(1,2,3,4,5,6,7,8) aggroed_parts(9) [symmetric]
      aggroed_parts(10) [symmetric], of mocks env0 16]
  obtain s2 where s2: "EncounterSystem_update mocks env0 16 (Vector2_new 220 100) s_aggroed = Inr s2"
    "enemies (zones s2 ! 0) ! 0 = ?cfga"
    using cfga by auto
  from update_aggro_state_machine [OF aggroed_parts(1,2,3,4,5,6,7,8) aggroed_parts(9) [symmetric]
      aggroed_parts(11) [symmetric], of mocks env0 16]
  obtain s3 where s3: "EncounterSystem_update mocks env0 16 (Vector2_new 251 100) s_aggroed = Inr s3"
    "enemies (zones s3 ! 0) ! 0 = ?cfga\<lparr>state := STATIONARY\<rparr>"
    using cfga by auto
  have second: "\<exists>s1. EncounterSystem_update mocks env0 16 (Vector2_new 220 100) s_aggroed = Inr s1
        \<and> state (enemies (zones s_aggroed ! 0) ! 0) = AGGROED
        \<and> state (enemies (zones s1 ! 0) ! 0) = AGGROED"
    using s2 cfga(1) by (auto simp add: aggroed_parts(9))
  have third: "\<exists>s1. EncounterSystem_update mocks env0 16 (Vector2_new 251 100) s_aggroed = Inr s1
        \<and> state (enemies (zones s1 ! 0) ! 0) = STATIONARY"
    using s3 by auto
  have cfgp: "state (stationaryEnemy (Vector2_new 500 300) BASIC 120 st ?path\<lparr>enemy := Some 1\<rparr>) = st"
    "StationaryEnemy.aggroRadius (stationaryEnemy (Vector2_new 500 300) BASIC 120 st ?path\<lparr>enemy := Some 1\<rparr>) = 120"
    "StationaryEnemy.patrolPath (stationaryEnemy (Vector2_new 500 300) BASIC 120 st ?path\<lparr>enemy := Some 1\<rparr>) = ?path"
    for st
    by (simp_all add: stationaryEnemy_def)
  note pp = patrol_parts [of PATROLLING False]
  note pa = patrol_parts [of AGGROED True]
  from update_aggro_state_machine [OF pp(1,2,3,4,5,6,7,8) pp(9) [symmetric] pp(10) [symmetric],
      of mocks env0 16]
  obtain s4 where s4: "EncounterSystem_update mocks env0 16 ?p (s_patrol PATROLLING False) = Inr s4"
    "state (enemies (zones s4 ! 0) ! 1) = AGGROED"
    using cfgp pp(12) by auto
  from update_aggro_state_machine [OF pa(1,2,3,4,5,6,7,8) pa(9) [symmetric] pa(11) [symmetric],
      of mocks env0 16]
  obtain s5 where s5: "EncounterSystem_update mocks env0 16 (Vector2_new 281 100) (s_patrol AGGROED True) = Inr s5"
    "state (enemies (zones s5 ! 0) ! 1) = PATROLLING"
    using cfgp by auto
  show ?thesis using first second third s4 s5 by blast
qed

theorem loadZone_unknown_or_locked_witness:
  "loadZone mocks ''desert-outpost'' s_init = s_init\<lparr>console := [zoneWarning ''desert-outpost'']\<rparr>
   \<and> loadZone mocks ''nowhere'' s_init = s_init\<lparr>console := [zoneWarning ''nowhere'']\<rparr>
   \<and> loadZone mocks ''arctic-lab'' s_loaded
       = s_loaded\<lparr>console := console s_loaded @ [zoneWarning ''arctic-lab'']\<rparr>
   \<and> currentZone (loadZone mocks ''arctic-lab'' s_loaded) = Some 0"
proof -
  have a: "findIndex (\<lambda>z. zoneId z = ''desert-outpost'') (zones s_init) = Some 1
           \<and> \<not> isUnlocked (zones s_init ! 1)"
    by (simp add: s_init_def EncounterSystem_new_def createGameZones_def tutorialGrove_def
        desertOutpost_def arcticLab_def)
  have b: "\<forall>z \<in> set (zones s_init). zoneId z \<noteq> ''nowhere''"
    by (simp add: s_init_def EncounterSystem_new_def createGameZones_def tutorialGrove_def
        desertOutpost_def arcticLab_def)
  have c: "findIndex (\<lambda>z. zoneId z = ''arctic-lab'') (zones s_loaded) = Some 2
           \<and> \<not> isUnlocked (zones s_loaded ! 2)"
    by (simp add: s_loaded_eq tutorialGrove_def desertOutpost_def arcticLab_def)
  have d: "currentZone s_loaded = Some 0" "console s_init = []"
    by (simp_all add: s_loaded_eq s_init_def EncounterSystem_new_def)
  show ?thesis
    using loadZone_unknown_or_locked [of s_init "''desert-outpost''" mocks]
      loadZone_unknown_or_locked [of s_init "''nowhere''" mocks]
      loadZone_unknown_or_locked [of s_loaded "''arctic-lab''" mocks]
      a b c d
    by (simp del: findIndex.simps)
qed

lemma sqrt_le_numeral: "0 \<le> b \<Longrightarrow> sqrt a \<le> b \<longleftrightarrow> a \<le> b\<^sup>2"
  by (metis abs_of_nonneg real_sqrt_abs real_sqrt_le_iff)

text \<open>
  The scenarios of the spec on the model: after loading the tutorial zone there are
  five active enemies and three active props and the zone's boss unlocks
  \<^verbatim>\<open>chimpanzini-bananini\<close>; a tick with the player at the boss position starts the
  boss fight, a tick with the player at (100, 100) does not.
\<close>

lemma scenario_distance: "distance (Vector2_new 0 0) (Vector2_new 3 4) = 5"
  by (simp add: distance_def Vector2_new_def)

lemma scenario_load:
  "length (getActiveEnemies s_loaded) = 5"
  "length (getActiveObjects s_loaded) = 3"
  "map_option unlockCharacter (case getCurrentZone s_loaded of None \<Rightarrow> None | Some z \<Rightarrow> boss z)
     = Some ''chimpanzini-bananini''"
  by (simp_all add: s_loaded_eq getActiveEnemies_def getActiveObjects_def getCurrentZone_def
      spawned_def mockEnemy_def KickableObject_new_def tutorialGrove_def swarmKing_def Let_def)

lemma scenario_boss_near:
  "\<exists>s1. EncounterSystem_update mocks env0 16 (Vector2_new 900 600) s_loaded = Inr s1 \<and> isBossActive s1"
  by (simp add: scenario_defs update_defs isBossActive_def sqrt_le_numeral releaseAll_def
      split: prod.split)

lemma scenario_boss_far:
  "\<exists>s1. EncounterSystem_update mocks env0 16 (Vector2_new 100 100) s_loaded = Inr s1 \<and> \<not> isBossActive s1"
  by (simp add: scenario_defs update_defs isBossActive_def sqrt_le_numeral)

end
